theory Spec2Isabelle
  imports Complex_Main
begin

section \<open>The C++ type float: IEEE-754 binary32\<close>

text \<open>
  \<open>Vector3.hpp\<close> computes with the C++ type \<open>float\<close>. Its values are modelled as the
  value set of IEEE-754 binary32: a NaN, the two infinities, and the finite numbers. Every
  finite binary32 number is an integer multiple of the smallest subnormal \<open>2^(-149)\<close>, so a
  finite value is a sign (\<open>True\<close> is negative) and a natural number \<open>n\<close> standing for
  \<open>n * 2^(-149)\<close>. Subnormals are \<open>n < 2^23\<close>; a normal number with biased exponent
  \<open>e \<ge> 1\<close> and 24-bit significand \<open>m\<close> is \<open>n = m * 2^(e-1)\<close>; the largest finite number is
  \<open>(2^24 - 1) * 2^253\<close>, and \<open>1.0\<close> is \<open>2^149\<close>. Signed zeros are \<open>Fin False 0\<close> and
  \<open>Fin True 0\<close>. NaN payloads are not distinguished.

  Each arithmetic operation computes the exact result and rounds it once to nearest, ties
  to even, with gradual underflow and overflow to infinity: the default IEEE-754 mode, with
  every C++ operator rounded separately to binary32.
\<close>

datatype float = NaN | Infty bool | Fin bool nat

fun bitlen :: "nat \<Rightarrow> nat" where
  "bitlen n = (if n = 0 then 0 else Suc (bitlen (n div 2)))"

declare bitlen.simps [simp del]

text \<open>The naturals \<open>n\<close> for which \<open>n * 2^(-149)\<close> is a binary32 number: at most 24 significant bits, below the overflow threshold.\<close>

definition representable :: "nat \<Rightarrow> bool" where
  "representable n \<longleftrightarrow> n < 2 ^ 277 \<and> n mod 2 ^ (bitlen n - 24) = 0"

fun is_binary32 :: "float \<Rightarrow> bool" where
  "is_binary32 (Fin s n) = representable n"
| "is_binary32 (Infty s) = True"
| "is_binary32 NaN = True"

subsection \<open>Rounding to nearest, ties to even\<close>

definition pack :: "bool \<Rightarrow> nat \<Rightarrow> float" where
  "pack s n = (if 2 ^ 277 \<le> n then Infty s else Fin s n)"

text \<open>Quotient \<open>q\<close> and remainder \<open>r\<close> of the exact value by the unit in the last place \<open>u\<close>.\<close>

definition rne :: "nat \<Rightarrow> nat \<Rightarrow> nat \<Rightarrow> nat" where
  "rne q r u = (if u < 2 * r \<or> (2 * r = u \<and> odd q) then q + 1 else q)"

text \<open>
  \<open>round_jam s j\<close> rounds the magnitude \<open>j * 2^(-152)\<close>: three bits below the smallest
  subnormal, the lowest one sticky (set when the exact value has further nonzero bits).
  The result keeps 24 significant bits, or all bits down to \<open>2^(-149)\<close> for subnormals.
\<close>

definition round_at :: "bool \<Rightarrow> nat \<Rightarrow> nat \<Rightarrow> float" where
  "round_at s j k = pack s (rne (j div (8 * 2 ^ k)) (j mod (8 * 2 ^ k)) (8 * 2 ^ k) * 2 ^ k)"

definition round_jam :: "bool \<Rightarrow> nat \<Rightarrow> float" where
  "round_jam s j = round_at s j (bitlen (j div 8) - 24)"

definition jam :: "nat \<Rightarrow> nat \<Rightarrow> nat" where
  "jam X den = 2 * (X div den) + (if X mod den = 0 then 0 else 1)"

text \<open>The binary32 number nearest to the rational \<open>num / den\<close>, with sign \<open>s\<close>.\<close>

definition round_ratio :: "bool \<Rightarrow> nat \<Rightarrow> nat \<Rightarrow> float" where
  "round_ratio s num den = round_jam s (jam (num * 2 ^ 151) den)"

text \<open>Integer square root, for \<open>sqrtf\<close>.\<close>

definition sqrt_step :: "nat \<Rightarrow> nat \<Rightarrow> nat" where
  "sqrt_step n r = (if (r + 1) * (r + 1) \<le> n then r + 1 else r)"

fun isqrt :: "nat \<Rightarrow> nat" where
  "isqrt n = (if n < 4 then (if n = 0 then 0 else 1) else sqrt_step n (2 * isqrt (n div 4)))"

declare isqrt.simps [simp del]

subsection \<open>Arithmetic\<close>

fun isnan :: "float \<Rightarrow> bool" where
  "isnan NaN = True"
| "isnan (Infty s) = False"
| "isnan (Fin s n) = False"

fun fneg :: "float \<Rightarrow> float" where
  "fneg NaN = NaN"
| "fneg (Infty s) = Infty (\<not> s)"
| "fneg (Fin s n) = Fin (\<not> s) n"

fun fadd :: "float \<Rightarrow> float \<Rightarrow> float" where
  "fadd NaN b = NaN"
| "fadd (Infty s) NaN = NaN"
| "fadd (Infty s) (Infty t) = (if s = t then Infty s else NaN)"
| "fadd (Infty s) (Fin t n) = Infty s"
| "fadd (Fin s m) NaN = NaN"
| "fadd (Fin s m) (Infty t) = Infty t"
| "fadd (Fin s m) (Fin t n) =
     (if s = t then round_ratio s (m + n) (2 ^ 149)
      else if m = n then Fin False 0
      else if n < m then round_ratio s (m - n) (2 ^ 149)
      else round_ratio t (n - m) (2 ^ 149))"

definition fsub :: "float \<Rightarrow> float \<Rightarrow> float" where
  "fsub a b = fadd a (fneg b)"

fun fmul :: "float \<Rightarrow> float \<Rightarrow> float" where
  "fmul NaN b = NaN"
| "fmul (Infty s) NaN = NaN"
| "fmul (Infty s) (Infty t) = Infty (s \<noteq> t)"
| "fmul (Infty s) (Fin t n) = (if n = 0 then NaN else Infty (s \<noteq> t))"
| "fmul (Fin s m) NaN = NaN"
| "fmul (Fin s m) (Infty t) = (if m = 0 then NaN else Infty (s \<noteq> t))"
| "fmul (Fin s m) (Fin t n) = round_ratio (s \<noteq> t) (m * n) (2 ^ 298)"

fun fdiv :: "float \<Rightarrow> float \<Rightarrow> float" where
  "fdiv NaN b = NaN"
| "fdiv (Infty s) NaN = NaN"
| "fdiv (Infty s) (Infty t) = NaN"
| "fdiv (Infty s) (Fin t n) = Infty (s \<noteq> t)"
| "fdiv (Fin s m) NaN = NaN"
| "fdiv (Fin s m) (Infty t) = Fin (s \<noteq> t) 0"
| "fdiv (Fin s m) (Fin t n) =
     (if n = 0 then (if m = 0 then NaN else Infty (s \<noteq> t))
      else round_ratio (s \<noteq> t) m n)"

text \<open>\<open>::std::sqrtf\<close>, correctly rounded as IEEE-754 requires of the square root.\<close>

definition jam_sqrt :: "nat \<Rightarrow> nat \<Rightarrow> nat" where
  "jam_sqrt X r = 2 * r + (if r * r = X then 0 else 1)"

fun fsqrt :: "float \<Rightarrow> float" where
  "fsqrt NaN = NaN"
| "fsqrt (Infty s) = (if s then NaN else Infty False)"
| "fsqrt (Fin s n) =
     (if n = 0 then Fin s 0
      else if s then NaN
      else round_jam False (jam_sqrt (n * 2 ^ 153) (isqrt (n * 2 ^ 153))))"

text \<open>
  The fused multiply-add \<open>a * b + c\<close>: the exact product plus \<open>c\<close>, rounded once. A
  compiler that contracts floating-point expressions evaluates \<open>p * q - r * s\<close> with it.
\<close>

fun ffma :: "float \<Rightarrow> float \<Rightarrow> float \<Rightarrow> float" where
  "ffma (Fin s m) (Fin t n) (Fin r k) =
     (if (s \<noteq> t) = r then round_ratio r (m * n + k * 2 ^ 149) (2 ^ 298)
      else if m * n = k * 2 ^ 149 then Fin False 0
      else if k * 2 ^ 149 < m * n then round_ratio (s \<noteq> t) (m * n - k * 2 ^ 149) (2 ^ 298)
      else round_ratio r (k * 2 ^ 149 - m * n) (2 ^ 298))"
| "ffma (Fin s m) (Fin t n) (Infty r) = Infty r"
| "ffma (Fin s m) (Fin t n) NaN = NaN"
| "ffma (Fin s m) (Infty t) c = fadd (fmul (Fin s m) (Infty t)) c"
| "ffma (Fin s m) NaN c = NaN"
| "ffma (Infty s) b c = fadd (fmul (Infty s) b) c"
| "ffma NaN b c = NaN"

subsection \<open>Comparisons\<close>

fun ford :: "float \<Rightarrow> int" where
  "ford NaN = 0"
| "ford (Infty s) = (if s then - (2 ^ 277) else 2 ^ 277)"
| "ford (Fin s n) = (if s then - int n else int n)"

text \<open>The C++ operators \<open><\<close>, \<open><=\<close>, \<open>==\<close>, \<open>>\<close>, \<open>>=\<close>, \<open>!=\<close> on floats: every comparison with a NaN is false, except \<open>!=\<close>.\<close>

definition flt :: "float \<Rightarrow> float \<Rightarrow> bool" where
  "flt a b \<longleftrightarrow> \<not> isnan a \<and> \<not> isnan b \<and> ford a < ford b"

definition fle :: "float \<Rightarrow> float \<Rightarrow> bool" where
  "fle a b \<longleftrightarrow> \<not> isnan a \<and> \<not> isnan b \<and> ford a \<le> ford b"

definition feq :: "float \<Rightarrow> float \<Rightarrow> bool" where
  "feq a b \<longleftrightarrow> \<not> isnan a \<and> \<not> isnan b \<and> ford a = ford b"

definition fgt :: "float \<Rightarrow> float \<Rightarrow> bool" where
  "fgt a b \<longleftrightarrow> flt b a"

definition fge :: "float \<Rightarrow> float \<Rightarrow> bool" where
  "fge a b \<longleftrightarrow> fle b a"

definition fne :: "float \<Rightarrow> float \<Rightarrow> bool" where
  "fne a b \<longleftrightarrow> \<not> feq a b"

subsection \<open>Literals\<close>

text \<open>A decimal literal with suffix \<open>f\<close> denotes the binary32 number nearest to it.\<close>

definition lit :: "nat \<Rightarrow> nat \<Rightarrow> float" where
  "lit num den = round_ratio False num den"

definition f0 :: float where
  "f0 = Fin False 0"

definition f1 :: float where
  "f1 = Fin False (2 ^ 149)"


subsection \<open>Classes of values\<close>

fun is_finite :: "float \<Rightarrow> bool" where
  "is_finite (Fin s n) = True"
| "is_finite (Infty s) = False"
| "is_finite NaN = False"

fun nonneg :: "float \<Rightarrow> bool" where
  "nonneg (Fin s n) = (\<not> s)"
| "nonneg (Infty s) = (\<not> s)"
| "nonneg NaN = False"

fun is_zero :: "float \<Rightarrow> bool" where
  "is_zero (Fin s n) = (n = 0)"
| "is_zero (Infty s) = False"
| "is_zero NaN = False"

text \<open>Equal as numbers: the same value, or two zeros of either sign.\<close>

definition fsame :: "float \<Rightarrow> float \<Rightarrow> bool" where
  "fsame a b \<longleftrightarrow>
     a = b \<or> (a = Fin False 0 \<or> a = Fin True 0) \<and> (b = Fin False 0 \<or> b = Fin True 0)"

section \<open>Vector3\<close>

text \<open>
  \<open>class Vector3\<close>: the union of \<open>struct { float x, y, z; }\<close> and \<open>float m[3]\<close> is a
  record of its three fields.
\<close>

record Vector3 =
  x :: float
  y :: float
  z :: float

datatype error = AssertionFailed | OutOfBounds

text \<open>
  Modelled from the spec: the macro \<open>Assert\<close> of \<open>FishEngine.hpp\<close>, a debug-time assertion
  that fails fast and is compiled out in release builds. The flag \<open>dbg\<close> tells whether
  assertions are compiled in; every function that asserts takes it.
\<close>

definition Assert :: "bool \<Rightarrow> bool \<Rightarrow> error + unit" where
  "Assert dbg c = (if dbg \<and> \<not> c then Inl AssertionFailed else Inr ())"

text \<open>Sequencing: a failed step ends the computation.\<close>

definition and_then :: "error + 'a \<Rightarrow> ('a \<Rightarrow> error + 'b) \<Rightarrow> error + 'b" where
  "and_then m f = (case m of Inl e \<Rightarrow> Inl e | Inr v \<Rightarrow> f v)"

definition hasNaNs :: "Vector3 \<Rightarrow> bool" where
  "hasNaNs v \<longleftrightarrow> isnan (x v) \<or> isnan (y v) \<or> isnan (z v)"

subsection \<open>Constructors\<close>

text \<open>\<open>Vector3(float x, float y, float z)\<close>\<close>

definition Vector3_xyz :: "bool \<Rightarrow> float \<Rightarrow> float \<Rightarrow> float \<Rightarrow> error + Vector3" where
  "Vector3_xyz dbg a b c =
     and_then (Assert dbg (\<not> hasNaNs \<lparr>x = a, y = b, z = c\<rparr>))
       (\<lambda>_. Inr \<lparr>x = a, y = b, z = c\<rparr>)"

text \<open>\<open>Vector3(float x, float y)\<close>\<close>

definition Vector3_xy :: "bool \<Rightarrow> float \<Rightarrow> float \<Rightarrow> error + Vector3" where
  "Vector3_xy dbg a b =
     and_then (Assert dbg (\<not> hasNaNs \<lparr>x = a, y = b, z = f0\<rparr>))
       (\<lambda>_. Inr \<lparr>x = a, y = b, z = f0\<rparr>)"

text \<open>
  \<open>Vector3(float* array)\<close> reads \<open>array[0]\<close>, \<open>array[1]\<close>, \<open>array[2]\<close> and asserts nothing.
  The array is a list; reading past its end is undefined in C++ and is the error
  \<open>OutOfBounds\<close> here.
\<close>

definition Vector3_array :: "float list \<Rightarrow> error + Vector3" where
  "Vector3_array array =
     (if length array < 3 then Inl OutOfBounds
      else Inr \<lparr>x = array ! 0, y = array ! 1, z = array ! 2\<rparr>)"

text \<open>\<open>Vector3()\<close> delegates to \<open>Vector3(0, 0, 0)\<close>.\<close>

definition Vector3_default :: "bool \<Rightarrow> error + Vector3" where
  "Vector3_default dbg = Vector3_xyz dbg f0 f0 f0"

text \<open>
  Modelled from the spec: the constant \<open>Vector3::zero\<close>, defined outside \<open>Vector3.hpp\<close>;
  the header declares it as the shorthand for writing \<open>Vector3(0, 0, 0)\<close>.
\<close>

definition zero :: Vector3 where
  "zero = \<lparr>x = f0, y = f0, z = f0\<rparr>"

subsection \<open>Magnitudes\<close>

definition magnitude :: "Vector3 \<Rightarrow> float" where
  "magnitude v = fsqrt (fadd (fadd (fmul (x v) (x v)) (fmul (y v) (y v))) (fmul (z v) (z v)))"

definition sqrMagnitude :: "Vector3 \<Rightarrow> float" where
  "sqrMagnitude v = fadd (fadd (fmul (x v) (x v)) (fmul (y v) (y v))) (fmul (z v) (z v))"

text \<open>The static \<open>Magnitude\<close> and \<open>SqrMagnitude\<close>.\<close>

definition Magnitude :: "Vector3 \<Rightarrow> float" where
  "Magnitude a = fsqrt (fadd (fadd (fmul (x a) (x a)) (fmul (y a) (y a))) (fmul (z a) (z a)))"

definition SqrMagnitude :: "Vector3 \<Rightarrow> float" where
  "SqrMagnitude a = fadd (fadd (fmul (x a) (x a)) (fmul (y a) (y a))) (fmul (z a) (z a))"

subsection \<open>Operators\<close>

text \<open>
  A member operator takes \<open>*this\<close> as its first vector argument. A compound assignment
  returns the new value of \<open>*this\<close>.
\<close>

definition op_assign :: "bool \<Rightarrow> Vector3 \<Rightarrow> Vector3 \<Rightarrow> error + Vector3" where
  "op_assign dbg this v =
     and_then (Assert dbg (\<not> hasNaNs v))
       (\<lambda>_. Inr (this\<lparr>x := x v, y := y v, z := z v\<rparr>))"

definition op_neg :: "bool \<Rightarrow> Vector3 \<Rightarrow> error + Vector3" where
  "op_neg dbg this = Vector3_xyz dbg (fneg (x this)) (fneg (y this)) (fneg (z this))"

definition op_add :: "bool \<Rightarrow> Vector3 \<Rightarrow> Vector3 \<Rightarrow> error + Vector3" where
  "op_add dbg this v =
     and_then (Assert dbg (\<not> hasNaNs v))
       (\<lambda>_. Vector3_xyz dbg (fadd (x this) (x v)) (fadd (y this) (y v)) (fadd (z this) (z v)))"

definition op_sub :: "bool \<Rightarrow> Vector3 \<Rightarrow> Vector3 \<Rightarrow> error + Vector3" where
  "op_sub dbg this v =
     and_then (Assert dbg (\<not> hasNaNs v))
       (\<lambda>_. Vector3_xyz dbg (fsub (x this) (x v)) (fsub (y this) (y v)) (fsub (z this) (z v)))"

definition op_mul :: "bool \<Rightarrow> Vector3 \<Rightarrow> Vector3 \<Rightarrow> error + Vector3" where
  "op_mul dbg this v =
     and_then (Assert dbg (\<not> hasNaNs v))
       (\<lambda>_. Vector3_xyz dbg (fmul (x this) (x v)) (fmul (y this) (y v)) (fmul (z this) (z v)))"

definition op_add_assign :: "bool \<Rightarrow> Vector3 \<Rightarrow> Vector3 \<Rightarrow> error + Vector3" where
  "op_add_assign dbg this v =
     and_then (Assert dbg (\<not> hasNaNs v))
       (\<lambda>_. Inr (this\<lparr>x := fadd (x this) (x v), y := fadd (y this) (y v), z := fadd (z this) (z v)\<rparr>))"

definition op_sub_assign :: "bool \<Rightarrow> Vector3 \<Rightarrow> Vector3 \<Rightarrow> error + Vector3" where
  "op_sub_assign dbg this v =
     and_then (Assert dbg (\<not> hasNaNs v))
       (\<lambda>_. Inr (this\<lparr>x := fsub (x this) (x v), y := fsub (y this) (y v), z := fsub (z this) (z v)\<rparr>))"

definition op_add_f :: "bool \<Rightarrow> Vector3 \<Rightarrow> float \<Rightarrow> error + Vector3" where
  "op_add_f dbg this f =
     and_then (Assert dbg (\<not> isnan f))
       (\<lambda>_. Vector3_xyz dbg (fadd (x this) f) (fadd (y this) f) (fadd (z this) f))"

definition op_sub_f :: "bool \<Rightarrow> Vector3 \<Rightarrow> float \<Rightarrow> error + Vector3" where
  "op_sub_f dbg this f =
     and_then (Assert dbg (\<not> isnan f))
       (\<lambda>_. Vector3_xyz dbg (fsub (x this) f) (fsub (y this) f) (fsub (z this) f))"

definition op_mul_f :: "bool \<Rightarrow> Vector3 \<Rightarrow> float \<Rightarrow> error + Vector3" where
  "op_mul_f dbg this f =
     and_then (Assert dbg (\<not> isnan f))
       (\<lambda>_. Vector3_xyz dbg (fmul (x this) f) (fmul (y this) f) (fmul (z this) f))"

definition op_div_f :: "bool \<Rightarrow> Vector3 \<Rightarrow> float \<Rightarrow> error + Vector3" where
  "op_div_f dbg this f =
     and_then (Assert dbg (\<not> isnan f \<and> fne f f0))
       (\<lambda>_. Vector3_xyz dbg (fdiv (x this) f) (fdiv (y this) f) (fdiv (z this) f))"

definition op_add_assign_f :: "bool \<Rightarrow> Vector3 \<Rightarrow> float \<Rightarrow> error + Vector3" where
  "op_add_assign_f dbg this f =
     and_then (Assert dbg (\<not> isnan f))
       (\<lambda>_. Inr (this\<lparr>x := fadd (x this) f, y := fadd (y this) f, z := fadd (z this) f\<rparr>))"

definition op_sub_assign_f :: "bool \<Rightarrow> Vector3 \<Rightarrow> float \<Rightarrow> error + Vector3" where
  "op_sub_assign_f dbg this f =
     and_then (Assert dbg (\<not> isnan f))
       (\<lambda>_. Inr (this\<lparr>x := fsub (x this) f, y := fsub (y this) f, z := fsub (z this) f\<rparr>))"

definition op_mul_assign_f :: "bool \<Rightarrow> Vector3 \<Rightarrow> float \<Rightarrow> error + Vector3" where
  "op_mul_assign_f dbg this f =
     and_then (Assert dbg (\<not> isnan f))
       (\<lambda>_. Inr (this\<lparr>x := fmul (x this) f, y := fmul (y this) f, z := fmul (z this) f\<rparr>))"

definition op_div_assign_f :: "bool \<Rightarrow> Vector3 \<Rightarrow> float \<Rightarrow> error + Vector3" where
  "op_div_assign_f dbg this f =
     and_then (Assert dbg (\<not> isnan f))
       (\<lambda>_. Inr (this\<lparr>x := fdiv (x this) f, y := fdiv (y this) f, z := fdiv (z this) f\<rparr>))"

text \<open>The friends \<open>operator*(float, Vector3)\<close> and \<open>operator/(float, Vector3)\<close>.\<close>

definition f_mul_op :: "bool \<Rightarrow> float \<Rightarrow> Vector3 \<Rightarrow> error + Vector3" where
  "f_mul_op dbg f v =
     and_then (Assert dbg (\<not> isnan f \<and> \<not> hasNaNs v))
       (\<lambda>_. Vector3_xyz dbg (fmul (x v) f) (fmul (y v) f) (fmul (z v) f))"

definition f_div_op :: "bool \<Rightarrow> float \<Rightarrow> Vector3 \<Rightarrow> error + Vector3" where
  "f_div_op dbg f v =
     and_then (Assert dbg (\<not> isnan f \<and> \<not> hasNaNs v))
       (\<lambda>_. Vector3_xyz dbg (fdiv f (x v)) (fdiv f (y v)) (fdiv f (z v)))"

text \<open>The friends \<open>operator==\<close> and \<open>operator!=\<close>; \<open>9.99999944E-11f\<close> is the literal of the source.\<close>

definition op_eq :: "bool \<Rightarrow> Vector3 \<Rightarrow> Vector3 \<Rightarrow> error + bool" where
  "op_eq dbg lhs rhs =
     and_then (op_sub dbg lhs rhs) (\<lambda>d. Inr (flt (SqrMagnitude d) (lit 999999944 (10 ^ 19))))"

definition op_ne :: "bool \<Rightarrow> Vector3 \<Rightarrow> Vector3 \<Rightarrow> error + bool" where
  "op_ne dbg lhs rhs =
     and_then (op_sub dbg lhs rhs) (\<lambda>d. Inr (fge (SqrMagnitude d) (lit 999999944 (10 ^ 19))))"

subsection \<open>Normalisation\<close>

text \<open>The static \<open>Normalize(const Vector3&)\<close>; \<open>1E-05f\<close> is \<open>lit 1 100000\<close>.\<close>

definition Normalize :: "bool \<Rightarrow> Vector3 \<Rightarrow> error + Vector3" where
  "Normalize dbg val =
     (if fgt (magnitude val) (lit 1 100000) then op_div_f dbg val (magnitude val)
      else Inr zero)"

definition normalized :: "bool \<Rightarrow> Vector3 \<Rightarrow> error + Vector3" where
  "normalized dbg this = Normalize dbg this"

text \<open>The member \<open>void Normalize()\<close>: the result is the new value of \<open>*this\<close>; it asserts nothing.\<close>

definition Normalize_this :: "Vector3 \<Rightarrow> Vector3" where
  "Normalize_this this =
     (if fgt (magnitude this) (lit 1 100000)
      then this\<lparr>x := fdiv (x this) (magnitude this),
                y := fdiv (y this) (magnitude this),
                z := fdiv (z this) (magnitude this)\<rparr>
      else this\<lparr>z := f0, y := f0, x := f0\<rparr>)"

subsection \<open>Products, clamping, interpolation\<close>

definition Dot :: "Vector3 \<Rightarrow> Vector3 \<Rightarrow> float" where
  "Dot lhs rhs = fadd (fadd (fmul (x lhs) (x rhs)) (fmul (y lhs) (y rhs))) (fmul (z lhs) (z rhs))"

text \<open>
  \<open>Dot\<close> as a build that contracts the sum of products evaluates it: one rounded product
  and two fused multiply-adds.
\<close>

definition Dot_fused :: "Vector3 \<Rightarrow> Vector3 \<Rightarrow> float" where
  "Dot_fused lhs rhs = ffma (z lhs) (z rhs) (ffma (y lhs) (y rhs) (fmul (x lhs) (x rhs)))"

text \<open>
  \<open>Cross\<close> computes each field as \<open>p * q - r * s\<close>. With every operator rounded separately
  (\<open>fused = False\<close>) that is the difference of two rounded products. A build that contracts
  the expression into a fused multiply-add (\<open>fused = True\<close>, as with \<open>-ffp-contract=fast\<close>
  on a target with the instruction) rounds only \<open>r * s\<close> and then \<open>p * q - r * s\<close> once.
\<close>

definition mul_sub :: "bool \<Rightarrow> float \<Rightarrow> float \<Rightarrow> float \<Rightarrow> float \<Rightarrow> float" where
  "mul_sub fused p q r s =
     (if fused then ffma p q (fneg (fmul r s)) else fsub (fmul p q) (fmul r s))"

definition Cross :: "bool \<Rightarrow> bool \<Rightarrow> Vector3 \<Rightarrow> Vector3 \<Rightarrow> error + Vector3" where
  "Cross fused dbg lhs rhs =
     Vector3_xyz dbg
       (mul_sub fused (y lhs) (z rhs) (z lhs) (y rhs))
       (mul_sub fused (z lhs) (x rhs) (x lhs) (z rhs))
       (mul_sub fused (x lhs) (y rhs) (y lhs) (x rhs))"

definition ClampMagnitude :: "bool \<Rightarrow> Vector3 \<Rightarrow> float \<Rightarrow> error + Vector3" where
  "ClampMagnitude dbg vec maxLength =
     (if fgt (sqrMagnitude vec) (fmul maxLength maxLength)
      then and_then (normalized dbg vec) (\<lambda>n. op_mul_f dbg n maxLength)
      else Inr vec)"

text \<open>
  Modelled from the spec: \<open>Mathf::Clamp01\<close> of \<open>Mathf.hpp\<close>, which clamps its argument to
  the interval from 0 to 1.
\<close>

definition Clamp01 :: "float \<Rightarrow> float" where
  "Clamp01 t = (if flt t f0 then f0 else if fgt t f1 then f1 else t)"

definition LerpUnClamped :: "bool \<Rightarrow> Vector3 \<Rightarrow> Vector3 \<Rightarrow> float \<Rightarrow> error + Vector3" where
  "LerpUnClamped dbg a b t =
     Vector3_xyz dbg
       (fadd (x a) (fmul (fsub (x b) (x a)) t))
       (fadd (y a) (fmul (fsub (y b) (y a)) t))
       (fadd (z a) (fmul (fsub (z b) (z a)) t))"

definition Lerp :: "bool \<Rightarrow> Vector3 \<Rightarrow> Vector3 \<Rightarrow> float \<Rightarrow> error + Vector3" where
  "Lerp dbg a b t =
     Vector3_xyz dbg
       (fadd (x a) (fmul (fsub (x b) (x a)) (Clamp01 t)))
       (fadd (y a) (fmul (fsub (y b) (y a)) (Clamp01 t)))
       (fadd (z a) (fmul (fsub (z b) (z a)) (Clamp01 t)))"

text \<open>
  The comment that the source puts above \<open>Lerp\<close> and \<open>LerpUnClamped\<close>, at their
  declarations and at their definitions, gives the formula \<open>a*(1-t) + b*t\<close>. This is that
  formula, field by field and with \<open>t\<close> clamped as \<open>Lerp\<close> clamps it, to compare with
  what the body computes.
\<close>

definition Lerp_comment :: "bool \<Rightarrow> Vector3 \<Rightarrow> Vector3 \<Rightarrow> float \<Rightarrow> error + Vector3" where
  "Lerp_comment dbg a b t =
     Vector3_xyz dbg
       (fadd (fmul (x a) (fsub f1 (Clamp01 t))) (fmul (x b) (Clamp01 t)))
       (fadd (fmul (y a) (fsub f1 (Clamp01 t))) (fmul (y b) (Clamp01 t)))
       (fadd (fmul (z a) (fsub f1 (Clamp01 t))) (fmul (z b) (Clamp01 t)))"

text \<open>
  \<open>Angle\<close> calls \<open>::std::acosf\<close> of the C library and multiplies by \<open>Mathf::Rad2Deg\<close> of
  \<open>Mathf.hpp\<close>; neither is in \<open>Vector3.hpp\<close>, and both are parameters.
\<close>

definition Angle :: "(float \<Rightarrow> float) \<Rightarrow> float \<Rightarrow> bool \<Rightarrow> Vector3 \<Rightarrow> Vector3 \<Rightarrow> error + float" where
  "Angle acosf Rad2Deg dbg from to =
     and_then (Normalize dbg from) (\<lambda>nf.
     and_then (Normalize dbg to) (\<lambda>nt.
       Inr (fmul (acosf (Dot nf nt)) Rad2Deg)))"


subsection \<open>Vectors with finite fields\<close>

text \<open>The fields that \<open>operator/\<close> hands to the constructor, and that \<open>Normalize()\<close> stores.\<close>

definition div_fields :: "Vector3 \<Rightarrow> float \<Rightarrow> Vector3" where
  "div_fields v f = \<lparr>x = fdiv (x v) f, y = fdiv (y v) f, z = fdiv (z v) f\<rparr>"

definition finite_vec :: "Vector3 \<Rightarrow> bool" where
  "finite_vec v \<longleftrightarrow> is_finite (x v) \<and> is_finite (y v) \<and> is_finite (z v)"

definition binary32_vec :: "Vector3 \<Rightarrow> bool" where
  "binary32_vec v \<longleftrightarrow> is_binary32 (x v) \<and> is_binary32 (y v) \<and> is_binary32 (z v)"

text \<open>The fields that \<open>operator*\<close> by a float hands to the constructor.\<close>

definition mul_fields :: "Vector3 \<Rightarrow> float \<Rightarrow> Vector3" where
  "mul_fields v f = \<lparr>x = fmul (x v) f, y = fmul (y v) f, z = fmul (z v) f\<rparr>"

text \<open>The fields that \<open>operator-\<close> hands to the constructor.\<close>

definition diff :: "Vector3 \<Rightarrow> Vector3 \<Rightarrow> Vector3" where
  "diff a b = \<lparr>x = fsub (x a) (x b), y = fsub (y a) (y b), z = fsub (z a) (z b)\<rparr>"

subsection \<open>The real numbers that floats stand for\<close>

text \<open>
  The absolute value of a finite float as a real number, and the Euclidean length of a
  vector with finite fields, computed exactly. The claims about magnitudes compare the
  vectors that the code returns against these. An infinity or a NaN has no real value;
  \<open>absval\<close> is 0 there, and every statement about a length also states that the fields
  are finite.
\<close>

fun absval :: "float \<Rightarrow> real" where
  "absval (Fin s n) = real n / 2 ^ 149"
| "absval (Infty s) = 0"
| "absval NaN = 0"

definition sqr_length :: "Vector3 \<Rightarrow> real" where
  "sqr_length v = absval (x v) * absval (x v) + absval (y v) * absval (y v) + absval (z v) * absval (z v)"

definition length3 :: "Vector3 \<Rightarrow> real" where
  "length3 v = sqrt (sqr_length v)"

text \<open>
  One rounding moves a nonnegative real \<open>V\<close> to a float \<open>A\<close> with
  \<open>|A - V| \<le> 2^(-24) * V + 2^(-149)\<close>: half a unit in the last place of a normal number,
  or the absolute error of a subnormal one. The two constants are \<open>2^(-24)\<close> and
  \<open>2^(-149)\<close>, written as numerals for the decision procedures of linear arithmetic.
\<close>

abbreviation eps_rel :: real where
  "eps_rel \<equiv> 1 / 16777216"

abbreviation eps_abs :: real where
  "eps_abs \<equiv> 1 / 713623846352979940529142984724747568191373312"

definition near :: "real \<Rightarrow> real \<Rightarrow> bool" where
  "near A V \<longleftrightarrow> (1 - eps_rel) * V - eps_abs \<le> A \<and> A \<le> (1 + eps_rel) * V + eps_abs"

section \<open>Facts about binary32 arithmetic\<close>

lemma feq_zero [simp]: "feq (Fin s 0) (Fin t 0)"
  by (simp add: feq_def)

lemma bitlen_0 [simp]: "bitlen 0 = 0"
  by (simp add: bitlen.simps)

lemma round_jam_0 [simp]: "round_jam s 0 = Fin s 0"
  by (simp add: round_jam_def round_at_def rne_def pack_def)

lemma round_ratio_0 [simp]: "round_ratio s 0 den = Fin s 0"
  by (simp add: round_ratio_def jam_def)

lemma pack_not_nan [simp]: "pack s n \<noteq> NaN" "\<not> isnan (pack s n)"
  by (simp_all add: pack_def)

lemma round_jam_not_nan [simp]: "round_jam s j \<noteq> NaN" "\<not> isnan (round_jam s j)"
  by (simp_all add: round_jam_def round_at_def)

lemma round_ratio_not_nan [simp]: "round_ratio s n d \<noteq> NaN" "\<not> isnan (round_ratio s n d)"
  by (simp_all add: round_ratio_def)

lemma isnan_iff: "isnan a \<longleftrightarrow> a = NaN"
  by (cases a) simp_all

lemma fneg_pack: "fneg (pack s n) = pack (\<not> s) n"
  by (simp add: pack_def)

lemma fneg_round_jam: "fneg (round_jam s j) = round_jam (\<not> s) j"
  by (simp add: round_jam_def round_at_def fneg_pack)

lemma fneg_round_ratio: "fneg (round_ratio s n d) = round_ratio (\<not> s) n d"
  by (simp add: round_ratio_def fneg_round_jam)

lemma fneg_fneg [simp]: "fneg (fneg a) = a"
  by (cases a) simp_all

lemma isnan_fneg [simp]: "isnan (fneg a) = isnan a"
  by (cases a) simp_all

lemma sign_xor_commute: "(s \<noteq> t) = (t \<noteq> (s::bool))"
  by auto

lemma fmul_commute: "fmul a b = fmul b a"
proof (cases a; cases b)
  fix s m t n
  assume "a = Fin s m" "b = Fin t n"
  then show ?thesis
    using sign_xor_commute [of s t] by (simp add: mult.commute)
qed (auto simp: sign_xor_commute)

lemma fadd_commute: "fadd a b = fadd b a"
  by (cases a; cases b) (auto simp: add.commute)

lemma fsub_self: "fsub a a = (case a of Fin s n \<Rightarrow> Fin False 0 | _ \<Rightarrow> NaN)"
  by (cases a) (auto simp: fsub_def)

lemma fneg_fadd: "fsame (fneg (fadd a b)) (fadd (fneg a) (fneg b))"
  by (cases a; cases b) (auto simp: fsame_def fneg_round_ratio)

lemma fneg_fsub: "fsame (fneg (fsub a b)) (fsub b a)"
  using fneg_fadd [of a "fneg b"] by (simp add: fsub_def fadd_commute)

lemma fmul_self_sign: "fmul a a = NaN \<or> fmul a a = Infty False \<or> (\<exists>n. fmul a a = round_ratio False n (2 ^ 298))"
  by (cases a) auto

subsection \<open>Bit lengths and exact results\<close>

lemma bitlen_lt: "n < 2 ^ bitlen n"
proof (induction n rule: bitlen.induct)
  case (1 n)
  show ?case
  proof (cases "n = 0")
    case True
    then show ?thesis by (simp add: bitlen.simps)
  next
    case False
    with 1 have "n div 2 < 2 ^ bitlen (n div 2)" by simp
    then have "n < 2 * 2 ^ bitlen (n div 2)" by linarith
    with False show ?thesis by (subst bitlen.simps) simp
  qed
qed

lemma bitlen_ge: "0 < n \<Longrightarrow> 2 ^ (bitlen n - 1) \<le> n"
proof (induction n rule: bitlen.induct)
  case (1 n)
  show ?case
  proof (cases "n div 2 = 0")
    case True
    with 1(2) have "n = 1" by linarith
    then show ?thesis by (simp add: bitlen.simps)
  next
    case False
    with 1 have ih: "2 ^ (bitlen (n div 2) - 1) \<le> n div 2" by simp
    from False have pos: "0 < bitlen (n div 2)" by (subst bitlen.simps) simp
    have "bitlen n = Suc (bitlen (n div 2))" using 1(2) by (subst bitlen.simps) simp
    then have "(2::nat) ^ (bitlen n - 1) = 2 * 2 ^ (bitlen (n div 2) - 1)"
      using pos by (cases "bitlen (n div 2)") simp_all
    with ih show ?thesis by linarith
  qed
qed

lemma bitlen_le: "n < 2 ^ b \<Longrightarrow> bitlen n \<le> b"
proof (cases "n = 0")
  case False
  assume "n < 2 ^ b"
  with bitlen_ge [of n] False have "(2::nat) ^ (bitlen n - 1) < 2 ^ b"
    by (meson le_less_trans neq0_conv)
  then have "bitlen n - 1 < b"
    using power_less_imp_less_exp [of 2 "bitlen n - 1" b] by simp
  then show ?thesis by simp
qed simp

lemma bitlen_gt: "2 ^ b \<le> n \<Longrightarrow> b < bitlen n"
proof -
  assume "2 ^ b \<le> n"
  with bitlen_lt [of n] have "(2::nat) ^ b < 2 ^ bitlen n"
    by linarith
  then show ?thesis
    using power_less_imp_less_exp [of 2 b "bitlen n"] by simp
qed

lemma round_jam_exact: "representable n \<Longrightarrow> round_jam s (8 * n) = Fin s n"
proof -
  assume r: "representable n"
  define k where "k = bitlen n - 24"
  from r have lt: "n < 2 ^ 277" and m: "n mod 2 ^ k = 0"
    by (simp_all add: representable_def k_def)
  have q: "(8 * n) div (8 * 2 ^ k) = n div 2 ^ k" by simp
  have rm: "(8 * n) mod (8 * 2 ^ k) = 0" using m by (simp add: mult_mod_right [symmetric])
  have bk: "n div 2 ^ k * 2 ^ k = n" using m by (simp add: mod_0_imp_dvd)
  show ?thesis
    using lt by (simp add: round_jam_def round_at_def k_def [symmetric] q rm rne_def bk pack_def)
qed

lemma jam_exact: "0 < d \<Longrightarrow> jam (c * d) d = 2 * c"
  by (simp add: jam_def)

lemma round_ratio_scaled: "0 < d \<Longrightarrow> round_ratio s (c * d) (d * 2 ^ 149) = round_jam s (8 * c)"
proof -
  assume d: "0 < d"
  define P :: nat where "P = 2 ^ 149"
  have p: "0 < P" and e: "(2::nat) ^ 151 = 4 * P" by (simp_all add: P_def)
  have eq: "c * d * (4 * P) = (c * 4) * (d * P)" by (simp add: mult_ac)
  have "0 < d * P" using d p by simp
  then have "jam (c * d * (4 * P)) (d * P) = 2 * (c * 4)"
    unfolding eq by (rule jam_exact)
  then show ?thesis
    unfolding round_ratio_def e P_def [symmetric] by simp
qed

lemma round_ratio_units: "round_ratio s c (2 ^ 149) = round_jam s (8 * c)"
  using round_ratio_scaled [of 1 s c] by simp

lemma fmul_one: "is_binary32 a \<Longrightarrow> fmul a f1 = a"
proof (cases a)
  case (Fin s n)
  assume "is_binary32 a"
  with Fin have r: "representable n" by simp
  have "(2::nat) ^ 298 = 2 ^ 149 * 2 ^ 149" by (simp add: power_add [symmetric])
  then have "round_ratio s (n * 2 ^ 149) (2 ^ 298) = round_jam s (8 * n)"
    using round_ratio_scaled [of "2 ^ 149" s n] by simp
  with r Fin show ?thesis by (simp add: f1_def round_jam_exact)
qed (simp_all add: f1_def)

subsection \<open>Rounding yields binary32 numbers\<close>

lemma rne_le: "rne q r u \<le> q + 1"
  by (simp add: rne_def)

lemma representable_scaled:
  assumes "q \<le> 2 ^ 24" and "q * 2 ^ k < 2 ^ 277"
  shows "representable (q * 2 ^ k)"
proof -
  define N where "N = q * 2 ^ k"
  have "N mod 2 ^ (bitlen N - 24) = 0"
  proof (cases "q = 2 ^ 24")
    case True
    then have N: "N = 2 ^ (24 + k)" by (simp add: N_def power_add)
    then have "N < 2 ^ (25 + k)" by simp
    then have "bitlen N \<le> 25 + k" by (rule bitlen_le)
    then have "bitlen N - 24 \<le> 24 + k" by simp
    then have "(2::nat) ^ (bitlen N - 24) dvd 2 ^ (24 + k)" by (rule le_imp_power_dvd)
    then show ?thesis unfolding N by (rule dvd_imp_mod_0)
  next
    case False
    with assms(1) have "q < 2 ^ 24" by simp
    then have "q * 2 ^ k < 2 ^ 24 * 2 ^ k" by simp
    then have "N < 2 ^ (24 + k)" by (simp add: N_def power_add)
    then have "bitlen N \<le> 24 + k" by (rule bitlen_le)
    then have "bitlen N - 24 \<le> k" by simp
    then have "(2::nat) ^ (bitlen N - 24) dvd 2 ^ k" by (rule le_imp_power_dvd)
    then have "2 ^ (bitlen N - 24) dvd N" unfolding N_def by (rule dvd_mult)
    then show ?thesis by (rule dvd_imp_mod_0)
  qed
  with assms(2) show ?thesis by (simp add: representable_def N_def)
qed

lemma round_quot_bound: "j div (8 * 2 ^ (bitlen (j div 8) - 24)) < 2 ^ 24"
proof -
  define b where "b = bitlen (j div 8)"
  define k where "k = b - 24"
  have lt: "j div 8 < 2 ^ b" unfolding b_def by (rule bitlen_lt)
  have q: "j div (8 * 2 ^ k) = (j div 8) div 2 ^ k" by (simp add: div_mult2_eq)
  have "(j div 8) div 2 ^ k < 2 ^ 24"
  proof (cases "b \<le> 24")
    case True
    then have "k = 0" by (simp add: k_def)
    moreover from True have "(2::nat) ^ b \<le> 2 ^ 24" by (rule power_increasing) simp
    ultimately show ?thesis using lt by simp
  next
    case False
    then have "b = 24 + k" by (simp add: k_def)
    then have "j div 8 < 2 ^ 24 * 2 ^ k" using lt by (simp add: power_add)
    then show ?thesis by (rule less_mult_imp_div_less)
  qed
  then show ?thesis unfolding k_def b_def by (simp only: div_mult2_eq)
qed

lemma is_binary32_round_jam [simp]: "is_binary32 (round_jam s j)"
proof -
  define k where "k = bitlen (j div 8) - 24"
  define q' where "q' = rne (j div (8 * 2 ^ k)) (j mod (8 * 2 ^ k)) (8 * 2 ^ k)"
  have "j div (8 * 2 ^ k) < 2 ^ 24" unfolding k_def by (rule round_quot_bound)
  with rne_le [of "j div (8 * 2 ^ k)" "j mod (8 * 2 ^ k)" "8 * 2 ^ k"]
  have q': "q' \<le> 2 ^ 24" by (simp add: q'_def)
  have eq: "round_jam s j = pack s (q' * 2 ^ k)"
    by (simp add: round_jam_def round_at_def k_def q'_def)
  show ?thesis
  proof (cases "2 ^ 277 \<le> q' * 2 ^ k")
    case True
    then show ?thesis by (simp add: eq pack_def)
  next
    case False
    then have "q' * 2 ^ k < 2 ^ 277" by simp
    with q' have "representable (q' * 2 ^ k)" by (rule representable_scaled)
    with False show ?thesis by (simp add: eq pack_def)
  qed
qed

lemma is_binary32_round_ratio [simp]: "is_binary32 (round_ratio s n d)"
  by (simp add: round_ratio_def)

lemma representable_0 [simp]: "representable 0"
  by (simp add: representable_def)

lemma is_binary32_fneg [simp]: "is_binary32 (fneg a) = is_binary32 a"
  by (cases a) simp_all

lemma is_binary32_fadd [simp]: "is_binary32 (fadd a b)"
  by (cases a; cases b) simp_all

lemma is_binary32_fsub [simp]: "is_binary32 (fsub a b)"
  by (simp add: fsub_def)

lemma is_binary32_fmul [simp]: "is_binary32 (fmul a b)"
  by (cases a; cases b) simp_all

lemma is_binary32_fdiv [simp]: "is_binary32 (fdiv a b)"
  by (cases a; cases b) simp_all

lemma is_binary32_fsqrt [simp]: "is_binary32 a \<Longrightarrow> is_binary32 (fsqrt a)"
  by (cases a) simp_all

subsection \<open>Assertions and sequencing\<close>

lemma Assert_simps [simp]:
  "Assert dbg True = Inr ()"
  "Assert False c = Inr ()"
  "Assert True False = Inl AssertionFailed"
  by (simp_all add: Assert_def)

lemma and_then_simps [simp]:
  "and_then (Inl e) f = Inl e"
  "and_then (Inr v) f = f v"
  by (simp_all add: and_then_def)

subsection \<open>NaN, signs and comparisons\<close>

lemma fmul_NaN_right [simp]: "fmul a NaN = NaN"
  by (cases a) simp_all

lemma fadd_NaN_right [simp]: "fadd a NaN = NaN"
  by (cases a) simp_all

lemma fsub_NaN [simp]: "fsub a NaN = NaN" "fsub NaN b = NaN"
  by (simp_all add: fsub_def)

lemma SqrMagnitude_nan: "hasNaNs d \<Longrightarrow> SqrMagnitude d = NaN"
  by (auto simp: hasNaNs_def SqrMagnitude_def isnan_iff)

lemma hasNaNs_diff: "hasNaNs b \<Longrightarrow> hasNaNs (diff a b)"
  by (auto simp: hasNaNs_def diff_def isnan_iff)

lemma op_sub_diff:
  "op_sub dbg a b = (if dbg \<and> hasNaNs (diff a b) then Inl AssertionFailed else Inr (diff a b))"
  using hasNaNs_diff [of b a]
  by (auto simp: op_sub_def Vector3_xyz_def Assert_def diff_def)

lemma flt_NaN [simp]: "\<not> flt NaN b" "\<not> flt a NaN"
  by (simp_all add: flt_def)

lemma nonneg_pack [simp]: "nonneg (pack s n) = (\<not> s)"
  by (simp add: pack_def)

lemma nonneg_round_ratio [simp]: "nonneg (round_ratio s n d) = (\<not> s)"
  by (simp add: round_ratio_def round_jam_def round_at_def)

lemma nonneg_fmul_self: "\<not> isnan a \<Longrightarrow> nonneg (fmul a a)"
  by (cases a) simp_all

lemma nonneg_fadd: "nonneg a \<Longrightarrow> nonneg b \<Longrightarrow> nonneg (fadd a b)"
  by (cases a; cases b) simp_all

lemma nonneg_not_nan: "nonneg a \<Longrightarrow> \<not> isnan a"
  by (cases a) simp_all

lemma SqrMagnitude_nonneg: "\<not> hasNaNs d \<Longrightarrow> nonneg (SqrMagnitude d)"
  by (simp add: hasNaNs_def SqrMagnitude_def nonneg_fadd nonneg_fmul_self)

lemma fge_not_flt: "\<not> isnan a \<Longrightarrow> \<not> isnan b \<Longrightarrow> fge a b = (\<not> flt a b)"
  by (auto simp: fge_def fle_def flt_def)

lemma is_finite_fadd: "is_finite a \<Longrightarrow> is_finite b \<Longrightarrow> \<not> isnan (fadd a b)"
  by (cases a; cases b) simp_all

lemma finite_diff: "finite_vec a \<Longrightarrow> finite_vec b \<Longrightarrow> \<not> hasNaNs (diff a b)"
  by (cases "x a"; cases "y a"; cases "z a"; cases "x b"; cases "y b"; cases "z b")
     (simp_all add: finite_vec_def hasNaNs_def diff_def fsub_def)

subsection \<open>Evaluation\<close>

text \<open>
  The equations that compute a rounding on numerals, and the arithmetic equations on two
  finite numbers, which an evaluated instance replaces.
\<close>

lemmas f32_eval = round_ratio_def jam_def round_jam_def round_at_def rne_def pack_def
  bitlen.simps isqrt.simps sqrt_step_def jam_sqrt_def lit_def

lemmas f32_ops = fadd.simps(7) fmul.simps(7) fdiv.simps(7) fsqrt.simps(3) ffma.simps(1)

subsection \<open>Zeros and numeric equality\<close>

lemma fmul_zero_left [simp]: "fmul (Fin s 0) (Fin t n) = Fin (s \<noteq> t) 0"
  by simp

lemma fmul_zero_right [simp]: "fmul (Fin s m) (Fin t 0) = Fin (s \<noteq> t) 0"
  by simp

lemma fadd_zero_zero [simp]: "fadd (Fin s 0) (Fin t 0) = Fin (s \<and> t) 0"
  by auto

lemma fdiv_zero_left [simp]: "0 < n \<Longrightarrow> fdiv (Fin s 0) (Fin t n) = Fin (s \<noteq> t) 0"
  by simp

lemma is_zero_iff: "is_zero a \<longleftrightarrow> a = Fin False 0 \<or> a = Fin True 0"
  by (cases a) auto

lemma fsame_refl [simp]: "fsame a a"
  by (simp add: fsame_def)

lemma fsame_sym: "fsame a b \<Longrightarrow> fsame b a"
  by (auto simp: fsame_def)

lemma fsame_finite: "fsame a b \<Longrightarrow> is_finite a = is_finite b"
  by (auto simp: fsame_def)

lemma is_finite_fneg [simp]: "is_finite (fneg a) = is_finite a"
  by (cases a) simp_all

lemma is_finite_not_nan: "is_finite a \<Longrightarrow> \<not> isnan a"
  by (cases a) simp_all

lemma fsub_fsame_zero: "is_finite a \<Longrightarrow> fsame b a \<Longrightarrow> is_zero (fsub a b)"
  by (cases a; cases b) (auto simp: fsame_def fsub_def)

lemma fmul_is_zero: "is_zero a \<Longrightarrow> fmul a a = Fin False 0"
  by (cases a) simp_all

lemma SqrMagnitude_zeros:
  "is_zero (x d) \<Longrightarrow> is_zero (y d) \<Longrightarrow> is_zero (z d) \<Longrightarrow> SqrMagnitude d = Fin False 0"
  by (simp add: SqrMagnitude_def fmul_is_zero)

lemma is_zero_not_nan: "is_zero a \<Longrightarrow> \<not> isnan a"
  by (cases a) simp_all

lemma lit_eq_eps: "lit 999999944 (10 ^ 19) = Fin False (7205759 * 2 ^ 93)"
  by (simp add: f32_eval)

lemma zero_lt_eq_eps: "flt (Fin False 0) (lit 999999944 (10 ^ 19))"
  using lit_eq_eps by (simp add: flt_def)

text \<open>Vectors whose fields are equal as numbers, the first one finite, compare equal.\<close>

lemma op_eq_fsame:
  assumes "finite_vec c" and "fsame (x n) (x c)" and "fsame (y n) (y c)" and "fsame (z n) (z c)"
  shows "op_eq dbg c n = Inr True"
proof -
  from assms have zx: "is_zero (fsub (x c) (x n))" and zy: "is_zero (fsub (y c) (y n))"
    and zz: "is_zero (fsub (z c) (z n))"
    by (simp_all add: finite_vec_def fsub_fsame_zero)
  then have "\<not> hasNaNs (diff c n)"
    by (simp add: hasNaNs_def diff_def is_zero_not_nan)
  moreover from zx zy zz have "SqrMagnitude (diff c n) = Fin False 0"
    by (intro SqrMagnitude_zeros) (simp_all add: diff_def)
  ultimately show ?thesis
    using zero_lt_eq_eps by (simp add: op_eq_def op_sub_diff)
qed

subsection \<open>Overflow and finite results\<close>

lemma rne_ge: "q \<le> rne q r u"
  by (simp add: rne_def)

lemma is_finite_pack: "is_finite (pack s n) = (n < 2 ^ 277)"
  by (simp add: pack_def)

text \<open>A magnitude below \<open>2^127\<close> rounds to a finite number; one from \<open>2^128\<close> on overflows.\<close>

lemma round_jam_finite:
  assumes "j < 2 ^ 279"
  shows "is_finite (round_jam s j)"
proof -
  define k where "k = bitlen (j div 8) - 24"
  define q' where "q' = rne (j div (8 * 2 ^ k)) (j mod (8 * 2 ^ k)) (8 * 2 ^ k)"
  from assms have "j div 8 < 2 ^ 276" by simp
  then have "bitlen (j div 8) \<le> 276" by (rule bitlen_le)
  then have k: "k \<le> 252" by (simp add: k_def)
  have "j div (8 * 2 ^ k) < 2 ^ 24" unfolding k_def by (rule round_quot_bound)
  with rne_le [of "j div (8 * 2 ^ k)" "j mod (8 * 2 ^ k)" "8 * 2 ^ k"]
  have "q' \<le> 2 ^ 24" by (simp add: q'_def)
  moreover from k have "(2::nat) ^ k \<le> 2 ^ 252" by (rule power_increasing) simp
  ultimately have "q' * 2 ^ k \<le> 2 ^ 24 * 2 ^ 252" by (rule mult_mono) simp_all
  then have "q' * 2 ^ k < 2 ^ 277" by simp
  then show ?thesis
    by (simp add: round_jam_def round_at_def k_def [symmetric] q'_def [symmetric] is_finite_pack)
qed

lemma round_jam_overflow:
  assumes "2 ^ 280 \<le> j"
  shows "round_jam s j = Infty s"
proof -
  define B where "B = bitlen (j div 8)"
  define k where "k = B - 24"
  define q' where "q' = rne (j div (8 * 2 ^ k)) (j mod (8 * 2 ^ k)) (8 * 2 ^ k)"
  from assms have big: "2 ^ 277 \<le> j div 8" by simp
  then have "277 < B" unfolding B_def by (rule bitlen_gt)
  then have B: "B = 24 + k" and k: "254 \<le> k" by (simp_all add: k_def)
  from big have "0 < j div 8" by simp
  then have "2 ^ (B - 1) \<le> j div 8" unfolding B_def by (rule bitlen_ge)
  moreover have "(2::nat) ^ (B - 1) = 2 ^ 23 * 2 ^ k" by (simp add: B power_add)
  ultimately have "2 ^ 23 * 2 ^ k \<le> j div 8" by simp
  then have "2 ^ 23 \<le> (j div 8) div 2 ^ k"
    by (simp add: less_eq_div_iff_mult_less_eq)
  then have "2 ^ 23 \<le> j div (8 * 2 ^ k)" by (simp only: div_mult2_eq)
  with rne_ge [of "j div (8 * 2 ^ k)" "j mod (8 * 2 ^ k)" "8 * 2 ^ k"]
  have "2 ^ 23 \<le> q'" by (simp add: q'_def)
  moreover from k have "(2::nat) ^ 254 \<le> 2 ^ k" by (rule power_increasing) simp
  ultimately have "2 ^ 23 * 2 ^ 254 \<le> q' * 2 ^ k" by (rule mult_mono) simp_all
  then have "2 ^ 277 \<le> q' * 2 ^ k" by simp
  then show ?thesis
    by (simp add: round_jam_def round_at_def B_def [symmetric] k_def [symmetric] q'_def [symmetric]
        pack_def)
qed

lemma jam_le: "jam X den \<le> 2 * (X div den) + 1"
  by (simp add: jam_def)

lemma jam_ge: "2 * (X div den) \<le> jam X den"
  by (simp add: jam_def)

lemma square_finite_bound:
  assumes "is_finite (round_ratio s (a * a) (2 ^ 298))"
  shows "a < 2 ^ 214"
proof (rule ccontr)
  assume "\<not> a < 2 ^ 214"
  then have a: "2 ^ 214 \<le> a" by simp
  from a a have "2 ^ 214 * 2 ^ 214 \<le> a * a" by (rule mult_le_mono)
  then have "2 ^ 428 * 2 ^ 151 \<le> a * a * 2 ^ 151" by simp
  then have "(2 ^ 428 * 2 ^ 151) div 2 ^ 298 \<le> (a * a * 2 ^ 151) div 2 ^ 298"
    by (rule div_le_mono)
  then have "2 ^ 281 \<le> (a * a * 2 ^ 151) div 2 ^ 298" by simp
  with jam_ge [of "a * a * 2 ^ 151" "2 ^ 298"] have "2 ^ 280 \<le> jam (a * a * 2 ^ 151) (2 ^ 298)"
    by simp
  then have "round_jam s (jam (a * a * 2 ^ 151) (2 ^ 298)) = Infty s"
    by (rule round_jam_overflow)
  with assms show False by (simp add: round_ratio_def)
qed

lemma quotient_finite:
  assumes "a < 2 ^ 214" and "2 ^ 132 \<le> n"
  shows "is_finite (round_ratio s a n)"
proof -
  from assms(2) have "(a * 2 ^ 151) div n \<le> (a * 2 ^ 151) div 2 ^ 132"
    by (intro div_le_mono2) simp_all
  also have "(a * 2 ^ 151) div 2 ^ 132 = a * 2 ^ 19"
  proof -
    have "a * 2 ^ 151 = a * 2 ^ 19 * (2 ^ 132 :: nat)" by simp
    then show ?thesis by (simp only: nonzero_mult_div_cancel_right) simp
  qed
  finally have "(a * 2 ^ 151) div n \<le> a * 2 ^ 19" .
  with assms(1) have "(a * 2 ^ 151) div n < 2 ^ 233" by simp
  with jam_le [of "a * 2 ^ 151" n] have "jam (a * 2 ^ 151) n < 2 ^ 279" by simp
  then show ?thesis unfolding round_ratio_def by (rule round_jam_finite)
qed

lemma fadd_finite_D: "is_finite (fadd a b) \<Longrightarrow> is_finite a \<and> is_finite b"
  by (cases a; cases b) (simp_all split: if_splits)

lemma fsqrt_finite_D: "is_finite (fsqrt a) \<Longrightarrow> is_finite a"
  by (cases a) (simp_all split: if_splits)

lemma lit_eps: "lit 1 100000 = Fin False (2748779 * 2 ^ 111)"
  by (simp add: f32_eval)

section \<open>Normalisation\<close>

lemma op_div_f_explicit:
  "op_div_f dbg v f =
     (if dbg \<and> (isnan f \<or> feq f f0 \<or> hasNaNs (div_fields v f)) then Inl AssertionFailed
      else Inr (div_fields v f))"
  by (auto simp: op_div_f_def Vector3_xyz_def Assert_def div_fields_def fne_def)

lemma fgt_eps_cases:
  assumes "fgt m (lit 1 100000)"
  shows "m = Infty False \<or> (\<exists>n. m = Fin False n \<and> 2 ^ 132 \<le> n)"
proof (cases m)
  case NaN
  with assms show ?thesis by (simp add: fgt_def)
next
  case (Infty s)
  with assms lit_eps show ?thesis by (cases s) (simp_all add: fgt_def flt_def)
next
  case (Fin s n)
  with assms lit_eps have "\<not> s" and "2748779 * 2 ^ 111 < n"
    by (simp_all add: fgt_def flt_def split: if_splits)
  with Fin show ?thesis by simp
qed

lemma fgt_eps_ok: "fgt m (lit 1 100000) \<Longrightarrow> \<not> isnan m \<and> \<not> feq m f0"
  by (drule fgt_eps_cases) (auto simp: feq_def f0_def)

lemma Normalize_explicit:
  "Normalize dbg v =
     (if fgt (magnitude v) (lit 1 100000)
      then (if dbg \<and> hasNaNs (div_fields v (magnitude v)) then Inl AssertionFailed
            else Inr (div_fields v (magnitude v)))
      else Inr zero)"
  using fgt_eps_ok [of "magnitude v"] by (simp add: Normalize_def op_div_f_explicit)

lemma Normalize_this_explicit:
  "Normalize_this v =
     (if fgt (magnitude v) (lit 1 100000) then div_fields v (magnitude v) else zero)"
  by (simp add: Normalize_this_def div_fields_def zero_def)

lemma magnitude_finite_D:
  assumes "is_finite (magnitude v)"
  shows "is_finite (fmul (x v) (x v)) \<and> is_finite (fmul (y v) (y v)) \<and> is_finite (fmul (z v) (z v))"
  using assms unfolding magnitude_def
  by (auto dest!: fsqrt_finite_D fadd_finite_D)

lemma fdiv_finite:
  assumes "is_finite a" and "is_finite (fmul a a)" and "2 ^ 132 \<le> n"
  shows "is_finite (fdiv a (Fin False n))"
proof (cases a)
  case (Fin s k)
  with assms(2) have "k < 2 ^ 214" using square_finite_bound [of False k] by simp
  then have "is_finite (round_ratio s k n)" using assms(3) by (rule quotient_finite)
  with Fin assms(3) show ?thesis by simp
qed (use assms in simp_all)

lemma fdiv_Infty_finite: "is_finite a \<Longrightarrow> is_finite (fdiv a (Infty s))"
  by (cases a) simp_all

lemma div_fields_finite:
  assumes "finite_vec v" and "fgt (magnitude v) (lit 1 100000)"
  shows "finite_vec (div_fields v (magnitude v))"
proof -
  from assms(2) consider "magnitude v = Infty False"
    | n where "magnitude v = Fin False n" "2 ^ 132 \<le> n"
    using fgt_eps_cases by blast
  then show ?thesis
  proof cases
    case 1
    with assms(1) show ?thesis
      by (simp add: finite_vec_def div_fields_def fdiv_Infty_finite)
  next
    case 2
    then have "is_finite (magnitude v)" by simp
    then have "is_finite (fmul (x v) (x v)) \<and> is_finite (fmul (y v) (y v)) \<and> is_finite (fmul (z v) (z v))"
      by (rule magnitude_finite_D)
    with assms(1) 2 show ?thesis
      by (simp add: finite_vec_def div_fields_def fdiv_finite)
  qed
qed

lemma finite_vec_no_nan: "finite_vec v \<Longrightarrow> \<not> hasNaNs v"
  by (simp add: finite_vec_def hasNaNs_def is_finite_not_nan)

lemma finite_vec_zero [simp]: "finite_vec zero"
  by (simp add: finite_vec_def zero_def f0_def)

lemma Normalize_finite:
  assumes "finite_vec v"
  shows "Normalize dbg v = Inr (Normalize_this v) \<and> finite_vec (Normalize_this v)"
  using div_fields_finite [OF assms] finite_vec_no_nan [of "div_fields v (magnitude v)"]
  by (simp add: Normalize_explicit Normalize_this_explicit)

lemma Normalize_release: "Normalize False v = Inr (Normalize_this v)"
  by (simp add: Normalize_explicit Normalize_this_explicit)

lemma Normalize_returns: "Normalize dbg v = Inr r \<Longrightarrow> Normalize_this v = r"
  by (auto simp: Normalize_explicit Normalize_this_explicit split: if_splits)

section \<open>Zero vectors and clamping\<close>

lemma Normalize_small: "\<not> fgt (magnitude u) (lit 1 100000) \<Longrightarrow> Normalize dbg u = Inr zero"
  by (simp add: Normalize_explicit)

lemma magnitude_zero: "magnitude zero = f0"
  by (simp add: magnitude_def zero_def f0_def)

lemma zero_is_small: "\<not> fgt (magnitude zero) (lit 1 100000)"
  using lit_eps by (simp add: magnitude_zero f0_def fgt_def flt_def)

lemma nonneg_fmul_self': "\<not> isnan (fmul a a) \<Longrightarrow> nonneg (fmul a a)"
  by (cases a) simp_all

lemma not_flt_nonneg_zero: "nonneg a \<Longrightarrow> \<not> flt a f0"
  by (cases a) (simp_all add: flt_def f0_def)

lemma sqrMagnitude_zero: "sqrMagnitude zero = f0"
  by (simp add: sqrMagnitude_def zero_def f0_def)

lemma ClampMagnitude_zero: "ClampMagnitude dbg zero L = Inr zero"
proof (cases "isnan (fmul L L)")
  case True
  then show ?thesis
    by (simp add: ClampMagnitude_def fgt_def flt_def)
next
  case False
  then have "\<not> flt (fmul L L) f0"
    by (intro not_flt_nonneg_zero nonneg_fmul_self')
  then show ?thesis
    by (simp add: ClampMagnitude_def fgt_def sqrMagnitude_zero)
qed

lemma fmul_finite_not_nan: "is_finite a \<Longrightarrow> is_finite b \<Longrightarrow> \<not> isnan (fmul a b)"
  by (cases a; cases b) simp_all

lemma op_mul_f_finite:
  assumes "finite_vec n" and "is_finite L"
  shows "op_mul_f dbg n L = Inr \<lparr>x = fmul (x n) L, y = fmul (y n) L, z = fmul (z n) L\<rparr>"
  using assms
  by (simp add: op_mul_f_def Vector3_xyz_def hasNaNs_def finite_vec_def fmul_finite_not_nan
      is_finite_not_nan)

lemma ClampMagnitude_returns:
  assumes "finite_vec v" and "is_finite L"
  shows "\<exists>r. ClampMagnitude dbg v L = Inr r"
proof (cases "fgt (sqrMagnitude v) (fmul L L)")
  case True
  from Normalize_finite [OF assms(1), of dbg]
  have n: "Normalize dbg v = Inr (Normalize_this v)" and f: "finite_vec (Normalize_this v)"
    by simp_all
  from True show ?thesis
    by (simp add: ClampMagnitude_def normalized_def n op_mul_f_finite [OF f assms(2)])
next
  case False
  then show ?thesis by (simp add: ClampMagnitude_def)
qed


section \<open>Rounding errors\<close>

text \<open>
  The distance between what an operation returns and the exact result, first on the scaled
  naturals of the rounding functions, then on real numbers.
\<close>

lemma rne_error:
  assumes "r < u" and "q' = rne q r u"
  shows "q' * u \<le> q * u + r + u div 2 \<and> q * u + r \<le> q' * u + u div 2"
proof (cases "u < 2 * r \<or> (2 * r = u \<and> odd q)")
  case True
  then have "q' = q + 1" using assms(2) by (simp add: rne_def)
  moreover from True have "u \<le> 2 * r" by auto
  then have "u \<le> r + u div 2" by linarith
  ultimately show ?thesis using assms(1) by (simp add: algebra_simps)
next
  case False
  then have "q' = q" using assms(2) by (simp add: rne_def)
  moreover from False have "2 * r \<le> u" by auto
  then have "r \<le> u div 2" by linarith
  ultimately show ?thesis by simp
qed

lemma round_unit_bound: "4 * 2 ^ (bitlen (j div 8) - 24) \<le> 4 + j div 2 ^ 24"
proof (cases "bitlen (j div 8) \<le> 24")
  case True
  then show ?thesis by simp
next
  case False
  define k where "k = bitlen (j div 8) - 24"
  from False have B: "bitlen (j div 8) = 24 + k" by (simp add: k_def)
  then have "0 < j div 8" by (cases "j div 8 = 0") simp_all
  then have "2 ^ (bitlen (j div 8) - 1) \<le> j div 8" by (rule bitlen_ge)
  then have "2 ^ (23 + k) \<le> j div 8" by (simp add: B)
  then have "8 * 2 ^ (23 + k) \<le> j" by linarith
  then have "2 ^ 24 * (4 * 2 ^ k) \<le> j" by (simp add: power_add)
  then have "4 * 2 ^ k \<le> j div 2 ^ 24"
    by (simp add: less_eq_div_iff_mult_less_eq mult.commute)
  then show ?thesis by (simp add: k_def)
qed

lemma round_jam_error:
  assumes "round_jam s j = Fin t N"
  shows "8 * N \<le> j + (4 + j div 2 ^ 24) \<and> j \<le> 8 * N + (4 + j div 2 ^ 24)"
proof -
  define k where "k = bitlen (j div 8) - 24"
  define u where "u = 8 * (2::nat) ^ k"
  define q' where "q' = rne (j div u) (j mod u) u"
  have upos: "0 < u" by (simp add: u_def)
  from assms have N: "N = q' * 2 ^ k"
    by (simp add: round_jam_def round_at_def pack_def k_def u_def q'_def split: if_splits)
  then have N8: "8 * N = q' * u" by (simp add: u_def)
  have "j mod u < u" using upos by simp
  from rne_error [OF this q'_def]
  have "q' * u \<le> j + u div 2 \<and> j \<le> q' * u + u div 2" by simp
  moreover have "u div 2 = 4 * 2 ^ k" by (simp add: u_def)
  moreover have "4 * 2 ^ k \<le> 4 + j div 2 ^ 24" unfolding k_def by (rule round_unit_bound)
  ultimately show ?thesis unfolding N8 by linarith
qed



lemma round_jam_real_error:
  assumes "round_jam s j = Fin t N"
  shows "\<bar>real N / 2 ^ 149 - real j / 2 ^ 152\<bar> \<le> real j / 2 ^ 152 / 2 ^ 24 + 1 / 2 ^ 150"
proof -
  from round_jam_error [OF assms]
  have a: "8 * N \<le> j + (4 + j div 2 ^ 24)" and b: "j \<le> 8 * N + (4 + j div 2 ^ 24)" by simp_all
  have d: "real (j div 2 ^ 24) \<le> real j / 2 ^ 24"
    using of_nat_div_le_of_nat [of j "2 ^ 24", where ?'a = real] by simp
  from a have "real (8 * N) \<le> real (j + (4 + j div 2 ^ 24))" by (simp only: of_nat_le_iff)
  with d have a': "8 * real N \<le> real j + 4 + real j / 2 ^ 24" by simp
  from b have "real j \<le> real (8 * N + (4 + j div 2 ^ 24))" by (simp only: of_nat_le_iff)
  with d have b': "real j \<le> 8 * real N + 4 + real j / 2 ^ 24" by simp
  show ?thesis using a' b' by (simp add: abs_le_iff)
qed

lemma jam_real_error:
  assumes "0 < den"
  shows "\<bar>real (jam X den) - 2 * (real X / real den)\<bar> \<le> 1"
proof -
  have dpos: "0 < real den" using assms by simp
  have q: "real X / real den = real (X div den) + real (X mod den) / real den"
    by (rule of_nat_of_nat_div_aux)
  have r0: "0 \<le> real (X mod den) / real den" by simp
  have "X mod den < den" using assms by simp
  then have r1: "real (X mod den) / real den < 1" using dpos by simp
  show ?thesis
  proof (cases "X mod den = 0")
    case True
    then show ?thesis by (simp add: jam_def q)
  next
    case False
    then have "0 < real (X mod den) / real den" using dpos by simp
    with r1 False show ?thesis by (simp add: jam_def q)
  qed
qed



lemma round_ratio_error:
  assumes "round_ratio s num den = Fin t N" and "0 < den"
  shows "\<bar>real N / 2 ^ 149 - real num / real den\<bar> \<le> real num / real den / 2 ^ 24 + 1 / 2 ^ 149"
proof -
  define j where "j = jam (num * 2 ^ 151) den"
  define V where "V = real num / real den"
  define W where "W = real j / 2 ^ 152"
  define A where "A = real N / 2 ^ 149"
  from assms(1) have "round_jam s j = Fin t N" by (simp add: round_ratio_def j_def)
  then have 1: "\<bar>A - W\<bar> \<le> W / 2 ^ 24 + 1 / 2 ^ 150"
    unfolding A_def W_def by (rule round_jam_real_error)
  have "\<bar>real j - 2 * (real (num * 2 ^ 151) / real den)\<bar> \<le> 1"
    unfolding j_def using assms(2) by (rule jam_real_error)
  moreover have "2 * (real (num * 2 ^ 151) / real den) = V * 2 ^ 152"
    by (simp add: V_def)
  ultimately have "\<bar>real j - V * 2 ^ 152\<bar> \<le> 1" by simp
  then have 2: "\<bar>W - V\<bar> \<le> 1 / 2 ^ 152"
    by (simp add: W_def abs_le_iff field_simps)
  from 1 have 1: "A - W \<le> W / 2 ^ 24 + 1 / 2 ^ 150" "W - A \<le> W / 2 ^ 24 + 1 / 2 ^ 150"
    by (simp_all only: abs_le_iff) simp_all
  from 2 have 2: "W - V \<le> 1 / 2 ^ 152" "V - W \<le> 1 / 2 ^ 152"
    by (simp_all only: abs_le_iff) simp_all
  have "A - V \<le> V / 2 ^ 24 + 1 / 2 ^ 149" using 1 2 by simp
  moreover have "V - A \<le> V / 2 ^ 24 + 1 / 2 ^ 149" using 1 2 by simp
  ultimately have "\<bar>A - V\<bar> \<le> V / 2 ^ 24 + 1 / 2 ^ 149"
    by (simp only: abs_le_iff) simp
  then show ?thesis by (simp only: A_def V_def)
qed

lemma sqrt_step_spec:
  assumes "r * r \<le> n" and "n < (r + 2) * (r + 2)"
  shows "sqrt_step n r * sqrt_step n r \<le> n \<and> n < (sqrt_step n r + 1) * (sqrt_step n r + 1)"
  using assms by (simp add: sqrt_step_def algebra_simps)

lemma isqrt_spec: "isqrt n * isqrt n \<le> n \<and> n < (isqrt n + 1) * (isqrt n + 1)"
proof (induction n rule: isqrt.induct)
  case (1 n)
  show ?case
  proof (cases "n < 4")
    case True
    then show ?thesis by (subst (1 2 3 4) isqrt.simps) auto
  next
    case False
    define r where "r = isqrt (n div 4)"
    from False 1 have ih: "r * r \<le> n div 4" "n div 4 < (r + 1) * (r + 1)"
      by (simp_all add: r_def)
    from ih(1) have a: "(2 * r) * (2 * r) \<le> n" by (simp add: algebra_simps)
    from ih(2) have "n div 4 + 1 \<le> (r + 1) * (r + 1)" by simp
    then have "4 * (n div 4 + 1) \<le> 4 * ((r + 1) * (r + 1))" by simp
    moreover have "n < 4 * (n div 4 + 1)" by arith
    ultimately have b: "n < (2 * r + 2) * (2 * r + 2)" by (simp add: algebra_simps)
    have "isqrt n = sqrt_step n (2 * r)"
      using False by (subst isqrt.simps) (simp add: r_def)
    with sqrt_step_spec [OF a b] show ?thesis by simp
  qed
qed

subsection \<open>Chains of roundings\<close>

lemma near_lower: "near A V \<Longrightarrow> (1 - eps_rel) * V - eps_abs \<le> A"
  by (simp add: near_def)

lemma near_upper: "near A V \<Longrightarrow> A \<le> (1 + eps_rel) * V + eps_abs"
  by (simp add: near_def)

lemma near_abs:
  assumes "\<bar>A - V\<bar> \<le> V / 2 ^ 24 + 1 / 2 ^ 149"
  shows "near A V"
proof -
  have p: "(2::real) ^ 24 = 16777216" "(2::real) ^ 149 = 713623846352979940529142984724747568191373312"
    by simp_all
  from assms have "\<bar>A - V\<bar> \<le> V / 16777216 + eps_abs" unfolding p .
  then show ?thesis unfolding near_def by argo
qed

lemma sum_squares_bounds:
  assumes "near P1 x2" and "near P2 y2" and "near P3 z2"
    and "near S1 (P1 + P2)" and "near S (S1 + P3)"
    and "0 \<le> x2" and "0 \<le> y2" and "0 \<le> z2"
  shows "(1 - 3 * eps_rel) * (x2 + y2 + z2) - 6 * eps_abs \<le> S"
    and "S \<le> (1 + 4 * eps_rel) * (x2 + y2 + z2) + 6 * eps_abs"
proof -
  note lo = near_lower [OF assms(1)] near_lower [OF assms(2)] near_lower [OF assms(3)]
    near_lower [OF assms(4)] near_lower [OF assms(5)]
  note up = near_upper [OF assms(1)] near_upper [OF assms(2)] near_upper [OF assms(3)]
    near_upper [OF assms(4)] near_upper [OF assms(5)]
  show "(1 - 3 * eps_rel) * (x2 + y2 + z2) - 6 * eps_abs \<le> S"
    using lo assms(6-8) by argo
  show "S \<le> (1 + 4 * eps_rel) * (x2 + y2 + z2) + 6 * eps_abs"
    using up assms(6-8) by argo
qed

lemma sq_affine: "(c * q + d) * (c * q + d) = c * c * (q * q) + 2 * c * d * q + d * (d::real)"
  by (simp add: algebra_simps)

lemma sq_scaled: "(c * M) * (c * M) = c * c * (M * (M::real))"
  by (simp add: algebra_simps)

lemma sqrt_near_square:
  assumes "near M (sqrt S)" and "0 \<le> S" and "1 / 131072 \<le> M"
  shows "(1 - 2 * eps_rel) * (M * M) \<le> S" and "S \<le> (1 + 5 * eps_rel) * (M * M)"
proof -
  define r where "r = sqrt S"
  define m2 where "m2 = M * M"
  have r0: "0 \<le> r" using assms(2) by (simp add: r_def)
  have rr: "r * r = S" using assms(2) by (simp add: r_def)
  have m0: "0 \<le> m2" by (simp add: m2_def)
  note lo = near_lower [OF assms(1), folded r_def] and up = near_upper [OF assms(1), folded r_def]
  have a: "(1 - eps_rel) * M \<le> r" using up assms(3) by argo
  have b: "r \<le> (1 + 2 * eps_rel) * M" using lo assms(3) by argo
  have a0: "0 \<le> (1 - eps_rel) * M" using assms(3) by argo
  have "(1 - eps_rel) * (1 - eps_rel) * m2 = ((1 - eps_rel) * M) * ((1 - eps_rel) * M)"
    unfolding m2_def by (rule sq_scaled [symmetric])
  also from a a a0 a0 have "\<dots> \<le> r * r" by (rule mult_mono')
  also have "\<dots> = S" by (rule rr)
  finally have "(1 - eps_rel) * (1 - eps_rel) * m2 \<le> S" .
  then show "(1 - 2 * eps_rel) * (M * M) \<le> S" using m0 unfolding m2_def [symmetric] by argo
  have "S = r * r" by (rule rr [symmetric])
  also from b b r0 r0 have "\<dots> \<le> ((1 + 2 * eps_rel) * M) * ((1 + 2 * eps_rel) * M)"
    by (rule mult_mono')
  also have "\<dots> = (1 + 2 * eps_rel) * (1 + 2 * eps_rel) * m2"
    unfolding m2_def by (rule sq_scaled)
  finally have "S \<le> (1 + 2 * eps_rel) * (1 + 2 * eps_rel) * m2" .
  then show "S \<le> (1 + 5 * eps_rel) * (M * M)" using m0 unfolding m2_def [symmetric] by argo
qed

lemma squares_near_magnitude:
  assumes "(1 - 3 * eps_rel) * T2 - 6 * eps_abs \<le> S"
    and "S \<le> (1 + 4 * eps_rel) * T2 + 6 * eps_abs"
    and "(1 - 2 * eps_rel) * m2 \<le> S" and "S \<le> (1 + 5 * eps_rel) * m2"
    and "1 / 17179869184 \<le> m2"
  shows "(1 - 7 * eps_rel) * m2 \<le> T2" and "T2 \<le> (1 + 10 * eps_rel) * m2"
  using assms by argo+

lemma near_square:
  assumes "near R q" and "0 \<le> q" and "q \<le> 2" and "0 \<le> R"
  shows "(1 - 2 * eps_rel) * (q * q) - 4 * eps_abs \<le> R * R"
    and "R * R \<le> (1 + 3 * eps_rel) * (q * q) + 5 * eps_abs"
proof -
  define q2 where "q2 = q * q"
  have q20: "0 \<le> q2" by (simp add: q2_def)
  have q22: "q2 \<le> 2 * q" unfolding q2_def using assms(2,3) by (simp add: mult_right_mono)
  note lo = near_lower [OF assms(1)] and up = near_upper [OF assms(1)]
  have B0: "0 \<le> (1 + eps_rel) * q + eps_abs" using assms(2) by argo
  from up up assms(4) assms(4)
  have "R * R \<le> ((1 + eps_rel) * q + eps_abs) * ((1 + eps_rel) * q + eps_abs)"
    by (rule mult_mono')
  also have "\<dots> = (1 + eps_rel) * (1 + eps_rel) * q2 + 2 * (1 + eps_rel) * eps_abs * q + eps_abs * eps_abs"
    unfolding q2_def by (rule sq_affine)
  finally have "R * R \<le> (1 + eps_rel) * (1 + eps_rel) * q2 + 2 * (1 + eps_rel) * eps_abs * q + eps_abs * eps_abs" .
  then show "R * R \<le> (1 + 3 * eps_rel) * (q * q) + 5 * eps_abs"
    unfolding q2_def [symmetric] using q20 assms(2,3) by argo
  show "(1 - 2 * eps_rel) * (q * q) - 4 * eps_abs \<le> R * R"
  proof (cases "0 \<le> (1 - eps_rel) * q + - eps_abs")
    case True
    have lo': "(1 - eps_rel) * q + - eps_abs \<le> R" using lo by argo
    have "(1 - eps_rel) * (1 - eps_rel) * q2 + 2 * (1 - eps_rel) * (- eps_abs) * q + (- eps_abs) * (- eps_abs)
        = ((1 - eps_rel) * q + - eps_abs) * ((1 - eps_rel) * q + - eps_abs)"
      unfolding q2_def by (rule sq_affine [symmetric])
    also from lo' lo' True True have "\<dots> \<le> R * R"
      by (rule mult_mono')
    finally have "(1 - eps_rel) * (1 - eps_rel) * q2 + 2 * (1 - eps_rel) * (- eps_abs) * q + (- eps_abs) * (- eps_abs) \<le> R * R" .
    then show ?thesis unfolding q2_def [symmetric] using q20 assms(2,3) by argo
  next
    case False
    have "0 \<le> R * R" by simp
    with False q22 q20 show ?thesis unfolding q2_def [symmetric] by argo
  qed
qed

subsection \<open>The operations on floats\<close>

lemma near_zero: "near 0 0"
  by (simp add: near_def)

lemma round_ratio_near:
  assumes "round_ratio s num den = Fin t N" and "0 < den"
  shows "near (real N / 2 ^ 149) (real num / real den)"
  by (rule near_abs) (rule round_ratio_error [OF assms])

lemma absval_nonneg [simp]: "0 \<le> absval a"
  by (cases a) simp_all

lemma fmul_near:
  assumes "is_finite a" and "is_finite b" and "is_finite (fmul a b)"
  shows "near (absval (fmul a b)) (absval a * absval b)"
proof -
  from assms(1) obtain s m where a: "a = Fin s m" by (cases a) simp_all
  from assms(2) obtain r n where b: "b = Fin r n" by (cases b) simp_all
  from assms(3) obtain t N where c: "fmul a b = Fin t N" by (cases "fmul a b") simp_all
  then have "round_ratio (s \<noteq> r) (m * n) (2 ^ 298) = Fin t N" by (simp add: a b)
  then have "near (real N / 2 ^ 149) (real (m * n) / real ((2::nat) ^ 298))"
    by (rule round_ratio_near) simp
  moreover have "real (m * n) / real ((2::nat) ^ 298) = absval a * absval b"
    by (simp add: a b)
  ultimately show ?thesis by (simp add: c)
qed

lemma fadd_near:
  assumes "nonneg a" and "nonneg b" and "is_finite (fadd a b)"
  shows "near (absval (fadd a b)) (absval a + absval b)"
proof -
  from fadd_finite_D [OF assms(3)] have f: "is_finite a" "is_finite b" by simp_all
  from f(1) assms(1) obtain m where a: "a = Fin False m" by (cases a) simp_all
  from f(2) assms(2) obtain n where b: "b = Fin False n" by (cases b) simp_all
  from assms(3) obtain t N where c: "fadd a b = Fin t N" by (cases "fadd a b") simp_all
  then have "round_ratio False (m + n) (2 ^ 149) = Fin t N" by (simp add: a b)
  then have "near (real N / 2 ^ 149) (real (m + n) / real ((2::nat) ^ 149))"
    by (rule round_ratio_near) simp
  moreover have "real (m + n) / real ((2::nat) ^ 149) = absval a + absval b"
    by (simp add: a b add_divide_distrib)
  ultimately have "near (real N / 2 ^ 149) (absval a + absval b)" by (simp only:)
  then show ?thesis by (simp only: c absval.simps)
qed

lemma fdiv_near:
  assumes "is_finite a" and "is_finite b" and "\<not> is_zero b" and "is_finite (fdiv a b)"
  shows "near (absval (fdiv a b)) (absval a / absval b)"
proof -
  from assms(1) obtain s m where a: "a = Fin s m" by (cases a) simp_all
  from assms(2) obtain r n where b: "b = Fin r n" by (cases b) simp_all
  from assms(3) have n: "0 < n" by (simp add: b)
  from assms(4) obtain t N where c: "fdiv a b = Fin t N" by (cases "fdiv a b") simp_all
  then have "round_ratio (s \<noteq> r) m n = Fin t N" using n by (simp add: a b)
  then have "near (real N / 2 ^ 149) (real m / real n)"
    using n by (rule round_ratio_near)
  moreover have "real m / real n = absval a / absval b"
    by (simp add: a b)
  ultimately show ?thesis by (simp add: c)
qed


lemma fsqrt_near:
  assumes "nonneg a" and "is_finite a" and "is_finite (fsqrt a)"
  shows "near (absval (fsqrt a)) (sqrt (absval a))"
proof -
  from assms(1,2) obtain n where a: "a = Fin False n" by (cases a) simp_all
  show ?thesis
  proof (cases "n = 0")
    case True
    then show ?thesis by (simp add: a near_zero)
  next
    case False
    define X where "X = n * 2 ^ 153"
    define r where "r = isqrt X"
    define j where "j = jam_sqrt X r"
    define V where "V = sqrt (real n / 2 ^ 149)"
    define y where "y = V * 2 ^ 151"
    define W where "W = real j / 2 ^ 152"
    from assms(3) obtain t N where c: "fsqrt a = Fin t N" by (cases "fsqrt a") simp_all
    define A where "A = real N / 2 ^ 149"
    from c False have "round_jam False j = Fin t N" by (simp add: a j_def r_def X_def)
    then have 1: "\<bar>A - W\<bar> \<le> W / 2 ^ 24 + 1 / 2 ^ 150"
      unfolding A_def W_def by (rule round_jam_real_error)
    have V0: "0 \<le> V" by (simp add: V_def)
    have VV: "V * V = real n / 2 ^ 149" by (simp add: V_def)
    have y0: "0 \<le> y" using V0 by (simp add: y_def)
    have "y * y = (V * V) * (2 ^ 151 * 2 ^ 151)" by (simp add: y_def)
    also have "\<dots> = real n / 2 ^ 149 * 2 ^ 302" by (simp add: VV power_add [symmetric])
    also have "\<dots> = real X" by (simp add: X_def)
    finally have yy: "y * y = real X" .
    from isqrt_spec [of X] have s1: "r * r \<le> X" and s2: "X < (r + 1) * (r + 1)"
      by (simp_all add: r_def)
    from s1 have "real (r * r) \<le> real X" by (simp only: of_nat_le_iff)
    then have "(real r)\<^sup>2 \<le> y\<^sup>2" by (simp add: yy power2_eq_square)
    then have ry: "real r \<le> y" using y0 by (rule power2_le_imp_le)
    from s2 have "real X < real ((r + 1) * (r + 1))" by (simp only: of_nat_less_iff)
    then have "y\<^sup>2 < (real r + 1)\<^sup>2" by (simp add: yy power2_eq_square algebra_simps)
    then have yr: "y < real r + 1" by (rule power2_less_imp_less) simp
    have jy: "\<bar>real j - 2 * y\<bar> \<le> 1"
    proof (cases "r * r = X")
      case True
      then have "real r * real r = y * y" by (simp add: yy flip: of_nat_mult)
      then have "(real r)\<^sup>2 = y\<^sup>2" by (simp add: power2_eq_square)
      then have "real r = y" using y0 by simp
      with True show ?thesis by (simp add: j_def jam_sqrt_def)
    next
      case False
      then have "real j = 2 * real r + 1" by (simp add: j_def jam_sqrt_def)
      with ry yr show ?thesis by (simp add: abs_le_iff)
    qed
    have "2 * y = V * 2 ^ 152" by (simp add: y_def)
    with jy have "\<bar>real j - V * 2 ^ 152\<bar> \<le> 1" by simp
    then have 2: "\<bar>W - V\<bar> \<le> 1 / 2 ^ 152"
      by (simp add: W_def abs_le_iff field_simps)
    from 1 have 1: "A - W \<le> W / 2 ^ 24 + 1 / 2 ^ 150" "W - A \<le> W / 2 ^ 24 + 1 / 2 ^ 150"
      by (simp_all only: abs_le_iff) simp_all
    from 2 have 2: "W - V \<le> 1 / 2 ^ 152" "V - W \<le> 1 / 2 ^ 152"
      by (simp_all only: abs_le_iff) simp_all
    have "A - V \<le> V / 2 ^ 24 + 1 / 2 ^ 149" using 1 2 by simp
    moreover have "V - A \<le> V / 2 ^ 24 + 1 / 2 ^ 149" using 1 2 by simp
    ultimately have "\<bar>A - V\<bar> \<le> V / 2 ^ 24 + 1 / 2 ^ 149"
      by (simp only: abs_le_iff) simp
    then have "near A V" by (rule near_abs)
    then show ?thesis by (simp only: A_def V_def a c [unfolded a] absval.simps)
  qed
qed

lemma absval_ge:
  assumes "2 ^ 132 \<le> n"
  shows "1 / 131072 \<le> absval (Fin s n)"
proof -
  from assms have "real ((2::nat) ^ 132) \<le> real n" by (simp only: of_nat_le_iff)
  then show ?thesis by simp
qed

subsection \<open>Magnitude and normalisation\<close>

lemma square_le_4:
  fixes q :: real
  assumes "0 \<le> q" and "q * q \<le> 4"
  shows "q \<le> 2"
proof -
  from assms(2) have "q\<^sup>2 \<le> 2\<^sup>2" by (simp add: power2_eq_square)
  then show ?thesis by (rule power2_le_imp_le) simp
qed

lemma unit_length:
  fixes a b c M :: real
  assumes "0 \<le> a" and "0 \<le> b" and "0 \<le> c" and "0 < M"
    and "(1 - 7 * eps_rel) * (M * M) \<le> a * a + b * b + c * c"
    and "a * a + b * b + c * c \<le> (1 + 10 * eps_rel) * (M * M)"
    and "near R1 (a / M)" and "near R2 (b / M)" and "near R3 (c / M)"
    and "0 \<le> R1" and "0 \<le> R2" and "0 \<le> R3"
  shows "1 - 10 * eps_rel \<le> R1 * R1 + R2 * R2 + R3 * R3"
    and "R1 * R1 + R2 * R2 + R3 * R3 \<le> 1 + 14 * eps_rel"
proof -
  define qa where "qa = a / M"
  define qb where "qb = b / M"
  define qc where "qc = c / M"
  define m2 where "m2 = M * M"
  define T2 where "T2 = a * a + b * b + c * c"
  define Q where "Q = qa * qa + qb * qb + qc * qc"
  have m2: "0 < m2" using assms(4) by (simp add: m2_def)
  have Q: "Q = T2 / m2"
    by (simp add: Q_def T2_def qa_def qb_def qc_def m2_def add_divide_distrib)
  from assms(5) have "(1 - 7 * eps_rel) * m2 \<le> T2" by (simp only: m2_def T2_def)
  with m2 have "1 - 7 * eps_rel \<le> T2 / m2" by (simp only: pos_le_divide_eq)
  then have Ql: "1 - 7 * eps_rel \<le> Q" by (simp only: Q)
  from assms(6) have "T2 \<le> (1 + 10 * eps_rel) * m2" by (simp only: m2_def T2_def)
  with m2 have "T2 / m2 \<le> 1 + 10 * eps_rel" by (simp only: pos_divide_le_eq)
  then have Qu: "Q \<le> 1 + 10 * eps_rel" by (simp only: Q)
  have q0: "0 \<le> qa" "0 \<le> qb" "0 \<le> qc"
    using assms(1-4) by (simp_all add: qa_def qb_def qc_def)
  have s0: "0 \<le> qa * qa" "0 \<le> qb * qb" "0 \<le> qc * qc" by simp_all
  have "qa * qa \<le> 4" using Qu s0 unfolding Q_def by argo
  with q0(1) have a2: "qa \<le> 2" by (rule square_le_4)
  have "qb * qb \<le> 4" using Qu s0 unfolding Q_def by argo
  with q0(2) have b2: "qb \<le> 2" by (rule square_le_4)
  have "qc * qc \<le> 4" using Qu s0 unfolding Q_def by argo
  with q0(3) have c2: "qc \<le> 2" by (rule square_le_4)
  note A = near_square [OF assms(7) [folded qa_def] q0(1) a2 assms(10)]
  note B = near_square [OF assms(8) [folded qb_def] q0(2) b2 assms(11)]
  note C = near_square [OF assms(9) [folded qc_def] q0(3) c2 assms(12)]
  show "1 - 10 * eps_rel \<le> R1 * R1 + R2 * R2 + R3 * R3"
    using A(1) B(1) C(1) Ql unfolding Q_def by argo
  show "R1 * R1 + R2 * R2 + R3 * R3 \<le> 1 + 14 * eps_rel"
    using A(2) B(2) C(2) Qu unfolding Q_def by argo
qed

lemma sqrt_near_one:
  assumes "1 - 10 * eps_rel \<le> s" and "s \<le> 1 + 14 * eps_rel"
  shows "\<bar>sqrt s - 1\<bar> \<le> 1 / 2 ^ 20"
proof -
  have "(1 - 16 * eps_rel)\<^sup>2 \<le> 1 - 10 * eps_rel" by (simp add: power2_eq_square)
  with assms(1) have "(1 - 16 * eps_rel)\<^sup>2 \<le> s" by (rule order_trans [rotated])
  then have l: "1 - 16 * eps_rel \<le> sqrt s" by (rule real_le_rsqrt)
  have "1 + 14 * eps_rel \<le> (1 + 16 * eps_rel)\<^sup>2" by (simp add: power2_eq_square)
  with assms(2) have "s \<le> (1 + 16 * eps_rel)\<^sup>2" by (rule order_trans)
  then have u: "sqrt s \<le> 1 + 16 * eps_rel" by (intro real_le_lsqrt) simp_all
  have p: "(1::real) / 2 ^ 20 = 16 * eps_rel" by simp
  from l u have "\<bar>sqrt s - 1\<bar> \<le> 16 * eps_rel" by argo
  then show ?thesis by (simp only: p)
qed

lemma magnitude_fsqrt: "magnitude v = fsqrt (sqrMagnitude v)"
  by (simp add: magnitude_def sqrMagnitude_def)

lemma sqrMagnitude_real:
  assumes "finite_vec v" and "is_finite (sqrMagnitude v)"
  shows "(1 - 3 * eps_rel) * sqr_length v - 6 * eps_abs \<le> absval (sqrMagnitude v)"
    and "absval (sqrMagnitude v) \<le> (1 + 4 * eps_rel) * sqr_length v + 6 * eps_abs"
    and "nonneg (sqrMagnitude v)"
proof -
  define P1 where "P1 = fmul (x v) (x v)"
  define P2 where "P2 = fmul (y v) (y v)"
  define P3 where "P3 = fmul (z v) (z v)"
  define S1 where "S1 = fadd P1 P2"
  have S: "sqrMagnitude v = fadd S1 P3"
    by (simp add: sqrMagnitude_def S1_def P1_def P2_def P3_def)
  from assms(1) have fx: "is_finite (x v)" and fy: "is_finite (y v)" and fz: "is_finite (z v)"
    by (simp_all add: finite_vec_def)
  from assms(2) have fS: "is_finite (fadd S1 P3)" by (simp add: S)
  from fadd_finite_D [OF this] have fS1: "is_finite (fadd P1 P2)" and f3: "is_finite (fmul (z v) (z v))"
    by (simp_all add: S1_def P3_def)
  from fadd_finite_D [OF fS1] have f1: "is_finite (fmul (x v) (x v))" and f2: "is_finite (fmul (y v) (y v))"
    by (simp_all add: P1_def P2_def)
  have n1: "nonneg P1" unfolding P1_def by (rule nonneg_fmul_self) (rule is_finite_not_nan [OF fx])
  have n2: "nonneg P2" unfolding P2_def by (rule nonneg_fmul_self) (rule is_finite_not_nan [OF fy])
  have n3: "nonneg P3" unfolding P3_def by (rule nonneg_fmul_self) (rule is_finite_not_nan [OF fz])
  have nS1: "nonneg S1" unfolding S1_def using n1 n2 by (rule nonneg_fadd)
  show "nonneg (sqrMagnitude v)" unfolding S using nS1 n3 by (rule nonneg_fadd)
  have a1: "near (absval P1) (absval (x v) * absval (x v))"
    unfolding P1_def using fx fx f1 by (rule fmul_near)
  have a2: "near (absval P2) (absval (y v) * absval (y v))"
    unfolding P2_def using fy fy f2 by (rule fmul_near)
  have a3: "near (absval P3) (absval (z v) * absval (z v))"
    unfolding P3_def using fz fz f3 by (rule fmul_near)
  have a4: "near (absval S1) (absval P1 + absval P2)"
    unfolding S1_def using n1 n2 fS1 by (rule fadd_near)
  have a5: "near (absval (sqrMagnitude v)) (absval S1 + absval P3)"
    unfolding S using nS1 n3 fS by (rule fadd_near)
  show "(1 - 3 * eps_rel) * sqr_length v - 6 * eps_abs \<le> absval (sqrMagnitude v)"
    unfolding sqr_length_def by (rule sum_squares_bounds(1) [OF a1 a2 a3 a4 a5]) simp_all
  show "absval (sqrMagnitude v) \<le> (1 + 4 * eps_rel) * sqr_length v + 6 * eps_abs"
    unfolding sqr_length_def by (rule sum_squares_bounds(2) [OF a1 a2 a3 a4 a5]) simp_all
qed

lemma magnitude_real:
  assumes "finite_vec v" and "is_finite (magnitude v)" and "fgt (magnitude v) (lit 1 100000)"
  shows "(1 - 7 * eps_rel) * (absval (magnitude v) * absval (magnitude v)) \<le> sqr_length v"
    and "sqr_length v \<le> (1 + 10 * eps_rel) * (absval (magnitude v) * absval (magnitude v))"
    and "1 / 131072 \<le> absval (magnitude v)"
proof -
  define M where "M = absval (magnitude v)"
  define S where "S = absval (sqrMagnitude v)"
  from assms(2) have fs: "is_finite (sqrMagnitude v)"
    unfolding magnitude_fsqrt by (rule fsqrt_finite_D)
  note sq = sqrMagnitude_real [OF assms(1) fs, folded S_def]
  from sq(3) fs assms(2) [unfolded magnitude_fsqrt]
  have "near (absval (fsqrt (sqrMagnitude v))) (sqrt (absval (sqrMagnitude v)))"
    by (rule fsqrt_near)
  then have nr: "near M (sqrt S)" by (simp only: M_def S_def magnitude_fsqrt)
  from fgt_eps_cases [OF assms(3)] assms(2) obtain n where n: "magnitude v = Fin False n" "2 ^ 132 \<le> n"
    by auto
  have M: "1 / 131072 \<le> M" unfolding M_def n(1) using n(2) by (rule absval_ge)
  then show "1 / 131072 \<le> absval (magnitude v)" by (simp only: M_def)
  have S0: "0 \<le> S" by (simp add: S_def)
  note sm = sqrt_near_square [OF nr S0 M]
  have M0: "(0::real) \<le> 1 / 131072" by simp
  from M M M0 M0 have "(1 / 131072) * (1 / 131072) \<le> M * M" by (rule mult_mono')
  then have m2: "1 / 17179869184 \<le> M * M" by simp
  show "(1 - 7 * eps_rel) * (absval (magnitude v) * absval (magnitude v)) \<le> sqr_length v"
    unfolding M_def [symmetric] by (rule squares_near_magnitude(1) [OF sq(1) sq(2) sm m2])
  show "sqr_length v \<le> (1 + 10 * eps_rel) * (absval (magnitude v) * absval (magnitude v))"
    unfolding M_def [symmetric] by (rule squares_near_magnitude(2) [OF sq(1) sq(2) sm m2])
qed

lemma Normalize_length:
  assumes "finite_vec v" and "is_finite (magnitude v)" and "fgt (magnitude v) (lit 1 100000)"
  shows "1 - 10 * eps_rel \<le> sqr_length (div_fields v (magnitude v))"
    and "sqr_length (div_fields v (magnitude v)) \<le> 1 + 14 * eps_rel"
proof -
  define M where "M = absval (magnitude v)"
  note mr = magnitude_real [OF assms, folded M_def]
  from mr(3) have M0: "0 < M" by argo
  from assms(1) have fx: "is_finite (x v)" and fy: "is_finite (y v)" and fz: "is_finite (z v)"
    by (simp_all add: finite_vec_def)
  from div_fields_finite [OF assms(1,3)]
  have fd: "is_finite (fdiv (x v) (magnitude v))" "is_finite (fdiv (y v) (magnitude v))"
    "is_finite (fdiv (z v) (magnitude v))"
    by (simp_all add: finite_vec_def div_fields_def)
  from fgt_eps_cases [OF assms(3)] assms(2) obtain n where n: "magnitude v = Fin False n" "2 ^ 132 \<le> n"
    by auto
  from n have nz: "\<not> is_zero (magnitude v)" by simp
  have r1: "near (absval (fdiv (x v) (magnitude v))) (absval (x v) / M)"
    unfolding M_def using fx assms(2) nz fd(1) by (rule fdiv_near)
  have r2: "near (absval (fdiv (y v) (magnitude v))) (absval (y v) / M)"
    unfolding M_def using fy assms(2) nz fd(2) by (rule fdiv_near)
  have r3: "near (absval (fdiv (z v) (magnitude v))) (absval (z v) / M)"
    unfolding M_def using fz assms(2) nz fd(3) by (rule fdiv_near)
  have sl: "sqr_length (div_fields v (magnitude v))
      = absval (fdiv (x v) (magnitude v)) * absval (fdiv (x v) (magnitude v))
        + absval (fdiv (y v) (magnitude v)) * absval (fdiv (y v) (magnitude v))
        + absval (fdiv (z v) (magnitude v)) * absval (fdiv (z v) (magnitude v))"
    by (simp add: sqr_length_def div_fields_def)
  show "1 - 10 * eps_rel \<le> sqr_length (div_fields v (magnitude v))"
    unfolding sl
    by (rule unit_length(1) [OF _ _ _ M0 mr(1) [unfolded sqr_length_def] mr(2) [unfolded sqr_length_def] r1 r2 r3])
      simp_all
  show "sqr_length (div_fields v (magnitude v)) \<le> 1 + 14 * eps_rel"
    unfolding sl
    by (rule unit_length(2) [OF _ _ _ M0 mr(1) [unfolded sqr_length_def] mr(2) [unfolded sqr_length_def] r1 r2 r3])
      simp_all
qed

lemma Normalize_unit_length:
  assumes "finite_vec v" and "is_finite (magnitude v)" and "fgt (magnitude v) (lit 1 100000)"
  shows "\<bar>length3 (div_fields v (magnitude v)) - 1\<bar> \<le> 1 / 2 ^ 20"
  unfolding length3_def using Normalize_length [OF assms] by (rule sqrt_near_one)

subsection \<open>Scaling and clamping\<close>

lemma near_square_upper:
  assumes "near R q" and "0 \<le> R"
  shows "R * R \<le> (1 + eps_rel) * (1 + eps_rel) * (q * q) + 2 * (1 + eps_rel) * eps_abs * q + eps_abs * eps_abs"
proof -
  note up = near_upper [OF assms(1)]
  from up up assms(2) assms(2)
  have "R * R \<le> ((1 + eps_rel) * q + eps_abs) * ((1 + eps_rel) * q + eps_abs)"
    by (rule mult_mono')
  also have "\<dots> = (1 + eps_rel) * (1 + eps_rel) * (q * q) + 2 * (1 + eps_rel) * eps_abs * q + eps_abs * eps_abs"
    by (rule sq_affine)
  finally show ?thesis .
qed

lemma scaled_length:
  fixes w1 w2 w3 l :: real
  assumes "0 \<le> w1" and "0 \<le> w2" and "0 \<le> w3" and "0 \<le> l"
    and "w1 * w1 + w2 * w2 + w3 * w3 \<le> 1 + 14 * eps_rel"
    and "near R1 (w1 * l)" and "near R2 (w2 * l)" and "near R3 (w3 * l)"
    and "0 \<le> R1" and "0 \<le> R2" and "0 \<le> R3"
  shows "sqrt (R1 * R1 + R2 * R2 + R3 * R3) \<le> (1 + 16 * eps_rel) * l + 7 * eps_abs"
proof -
  define l2 where "l2 = l * l"
  define W where "W = w1 * w1 + w2 * w2 + w3 * w3"
  define p1 where "p1 = w1 * l"
  define p2 where "p2 = w2 * l"
  define p3 where "p3 = w3 * l"
  define PP where "PP = p1 * p1 + p2 * p2 + p3 * p3"
  have l20: "0 \<le> l2" by (simp add: l2_def)
  have s0: "0 \<le> w1 * w1" "0 \<le> w2 * w2" "0 \<le> w3 * w3" by simp_all
  have "w1 * w1 \<le> 4" using assms(5) s0 by argo
  with assms(1) have "w1 \<le> 2" by (rule square_le_4)
  then have b1: "p1 \<le> 2 * l" unfolding p1_def using assms(4) by (rule mult_right_mono)
  have "w2 * w2 \<le> 4" using assms(5) s0 by argo
  with assms(2) have "w2 \<le> 2" by (rule square_le_4)
  then have b2: "p2 \<le> 2 * l" unfolding p2_def using assms(4) by (rule mult_right_mono)
  have "w3 * w3 \<le> 4" using assms(5) s0 by argo
  with assms(3) have "w3 \<le> 2" by (rule square_le_4)
  then have b3: "p3 \<le> 2 * l" unfolding p3_def using assms(4) by (rule mult_right_mono)
  have PW: "PP = W * l2"
    by (simp add: PP_def W_def l2_def p1_def p2_def p3_def algebra_simps)
  from assms(5) have "W \<le> 1 + 14 * eps_rel" by (simp only: W_def)
  then have "W * l2 \<le> (1 + 14 * eps_rel) * l2" using l20 by (rule mult_right_mono)
  then have PPb: "PP \<le> (1 + 14 * eps_rel) * l2" by (simp only: PW)
  note u1 = near_square_upper [OF assms(6) assms(9), folded p1_def]
  note u2 = near_square_upper [OF assms(7) assms(10), folded p2_def]
  note u3 = near_square_upper [OF assms(8) assms(11), folded p3_def]
  have e: "((1 + 16 * eps_rel) * l + 7 * eps_abs) * ((1 + 16 * eps_rel) * l + 7 * eps_abs)
      = (1 + 16 * eps_rel) * (1 + 16 * eps_rel) * l2 + 2 * (1 + 16 * eps_rel) * (7 * eps_abs) * l
        + 7 * eps_abs * (7 * eps_abs)"
    unfolding l2_def by (rule sq_affine)
  have "R1 * R1 + R2 * R2 + R3 * R3
      \<le> (1 + 16 * eps_rel) * (1 + 16 * eps_rel) * l2 + 2 * (1 + 16 * eps_rel) * (7 * eps_abs) * l
        + 7 * eps_abs * (7 * eps_abs)"
    using u1 u2 u3 b1 b2 b3 PPb l20 assms(4) unfolding PP_def by argo
  then have "R1 * R1 + R2 * R2 + R3 * R3 \<le> ((1 + 16 * eps_rel) * l + 7 * eps_abs)\<^sup>2"
    by (simp only: e power2_eq_square)
  moreover have "0 \<le> (1 + 16 * eps_rel) * l + 7 * eps_abs" using assms(4) by argo
  ultimately show ?thesis by (intro real_le_lsqrt)
qed

lemma unclamped_abstract:
  fixes l :: real
  assumes "(1 - 3 * eps_rel) * T2 - 6 * eps_abs \<le> S" and "S \<le> F" and "near F (l * l)"
    and "0 \<le> l"
  shows "sqrt T2 \<le> (1 + 3 * eps_rel) * l + 1 / 9444732965739290427392"
proof -
  define l2 where "l2 = l * l"
  have l20: "0 \<le> l2" by (simp add: l2_def)
  note up = near_upper [OF assms(3), folded l2_def]
  have e: "((1 + 3 * eps_rel) * l + 1 / 9444732965739290427392) * ((1 + 3 * eps_rel) * l + 1 / 9444732965739290427392)
      = (1 + 3 * eps_rel) * (1 + 3 * eps_rel) * l2 + 2 * (1 + 3 * eps_rel) * (1 / 9444732965739290427392) * l
        + 1 / 9444732965739290427392 * (1 / 9444732965739290427392)"
    unfolding l2_def by (rule sq_affine)
  have "T2 \<le> (1 + 3 * eps_rel) * (1 + 3 * eps_rel) * l2 + 2 * (1 + 3 * eps_rel) * (1 / 9444732965739290427392) * l
        + 1 / 9444732965739290427392 * (1 / 9444732965739290427392)"
    using assms(1,2,4) up l20 by argo
  then have "T2 \<le> ((1 + 3 * eps_rel) * l + 1 / 9444732965739290427392)\<^sup>2"
    by (simp only: e power2_eq_square)
  moreover have "0 \<le> (1 + 3 * eps_rel) * l + 1 / 9444732965739290427392" using assms(4) by argo
  ultimately show ?thesis by (intro real_le_lsqrt)
qed

lemma kept_abstract:
  fixes l :: real
  assumes "S \<le> (1 + 4 * eps_rel) * T2 + 6 * eps_abs" and "near F (l * l)" and "0 \<le> T2"
    and "sqrt T2 \<le> (1 - 4 * eps_rel) * l - 1 / 4722366482869645213696"
  shows "S \<le> F"
proof -
  define l2 where "l2 = l * l"
  define T where "T = sqrt T2"
  have T0: "0 \<le> T" using assms(3) by (simp add: T_def)
  have TT: "T * T = T2" using assms(3) by (simp add: T_def)
  note lo = near_lower [OF assms(2), folded l2_def]
  from assms(4) have b: "T \<le> (1 - 4 * eps_rel) * l + - (1 / 4722366482869645213696)"
    unfolding T_def by argo
  from b b T0 T0
  have "T * T \<le> ((1 - 4 * eps_rel) * l + - (1 / 4722366482869645213696))
      * ((1 - 4 * eps_rel) * l + - (1 / 4722366482869645213696))"
    by (rule mult_mono')
  also have "\<dots> = (1 - 4 * eps_rel) * (1 - 4 * eps_rel) * l2
      + 2 * (1 - 4 * eps_rel) * (- (1 / 4722366482869645213696)) * l
      + - (1 / 4722366482869645213696) * - (1 / 4722366482869645213696)"
    unfolding l2_def by (rule sq_affine)
  finally have "T2 \<le> (1 - 4 * eps_rel) * (1 - 4 * eps_rel) * l2
      + 2 * (1 - 4 * eps_rel) * (- (1 / 4722366482869645213696)) * l
      + - (1 / 4722366482869645213696) * - (1 / 4722366482869645213696)"
    unfolding TT .
  moreover have "0 \<le> l2" by (simp add: l2_def)
  ultimately show ?thesis using b T0 assms(1) lo by argo
qed

lemma absval_le_iff: "absval (Fin s m) \<le> absval (Fin t n) \<longleftrightarrow> m \<le> n"
  by (simp add: divide_le_cancel)

lemma product_finite:
  assumes "m < 2 ^ 151" and "n < 2 ^ 214"
  shows "is_finite (round_ratio s (m * n) (2 ^ 298))"
proof -
  from assms have "m * n < 2 ^ 151 * 2 ^ 214" by (intro mult_strict_mono') simp_all
  then have "m * n * 2 ^ 151 < 2 ^ 218 * 2 ^ 298" by simp
  then have "(m * n * 2 ^ 151) div 2 ^ 298 < 2 ^ 218" by (rule less_mult_imp_div_less)
  with jam_le [of "m * n * 2 ^ 151" "2 ^ 298"] have "jam (m * n * 2 ^ 151) (2 ^ 298) < 2 ^ 279"
    by simp
  then show ?thesis unfolding round_ratio_def by (rule round_jam_finite)
qed

lemma absval_small:
  assumes "absval (Fin s N) \<le> 2"
  shows "N < 2 ^ 151"
proof -
  from assms have "real N \<le> real ((2::nat) ^ 150)" by (simp add: pos_divide_le_eq)
  then have "N \<le> 2 ^ 150" by (simp only: of_nat_le_iff)
  then show ?thesis by simp
qed

lemma fmul_bounded_finite:
  assumes "is_finite a" and "absval a \<le> 2" and "is_finite L" and "is_finite (fmul L L)"
  shows "is_finite (fmul a L)"
proof -
  from assms(1) obtain s m where a: "a = Fin s m" by (cases a) simp_all
  from assms(3) obtain t k where L: "L = Fin t k" by (cases L) simp_all
  from assms(2) have m: "m < 2 ^ 151" unfolding a by (rule absval_small)
  from assms(4) have "is_finite (round_ratio False (k * k) (2 ^ 298))" by (simp add: L)
  then have "k < 2 ^ 214" by (rule square_finite_bound)
  with m have "is_finite (round_ratio (s \<noteq> t) (m * k) (2 ^ 298))" by (rule product_finite)
  then show ?thesis by (simp add: a L)
qed

lemma sqr_length_field:
  "absval (x n) * absval (x n) \<le> sqr_length n"
  "absval (y n) * absval (y n) \<le> sqr_length n"
  "absval (z n) * absval (z n) \<le> sqr_length n"
  by (simp_all add: sqr_length_def)

lemma field_le_2:
  assumes "sqr_length n \<le> 1 + 14 * eps_rel"
  shows "absval (x n) \<le> 2" and "absval (y n) \<le> 2" and "absval (z n) \<le> 2"
proof -
  from assms sqr_length_field(1) [of n] have "absval (x n) * absval (x n) \<le> 4" by argo
  then show "absval (x n) \<le> 2" by (intro square_le_4) simp_all
  from assms sqr_length_field(2) [of n] have "absval (y n) * absval (y n) \<le> 4" by argo
  then show "absval (y n) \<le> 2" by (intro square_le_4) simp_all
  from assms sqr_length_field(3) [of n] have "absval (z n) * absval (z n) \<le> 4" by argo
  then show "absval (z n) \<le> 2" by (intro square_le_4) simp_all
qed

lemma mul_fields_length:
  assumes "finite_vec n" and "sqr_length n \<le> 1 + 14 * eps_rel"
    and "is_finite L" and "is_finite (fmul L L)"
  shows "finite_vec (mul_fields n L)"
    and "length3 (mul_fields n L) \<le> (1 + 16 * eps_rel) * absval L + 7 * eps_abs"
proof -
  from assms(1) have fx: "is_finite (x n)" and fy: "is_finite (y n)" and fz: "is_finite (z n)"
    by (simp_all add: finite_vec_def)
  note b = field_le_2 [OF assms(2)]
  have px: "is_finite (fmul (x n) L)" using fx b(1) assms(3,4) by (rule fmul_bounded_finite)
  have py: "is_finite (fmul (y n) L)" using fy b(2) assms(3,4) by (rule fmul_bounded_finite)
  have pz: "is_finite (fmul (z n) L)" using fz b(3) assms(3,4) by (rule fmul_bounded_finite)
  from px py pz show "finite_vec (mul_fields n L)" by (simp add: finite_vec_def mul_fields_def)
  have r1: "near (absval (fmul (x n) L)) (absval (x n) * absval L)"
    using fx assms(3) px by (rule fmul_near)
  have r2: "near (absval (fmul (y n) L)) (absval (y n) * absval L)"
    using fy assms(3) py by (rule fmul_near)
  have r3: "near (absval (fmul (z n) L)) (absval (z n) * absval L)"
    using fz assms(3) pz by (rule fmul_near)
  have sl: "length3 (mul_fields n L)
      = sqrt (absval (fmul (x n) L) * absval (fmul (x n) L)
        + absval (fmul (y n) L) * absval (fmul (y n) L)
        + absval (fmul (z n) L) * absval (fmul (z n) L))"
    by (simp add: length3_def sqr_length_def mul_fields_def)
  show "length3 (mul_fields n L) \<le> (1 + 16 * eps_rel) * absval L + 7 * eps_abs"
    unfolding sl
    by (rule scaled_length [OF _ _ _ _ assms(2) [unfolded sqr_length_def] r1 r2 r3]) simp_all
qed

lemma sqr_length_zeros:
  assumes "is_zero (x n)" and "is_zero (y n)" and "is_zero (z n)"
  shows "sqr_length n = 0"
proof -
  have "\<And>a. is_zero a \<Longrightarrow> absval a = 0"
  proof -
    fix a
    assume "is_zero a"
    then show "absval a = 0" by (cases a) simp_all
  qed
  with assms show ?thesis by (simp add: sqr_length_def)
qed

lemma Normalize_this_length:
  assumes "finite_vec v"
  shows "finite_vec (Normalize_this v)" and "sqr_length (Normalize_this v) \<le> 1 + 14 * eps_rel"
proof -
  from Normalize_finite [OF assms, of True] show f: "finite_vec (Normalize_this v)" by simp
  show "sqr_length (Normalize_this v) \<le> 1 + 14 * eps_rel"
  proof (cases "fgt (magnitude v) (lit 1 100000)")
    case False
    then have "Normalize_this v = zero" by (simp add: Normalize_this_explicit)
    then have "sqr_length (Normalize_this v) = 0"
      by (intro sqr_length_zeros) (simp_all add: zero_def f0_def)
    then show ?thesis by simp
  next
    case True
    then have e: "Normalize_this v = div_fields v (magnitude v)"
      by (simp add: Normalize_this_explicit)
    from fgt_eps_cases [OF True] show ?thesis
    proof
      assume i: "magnitude v = Infty False"
      from assms have "is_zero (fdiv (x v) (Infty False))" "is_zero (fdiv (y v) (Infty False))"
        "is_zero (fdiv (z v) (Infty False))"
        by (cases "x v"; cases "y v"; cases "z v"; simp add: finite_vec_def)+
      then have "sqr_length (Normalize_this v) = 0"
        unfolding e i by (intro sqr_length_zeros) (simp_all add: div_fields_def)
      then show ?thesis by simp
    next
      assume "\<exists>n. magnitude v = Fin False n \<and> 2 ^ 132 \<le> n"
      then have "is_finite (magnitude v)" by auto
      with assms show ?thesis unfolding e using True by (rule Normalize_length(2))
    qed
  qed
qed

lemma ClampMagnitude_finite:
  assumes "finite_vec v" and "is_finite L"
  shows "ClampMagnitude dbg v L =
    (if fgt (sqrMagnitude v) (fmul L L) then Inr (mul_fields (Normalize_this v) L) else Inr v)"
proof -
  from Normalize_finite [OF assms(1), of dbg]
  have n: "Normalize dbg v = Inr (Normalize_this v)" and f: "finite_vec (Normalize_this v)"
    by simp_all
  show ?thesis
    by (simp add: ClampMagnitude_def normalized_def n op_mul_f_finite [OF f assms(2)] mul_fields_def)
qed

lemma sqrMagnitude_nonneg:
  assumes "finite_vec v"
  shows "nonneg (sqrMagnitude v)"
proof -
  from assms have "\<not> isnan (x v)" "\<not> isnan (y v)" "\<not> isnan (z v)"
    by (simp_all add: finite_vec_def is_finite_not_nan)
  then show ?thesis
    unfolding sqrMagnitude_def by (intro nonneg_fadd nonneg_fmul_self)
qed

lemma finite_below_2_277:
  assumes "is_binary32 (Fin s n)"
  shows "n < 2 ^ 277"
  using assms by (simp add: representable_def)

lemma unclamped_length:
  assumes "finite_vec v" and "is_finite L" and "is_finite (fmul L L)"
    and "\<not> fgt (sqrMagnitude v) (fmul L L)"
  shows "length3 v \<le> (1 + 3 * eps_rel) * absval L + 1 / 9444732965739290427392"
proof -
  have nF: "nonneg (fmul L L)"
    by (rule nonneg_fmul_self) (rule is_finite_not_nan [OF assms(2)])
  with assms(3) obtain f where F: "fmul L L = Fin False f" by (cases "fmul L L") simp_all
  have "is_binary32 (fmul L L)" by simp
  then have f: "f < 2 ^ 277" unfolding F by (rule finite_below_2_277)
  from sqrMagnitude_nonneg [OF assms(1)] assms(4) f obtain s where S: "sqrMagnitude v = Fin False s"
    by (cases "sqrMagnitude v") (simp_all add: F fgt_def flt_def)
  from assms(4) have "s \<le> f" by (simp add: S F fgt_def flt_def)
  then have le: "absval (sqrMagnitude v) \<le> absval (fmul L L)" unfolding S F by (simp only: absval_le_iff)
  have fs: "is_finite (sqrMagnitude v)" by (simp add: S)
  have nr: "near (absval (fmul L L)) (absval L * absval L)"
    using assms(2) assms(2) assms(3) by (rule fmul_near)
  show ?thesis
    unfolding length3_def
    by (rule unclamped_abstract [OF sqrMagnitude_real(1) [OF assms(1) fs] le nr]) simp
qed

lemma ClampMagnitude_length:
  assumes "finite_vec v" and "is_finite L" and "is_finite (fmul L L)"
  shows "\<exists>r. ClampMagnitude dbg v L = Inr r \<and> finite_vec r
    \<and> length3 r \<le> (1 + 1 / 2 ^ 20) * absval L + 1 / 2 ^ 73"
proof (cases "fgt (sqrMagnitude v) (fmul L L)")
  case True
  note n = Normalize_this_length [OF assms(1)]
  note m = mul_fields_length [OF n assms(2,3)]
  have "0 \<le> absval L" by simp
  with m(2) have "length3 (mul_fields (Normalize_this v) L)
      \<le> (1 + 1 / 1048576) * absval L + 1 / 9444732965739290427392" by argo
  then have "length3 (mul_fields (Normalize_this v) L) \<le> (1 + 1 / 2 ^ 20) * absval L + 1 / 2 ^ 73"
    by simp
  with m(1) True show ?thesis
    by (simp only: ClampMagnitude_finite [OF assms(1,2)] if_True) blast
next
  case False
  have "0 \<le> absval L" by simp
  with unclamped_length [OF assms False]
  have "length3 v \<le> (1 + 1 / 1048576) * absval L + 1 / 9444732965739290427392" by argo
  then have "length3 v \<le> (1 + 1 / 2 ^ 20) * absval L + 1 / 2 ^ 73" by simp
  with assms(1) False show ?thesis
    by (simp only: ClampMagnitude_finite [OF assms(1,2)] if_False) blast
qed

lemma ClampMagnitude_keeps:
  assumes "finite_vec v" and "is_finite L" and "is_finite (sqrMagnitude v)"
    and "length3 v \<le> (1 - 1 / 2 ^ 22) * absval L - 1 / 2 ^ 72"
  shows "ClampMagnitude dbg v L = Inr v"
proof -
  have nF: "nonneg (fmul L L)"
    by (rule nonneg_fmul_self) (rule is_finite_not_nan [OF assms(2)])
  from sqrMagnitude_nonneg [OF assms(1)] assms(3) obtain s where S: "sqrMagnitude v = Fin False s"
    by (cases "sqrMagnitude v") simp_all
  have "is_binary32 (sqrMagnitude v)" by (simp add: sqrMagnitude_def)
  then have s: "s < 2 ^ 277" unfolding S by (rule finite_below_2_277)
  have "\<not> fgt (sqrMagnitude v) (fmul L L)"
  proof (cases "fmul L L")
    case NaN
    then show ?thesis by (simp add: fgt_def)
  next
    case (Infty t)
    with nF s show ?thesis by (simp add: S fgt_def flt_def)
  next
    case (Fin t f)
    with nF have F: "fmul L L = Fin False f" by simp
    then have fF: "is_finite (fmul L L)" by simp
    have nr: "near (absval (fmul L L)) (absval L * absval L)"
      using assms(2) assms(2) fF by (rule fmul_near)
    from assms(4) have b: "sqrt (sqr_length v) \<le> (1 - 4 * eps_rel) * absval L - 1 / 4722366482869645213696"
      by (simp add: length3_def)
    have T0: "0 \<le> sqr_length v" by (simp add: sqr_length_def)
    from sqrMagnitude_real(2) [OF assms(1,3)] nr T0 b
    have "absval (sqrMagnitude v) \<le> absval (fmul L L)" by (rule kept_abstract)
    then have "s \<le> f" unfolding S F by (simp only: absval_le_iff)
    then show ?thesis by (simp add: S F fgt_def flt_def)
  qed
  then show ?thesis by (simp add: ClampMagnitude_def)
qed

subsection \<open>The computed magnitude of a unit vector\<close>

lemma isqrt_bound:
  assumes "X < 2 ^ 430"
  shows "isqrt X < 2 ^ 215"
proof (rule ccontr)
  assume "\<not> isqrt X < 2 ^ 215"
  then have a: "2 ^ 215 \<le> isqrt X" by simp
  from a a have "2 ^ 215 * 2 ^ 215 \<le> isqrt X * isqrt X" by (rule mult_le_mono)
  with isqrt_spec [of X] have "2 ^ 215 * 2 ^ 215 \<le> X" by linarith
  with assms show False by simp
qed

lemma fsqrt_finite:
  assumes "is_finite a" and "nonneg a" and "is_binary32 a"
  shows "is_finite (fsqrt a)"
proof -
  from assms(1,2) obtain n where a: "a = Fin False n" by (cases a) simp_all
  from assms(3) have n: "n < 2 ^ 277" unfolding a by (rule finite_below_2_277)
  show ?thesis
  proof (cases "n = 0")
    case True
    then show ?thesis by (simp add: a)
  next
    case False
    from n have "n * 2 ^ 153 < 2 ^ 277 * 2 ^ 153" by simp
    then have "n * 2 ^ 153 < 2 ^ 430" by simp
    then have "isqrt (n * 2 ^ 153) < 2 ^ 215" by (rule isqrt_bound)
    then have "jam_sqrt (n * 2 ^ 153) (isqrt (n * 2 ^ 153)) < 2 ^ 279"
      by (simp add: jam_sqrt_def)
    then have "is_finite (round_jam False (jam_sqrt (n * 2 ^ 153) (isqrt (n * 2 ^ 153))))"
      by (rule round_jam_finite)
    with False show ?thesis by (simp add: a)
  qed
qed

lemma sum_finite:
  assumes "m + n < 2 ^ 276"
  shows "is_finite (round_ratio s (m + n) (2 ^ 149))"
proof -
  have "round_ratio s (m + n) (2 ^ 149) = round_jam s (8 * (m + n))" by (rule round_ratio_units)
  moreover from assms have "8 * (m + n) < 2 ^ 279" by simp
  then have "is_finite (round_jam s (8 * (m + n)))" by (rule round_jam_finite)
  ultimately show ?thesis by simp
qed

lemma absval_bound:
  assumes "absval (Fin s N) \<le> 16"
  shows "N < 2 ^ 154"
proof -
  from assms have "real N \<le> real ((2::nat) ^ 153)" by (simp add: pos_divide_le_eq)
  then have "N \<le> 2 ^ 153" by (simp only: of_nat_le_iff)
  then show ?thesis by simp
qed

lemma fadd_bounded_finite:
  assumes "is_finite a" and "is_finite b" and "nonneg a" and "nonneg b"
    and "absval a \<le> 16" and "absval b \<le> 16"
  shows "is_finite (fadd a b)"
proof -
  from assms(1,3) obtain m where a: "a = Fin False m" by (cases a) simp_all
  from assms(2,4) obtain n where b: "b = Fin False n" by (cases b) simp_all
  from assms(5) have "m < 2 ^ 154" unfolding a by (rule absval_bound)
  moreover from assms(6) have "n < 2 ^ 154" unfolding b by (rule absval_bound)
  ultimately have "m + n < 2 ^ 276" by simp
  then have "is_finite (round_ratio False (m + n) (2 ^ 149))" by (rule sum_finite)
  then show ?thesis by (simp add: a b)
qed

lemma fmul_self_bounded_finite:
  assumes "is_finite a" and "absval a \<le> 2"
  shows "is_finite (fmul a a)"
proof -
  from assms(1) obtain s m where a: "a = Fin s m" by (cases a) simp_all
  from assms(2) have m: "m < 2 ^ 151" unfolding a by (rule absval_small)
  then have "m < 2 ^ 214" by simp
  with m have "is_finite (round_ratio (s \<noteq> s) (m * m) (2 ^ 298))" by (rule product_finite)
  then show ?thesis by (simp add: a)
qed

lemma near_le:
  assumes "near A V" and "V \<le> 4"
  shows "A \<le> 5"
  using near_upper [OF assms(1)] assms(2) by argo

lemma unit_magnitude_abstract:
  assumes "(1 - 3 * eps_rel) * T2 - 6 * eps_abs \<le> S"
    and "S \<le> (1 + 4 * eps_rel) * T2 + 6 * eps_abs"
    and "1 - 10 * eps_rel \<le> T2" and "T2 \<le> 1 + 14 * eps_rel"
    and "near M (sqrt S)"
  shows "\<bar>M - 1\<bar> \<le> 1 / 2 ^ 20"
proof -
  from assms(1,3) have l: "1 - 14 * eps_rel \<le> S" by argo
  from assms(2,4) have u: "S \<le> 1 + 19 * eps_rel" by argo
  have "(1 - 14 * eps_rel)\<^sup>2 \<le> 1 - 14 * eps_rel" by (simp add: power2_eq_square)
  with l have "(1 - 14 * eps_rel)\<^sup>2 \<le> S" by (rule order_trans [rotated])
  then have ls: "1 - 14 * eps_rel \<le> sqrt S" by (rule real_le_rsqrt)
  have "1 + 19 * eps_rel \<le> (1 + 10 * eps_rel)\<^sup>2" by (simp add: power2_eq_square)
  with u have "S \<le> (1 + 10 * eps_rel)\<^sup>2" by (rule order_trans)
  then have us: "sqrt S \<le> 1 + 10 * eps_rel" by (intro real_le_lsqrt) simp_all
  have p: "(1::real) / 2 ^ 20 = 16 * eps_rel" by simp
  from ls us near_lower [OF assms(5)] near_upper [OF assms(5)]
  have "\<bar>M - 1\<bar> \<le> 16 * eps_rel" by argo
  then show ?thesis by (simp only: p)
qed

lemma unit_magnitude:
  assumes "finite_vec r" and "1 - 10 * eps_rel \<le> sqr_length r" and "sqr_length r \<le> 1 + 14 * eps_rel"
  shows "is_finite (magnitude r)" and "\<bar>absval (magnitude r) - 1\<bar> \<le> 1 / 2 ^ 20"
proof -
  from assms(1) have fx: "is_finite (x r)" and fy: "is_finite (y r)" and fz: "is_finite (z r)"
    by (simp_all add: finite_vec_def)
  note b = field_le_2 [OF assms(3)]
  have px: "is_finite (fmul (x r) (x r))" using fx b(1) by (rule fmul_self_bounded_finite)
  have py: "is_finite (fmul (y r) (y r))" using fy b(2) by (rule fmul_self_bounded_finite)
  have pz: "is_finite (fmul (z r) (z r))" using fz b(3) by (rule fmul_self_bounded_finite)
  have nx: "nonneg (fmul (x r) (x r))" by (rule nonneg_fmul_self) (rule is_finite_not_nan [OF fx])
  have ny: "nonneg (fmul (y r) (y r))" by (rule nonneg_fmul_self) (rule is_finite_not_nan [OF fy])
  have nz: "nonneg (fmul (z r) (z r))" by (rule nonneg_fmul_self) (rule is_finite_not_nan [OF fz])
  have q: "\<And>a. is_finite a \<Longrightarrow> absval a \<le> 2 \<Longrightarrow> is_finite (fmul a a) \<Longrightarrow> absval (fmul a a) \<le> 5"
  proof -
    fix a
    assume a: "is_finite a" "absval a \<le> 2" "is_finite (fmul a a)"
    have "0 \<le> absval a" by simp
    with a(2) have "absval a * absval a \<le> 2 * 2" by (intro mult_mono) simp_all
    then have "absval a * absval a \<le> 4" by simp
    with fmul_near [OF a(1) a(1) a(3)] show "absval (fmul a a) \<le> 5" by (rule near_le)
  qed
  note ax = q [OF fx b(1) px] and ay = q [OF fy b(2) py] and az = q [OF fz b(3) pz]
  have s1: "is_finite (fadd (fmul (x r) (x r)) (fmul (y r) (y r)))"
    using px py nx ny by (rule fadd_bounded_finite) (use ax ay in argo)+
  have n1: "nonneg (fadd (fmul (x r) (x r)) (fmul (y r) (y r)))" using nx ny by (rule nonneg_fadd)
  have "near (absval (fadd (fmul (x r) (x r)) (fmul (y r) (y r))))
      (absval (fmul (x r) (x r)) + absval (fmul (y r) (y r)))"
    using nx ny s1 by (rule fadd_near)
  from near_upper [OF this] ax ay
  have a1: "absval (fadd (fmul (x r) (x r)) (fmul (y r) (y r))) \<le> 16" by argo
  have fs: "is_finite (sqrMagnitude r)"
    unfolding sqrMagnitude_def using s1 pz n1 nz by (rule fadd_bounded_finite) (use a1 az in argo)+
  note sq = sqrMagnitude_real [OF assms(1) fs]
  have "is_binary32 (sqrMagnitude r)" by (simp add: sqrMagnitude_def)
  with fs sq(3) show fm: "is_finite (magnitude r)"
    unfolding magnitude_fsqrt by (rule fsqrt_finite)
  from sq(3) fs fm [unfolded magnitude_fsqrt]
  have "near (absval (fsqrt (sqrMagnitude r))) (sqrt (absval (sqrMagnitude r)))"
    by (rule fsqrt_near)
  then have nr: "near (absval (magnitude r)) (sqrt (absval (sqrMagnitude r)))"
    by (simp only: magnitude_fsqrt)
  from sq(1) sq(2) assms(2) assms(3) nr
  show "\<bar>absval (magnitude r) - 1\<bar> \<le> 1 / 2 ^ 20"
    by (rule unit_magnitude_abstract)
qed

lemma Normalize_unit_magnitude:
  assumes "finite_vec v" and "is_finite (magnitude v)" and "fgt (magnitude v) (lit 1 100000)"
  shows "is_finite (magnitude (div_fields v (magnitude v)))"
    and "\<bar>absval (magnitude (div_fields v (magnitude v))) - 1\<bar> \<le> 1 / 2 ^ 20"
proof -
  note f = div_fields_finite [OF assms(1,3)]
  note l = Normalize_length [OF assms]
  show "is_finite (magnitude (div_fields v (magnitude v)))" using f l by (rule unit_magnitude(1))
  show "\<bar>absval (magnitude (div_fields v (magnitude v))) - 1\<bar> \<le> 1 / 2 ^ 20"
    using f l by (rule unit_magnitude(2))
qed

subsection \<open>The computed magnitude of a clamped vector\<close>

lemma product_finite_gen:
  assumes "m * n < 2 ^ 425"
  shows "is_finite (round_ratio s (m * n) (2 ^ 298))"
proof -
  from assms have "m * n * 2 ^ 151 < 2 ^ 278 * 2 ^ 298" by simp
  then have "(m * n * 2 ^ 151) div 2 ^ 298 < 2 ^ 278" by (rule less_mult_imp_div_less)
  with jam_le [of "m * n * 2 ^ 151" "2 ^ 298"] have "jam (m * n * 2 ^ 151) (2 ^ 298) < 2 ^ 279"
    by simp
  then show ?thesis unfolding round_ratio_def by (rule round_jam_finite)
qed

lemma absval_le_nat:
  assumes "absval (Fin s N) \<le> real K"
  shows "N \<le> K * 2 ^ 149"
proof -
  from assms have "real N \<le> real K * 2 ^ 149" by (simp add: pos_divide_le_eq)
  also have "\<dots> = real (K * 2 ^ 149)" by simp
  finally show ?thesis by (simp only: of_nat_le_iff)
qed

lemma fmul_large_finite:
  assumes "is_finite a" and "is_finite b" and "absval a \<le> 2 ^ 61" and "absval b \<le> 2 ^ 61"
  shows "is_finite (fmul a b)"
proof -
  from assms(1) obtain s m where a: "a = Fin s m" by (cases a) simp_all
  from assms(2) obtain t n where b: "b = Fin t n" by (cases b) simp_all
  from assms(3) have "absval (Fin s m) \<le> real (2 ^ 61)" by (simp add: a)
  then have m: "m \<le> 2 ^ 61 * 2 ^ 149" by (rule absval_le_nat)
  from assms(4) have "absval (Fin t n) \<le> real (2 ^ 61)" by (simp add: b)
  then have n: "n \<le> 2 ^ 61 * 2 ^ 149" by (rule absval_le_nat)
  from m n have "m * n \<le> (2 ^ 61 * 2 ^ 149) * (2 ^ 61 * 2 ^ 149)" by (rule mult_le_mono)
  then have "m * n < 2 ^ 425" by simp
  then have "is_finite (round_ratio (s \<noteq> t) (m * n) (2 ^ 298))" by (rule product_finite_gen)
  then show ?thesis by (simp add: a b)
qed

lemma fadd_large_finite:
  assumes "is_finite a" and "is_finite b" and "nonneg a" and "nonneg b"
    and "absval a \<le> 2 ^ 125" and "absval b \<le> 2 ^ 125"
  shows "is_finite (fadd a b)"
proof -
  from assms(1,3) obtain m where a: "a = Fin False m" by (cases a) simp_all
  from assms(2,4) obtain n where b: "b = Fin False n" by (cases b) simp_all
  from assms(5) have "absval (Fin False m) \<le> real (2 ^ 125)" by (simp add: a)
  then have m: "m \<le> 2 ^ 125 * 2 ^ 149" by (rule absval_le_nat)
  from assms(6) have "absval (Fin False n) \<le> real (2 ^ 125)" by (simp add: b)
  then have n: "n \<le> 2 ^ 125 * 2 ^ 149" by (rule absval_le_nat)
  from m n have "m + n < 2 ^ 276" by simp
  then have "is_finite (round_ratio False (m + n) (2 ^ 149))" by (rule sum_finite)
  then show ?thesis by (simp add: a b)
qed

lemma field_le_length:
  "absval (x r) \<le> length3 r" "absval (y r) \<le> length3 r" "absval (z r) \<le> length3 r"
proof -
  have q: "\<And>a s. 0 \<le> a \<Longrightarrow> a * a \<le> s \<Longrightarrow> a \<le> sqrt s"
  proof -
    fix a s :: real
    assume "0 \<le> a" and "a * a \<le> s"
    then have "a\<^sup>2 \<le> s" by (simp add: power2_eq_square)
    then show "a \<le> sqrt s" by (rule real_le_rsqrt)
  qed
  show "absval (x r) \<le> length3 r" unfolding length3_def
    by (rule q) (simp_all add: sqr_length_field)
  show "absval (y r) \<le> length3 r" unfolding length3_def
    by (rule q) (simp_all add: sqr_length_field)
  show "absval (z r) \<le> length3 r" unfolding length3_def
    by (rule q) (simp_all add: sqr_length_field)
qed

lemma magnitude_upper_abstract:
  assumes "S \<le> (1 + 4 * eps_rel) * T2 + 6 * eps_abs" and "0 \<le> T2" and "near M (sqrt S)"
  shows "M \<le> (1 + 4 * eps_rel) * sqrt T2 + 1 / 4722366482869645213696"
proof -
  define T where "T = sqrt T2"
  have T0: "0 \<le> T" using assms(2) by (simp add: T_def)
  have TT: "T * T = T2" using assms(2) by (simp add: T_def)
  have e: "((1 + 2 * eps_rel) * T + 1 / 9444732965739290427392) * ((1 + 2 * eps_rel) * T + 1 / 9444732965739290427392)
      = (1 + 2 * eps_rel) * (1 + 2 * eps_rel) * T2 + 2 * (1 + 2 * eps_rel) * (1 / 9444732965739290427392) * T
        + 1 / 9444732965739290427392 * (1 / 9444732965739290427392)"
    unfolding TT [symmetric] by (rule sq_affine)
  have "S \<le> (1 + 2 * eps_rel) * (1 + 2 * eps_rel) * T2 + 2 * (1 + 2 * eps_rel) * (1 / 9444732965739290427392) * T
        + 1 / 9444732965739290427392 * (1 / 9444732965739290427392)"
    using assms(1,2) T0 by argo
  then have "S \<le> ((1 + 2 * eps_rel) * T + 1 / 9444732965739290427392)\<^sup>2"
    by (simp only: e power2_eq_square)
  moreover have "0 \<le> (1 + 2 * eps_rel) * T + 1 / 9444732965739290427392" using T0 by argo
  ultimately have "sqrt S \<le> (1 + 2 * eps_rel) * T + 1 / 9444732965739290427392"
    by (intro real_le_lsqrt)
  with near_upper [OF assms(3)] T0 show ?thesis unfolding T_def [symmetric] by argo
qed

lemma pow_61: "(2::real) ^ 61 = 2305843009213693952"
  by simp

lemma pow_125: "(2::real) ^ 125 = 42535295865117307932921825928971026432"
  by simp

lemma magnitude_upper:
  assumes "finite_vec r" and "length3 r \<le> 2 ^ 61"
  shows "is_finite (magnitude r)"
    and "absval (magnitude r) \<le> (1 + 4 * eps_rel) * length3 r + 1 / 4722366482869645213696"
proof -
  from assms(1) have fx: "is_finite (x r)" and fy: "is_finite (y r)" and fz: "is_finite (z r)"
    by (simp_all add: finite_vec_def)
  from field_le_length [of r] assms(2)
  have b: "absval (x r) \<le> 2 ^ 61" "absval (y r) \<le> 2 ^ 61" "absval (z r) \<le> 2 ^ 61"
    by simp_all
  have px: "is_finite (fmul (x r) (x r))" using fx fx b(1) b(1) by (rule fmul_large_finite)
  have py: "is_finite (fmul (y r) (y r))" using fy fy b(2) b(2) by (rule fmul_large_finite)
  have pz: "is_finite (fmul (z r) (z r))" using fz fz b(3) b(3) by (rule fmul_large_finite)
  have nx: "nonneg (fmul (x r) (x r))" by (rule nonneg_fmul_self) (rule is_finite_not_nan [OF fx])
  have ny: "nonneg (fmul (y r) (y r))" by (rule nonneg_fmul_self) (rule is_finite_not_nan [OF fy])
  have nz: "nonneg (fmul (z r) (z r))" by (rule nonneg_fmul_self) (rule is_finite_not_nan [OF fz])
  have q: "\<And>a. is_finite a \<Longrightarrow> absval a \<le> 2 ^ 61 \<Longrightarrow> is_finite (fmul a a)
      \<Longrightarrow> absval (fmul a a) \<le> 10633823966279326983230456482242756608"
  proof -
    fix a
    assume a: "is_finite a" "absval a \<le> 2 ^ 61" "is_finite (fmul a a)"
    have a0: "0 \<le> absval a" by simp
    from a(2) a(2) a0 a0 have "absval a * absval a \<le> 2 ^ 61 * 2 ^ 61" by (rule mult_mono')
    then have "absval a * absval a \<le> 5316911983139663491615228241121378304" by simp
    with near_upper [OF fmul_near [OF a(1) a(1) a(3)]]
    show "absval (fmul a a) \<le> 10633823966279326983230456482242756608" by argo
  qed
  note ax = q [OF fx b(1) px] and ay = q [OF fy b(2) py] and az = q [OF fz b(3) pz]
  have ax': "absval (fmul (x r) (x r)) \<le> 2 ^ 125" unfolding pow_125 using ax by argo
  have ay': "absval (fmul (y r) (y r)) \<le> 2 ^ 125" unfolding pow_125 using ay by argo
  have az': "absval (fmul (z r) (z r)) \<le> 2 ^ 125" unfolding pow_125 using az by argo
  have s1: "is_finite (fadd (fmul (x r) (x r)) (fmul (y r) (y r)))"
    using px py nx ny ax' ay' by (rule fadd_large_finite)
  have n1: "nonneg (fadd (fmul (x r) (x r)) (fmul (y r) (y r)))" using nx ny by (rule nonneg_fadd)
  have "near (absval (fadd (fmul (x r) (x r)) (fmul (y r) (y r))))
      (absval (fmul (x r) (x r)) + absval (fmul (y r) (y r)))"
    using nx ny s1 by (rule fadd_near)
  from near_upper [OF this] ax ay
  have "absval (fadd (fmul (x r) (x r)) (fmul (y r) (y r))) \<le> 42535295865117307932921825928971026432"
    by argo
  then have a1: "absval (fadd (fmul (x r) (x r)) (fmul (y r) (y r))) \<le> 2 ^ 125"
    by (simp only: pow_125)
  have fs: "is_finite (sqrMagnitude r)"
    unfolding sqrMagnitude_def using s1 pz n1 nz a1 az' by (rule fadd_large_finite)
  note sq = sqrMagnitude_real [OF assms(1) fs]
  have "is_binary32 (sqrMagnitude r)" by (simp add: sqrMagnitude_def)
  with fs sq(3) show fm: "is_finite (magnitude r)"
    unfolding magnitude_fsqrt by (rule fsqrt_finite)
  from sq(3) fs fm [unfolded magnitude_fsqrt]
  have "near (absval (fsqrt (sqrMagnitude r))) (sqrt (absval (sqrMagnitude r)))"
    by (rule fsqrt_near)
  then have nr: "near (absval (magnitude r)) (sqrt (absval (sqrMagnitude r)))"
    by (simp only: magnitude_fsqrt)
  have T0: "0 \<le> sqr_length r" by (simp add: sqr_length_def)
  show "absval (magnitude r) \<le> (1 + 4 * eps_rel) * length3 r + 1 / 4722366482869645213696"
    unfolding length3_def using sq(2) T0 nr by (rule magnitude_upper_abstract)
qed

lemma ClampMagnitude_magnitude:
  assumes "finite_vec v" and "is_finite L" and "absval L \<le> 2 ^ 60"
  shows "\<exists>r. ClampMagnitude dbg v L = Inr r \<and> is_finite (magnitude r)
    \<and> absval (magnitude r) \<le> (1 + 1 / 2 ^ 19) * absval L + 1 / 2 ^ 71"
proof -
  from assms(3) have "absval L \<le> 2 ^ 61" by simp
  with assms(2) have fL: "is_finite (fmul L L)" by (intro fmul_large_finite)
  from ClampMagnitude_length [OF assms(1,2) fL, of dbg] obtain r
    where r: "ClampMagnitude dbg v L = Inr r" "finite_vec r"
      "length3 r \<le> (1 + 1 / 2 ^ 20) * absval L + 1 / 2 ^ 73"
    by blast
  from assms(3) have L: "absval L \<le> 1152921504606846976" by simp
  from r(3) have l: "length3 r \<le> (1 + 1 / 1048576) * absval L + 1 / 9444732965739290427392"
    by simp
  with L have "length3 r \<le> 2305843009213693952" by argo
  then have b: "length3 r \<le> 2 ^ 61" by (simp only: pow_61)
  note m = magnitude_upper [OF r(2) b]
  have "0 \<le> absval L" by simp
  with m(2) l have "absval (magnitude r)
      \<le> (1 + 1 / 524288) * absval L + 1 / 2361183241434822606848" by argo
  then have "absval (magnitude r) \<le> (1 + 1 / 2 ^ 19) * absval L + 1 / 2 ^ 71" by simp
  with r(1) m(1) show ?thesis by blast
qed

lemma sq_sum: "(a + b) * (a + b) = a * a + 2 * b * a + b * (b::real)"
  by (simp add: algebra_simps)

lemma magnitude_lower_abstract:
  assumes "(1 - 3 * eps_rel) * T2 - 6 * eps_abs \<le> S" and "0 \<le> S" and "0 \<le> M"
    and "near M (sqrt S)"
  shows "sqrt T2 \<le> (1 + 3 * eps_rel) * M + 1 / 9444732965739290427392"
proof -
  define r where "r = sqrt S"
  define MM where "MM = M * M"
  have r0: "0 \<le> r" using assms(2) by (simp add: r_def)
  have rr: "r * r = S" using assms(2) by (simp add: r_def)
  have MM0: "0 \<le> MM" by (simp add: MM_def)
  note lo = near_lower [OF assms(4), folded r_def]
  from lo have b: "(1 - eps_rel) * r \<le> M + eps_abs" by argo
  have b0: "0 \<le> (1 - eps_rel) * r" using r0 by argo
  have "(1 - eps_rel) * (1 - eps_rel) * S = ((1 - eps_rel) * r) * ((1 - eps_rel) * r)"
    unfolding rr [symmetric] by (rule sq_scaled [symmetric])
  also from b b b0 b0 have "\<dots> \<le> (M + eps_abs) * (M + eps_abs)" by (rule mult_mono')
  also have "\<dots> = MM + 2 * eps_abs * M + eps_abs * eps_abs" unfolding MM_def by (rule sq_sum)
  finally have s: "(1 - eps_rel) * (1 - eps_rel) * S \<le> MM + 2 * eps_abs * M + eps_abs * eps_abs" .
  have e: "((1 + 3 * eps_rel) * M + 1 / 9444732965739290427392) * ((1 + 3 * eps_rel) * M + 1 / 9444732965739290427392)
      = (1 + 3 * eps_rel) * (1 + 3 * eps_rel) * MM + 2 * (1 + 3 * eps_rel) * (1 / 9444732965739290427392) * M
        + 1 / 9444732965739290427392 * (1 / 9444732965739290427392)"
    unfolding MM_def by (rule sq_affine)
  have "T2 \<le> (1 + 3 * eps_rel) * (1 + 3 * eps_rel) * MM + 2 * (1 + 3 * eps_rel) * (1 / 9444732965739290427392) * M
        + 1 / 9444732965739290427392 * (1 / 9444732965739290427392)"
    using s assms(1,3) MM0 by argo
  then have "T2 \<le> ((1 + 3 * eps_rel) * M + 1 / 9444732965739290427392)\<^sup>2"
    by (simp only: e power2_eq_square)
  moreover have "0 \<le> (1 + 3 * eps_rel) * M + 1 / 9444732965739290427392" using assms(3) by argo
  ultimately show ?thesis by (intro real_le_lsqrt)
qed

lemma length_le_magnitude:
  assumes "finite_vec v" and "is_finite (magnitude v)"
  shows "length3 v \<le> (1 + 3 * eps_rel) * absval (magnitude v) + 1 / 9444732965739290427392"
proof -
  from assms(2) have fs: "is_finite (sqrMagnitude v)"
    unfolding magnitude_fsqrt by (rule fsqrt_finite_D)
  note sq = sqrMagnitude_real [OF assms(1) fs]
  from sq(3) fs assms(2) [unfolded magnitude_fsqrt]
  have "near (absval (fsqrt (sqrMagnitude v))) (sqrt (absval (sqrMagnitude v)))"
    by (rule fsqrt_near)
  then have nr: "near (absval (magnitude v)) (sqrt (absval (sqrMagnitude v)))"
    by (simp only: magnitude_fsqrt)
  show ?thesis unfolding length3_def
    by (rule magnitude_lower_abstract [OF sq(1) _ _ nr]) simp_all
qed

lemma ClampMagnitude_keeps_computed:
  assumes "finite_vec v" and "is_finite L" and "is_finite (magnitude v)"
    and "absval (magnitude v) \<le> (1 - 1 / 2 ^ 21) * absval L - 1 / 2 ^ 71"
  shows "ClampMagnitude dbg v L = Inr v"
proof -
  from assms(3) have fs: "is_finite (sqrMagnitude v)"
    unfolding magnitude_fsqrt by (rule fsqrt_finite_D)
  from assms(4) have "absval (magnitude v) \<le> (1 - 1 / 2097152) * absval L - 1 / 2361183241434822606848"
    by simp
  moreover have "0 \<le> absval L" by simp
  ultimately have "length3 v \<le> (1 - 1 / 4194304) * absval L - 1 / 4722366482869645213696"
    using length_le_magnitude [OF assms(1,3)] by argo
  then have "length3 v \<le> (1 - 1 / 2 ^ 22) * absval L - 1 / 2 ^ 72" by simp
  with assms(1,2) fs show ?thesis by (rule ClampMagnitude_keeps)
qed

lemma ClampMagnitude_normalized:
  assumes "finite_vec v" and "is_finite L"
  shows "\<exists>n. normalized dbg v = Inr n \<and> ClampMagnitude dbg v L =
    (if fgt (sqrMagnitude v) (fmul L L) then Inr (mul_fields n L) else Inr v)"
  using Normalize_finite [OF assms(1), of dbg] ClampMagnitude_finite [OF assms, of dbg]
  by (simp add: normalized_def)

section \<open>Assertions and NaN\<close>

text \<open>
  C1 (the code fails the claim). The claim: every constructor, assignment, arithmetic and
  compound-assignment operator fails fast by an assertion when a field of an operand or of
  the result would be NaN, so no operation on NaN-free inputs silently leaves a NaN field.
  With assertions compiled in, the array constructor accepts a NaN element, \<open>operator/=\<close>
  by zero turns the zero vector into three NaN fields, and \<open>operator+=\<close> adds opposite
  infinities into a NaN, each returning normally; the sibling three-float constructor,
  \<open>operator/\<close> and \<open>operator+\<close> fail the assertion on the same inputs.
\<close>

theorem C1_nan_left_silently:
  "Vector3_array [NaN, f0, f0] = Inr \<lparr>x = NaN, y = f0, z = f0\<rparr>
   \<and> Vector3_xyz True NaN f0 f0 = Inl AssertionFailed
   \<and> \<not> hasNaNs zero
   \<and> op_div_assign_f True zero f0 = Inr \<lparr>x = NaN, y = NaN, z = NaN\<rparr>
   \<and> op_div_f True zero f0 = Inl AssertionFailed
   \<and> \<not> hasNaNs \<lparr>x = Infty False, y = f0, z = f0\<rparr>
   \<and> \<not> hasNaNs \<lparr>x = Infty True, y = f0, z = f0\<rparr>
   \<and> op_add_assign True \<lparr>x = Infty False, y = f0, z = f0\<rparr> \<lparr>x = Infty True, y = f0, z = f0\<rparr>
       = Inr \<lparr>x = NaN, y = Fin False 0, z = Fin False 0\<rparr>
   \<and> op_add True \<lparr>x = Infty False, y = f0, z = f0\<rparr> \<lparr>x = Infty True, y = f0, z = f0\<rparr>
       = Inl AssertionFailed"
  by (simp add: Vector3_array_def Vector3_xyz_def hasNaNs_def zero_def f0_def
      op_div_assign_f_def op_div_f_def op_add_assign_def op_add_def fne_def feq_def)

text \<open>
  C2 (the code fails the claim). The claim: both scalar divisions, \<open>operator/\<close> and
  \<open>operator/=\<close>, assert that the divisor is not NaN and not zero before dividing. For every
  vector and either zero as divisor, \<open>operator/\<close> fails its assertion, and \<open>operator/=\<close>,
  which asserts only that the divisor is not NaN, divides and returns.
\<close>

theorem C2_div_assign_accepts_zero:
  "op_div_f True v (Fin s 0) = Inl AssertionFailed
   \<and> op_div_assign_f True v (Fin s 0)
       = Inr (v\<lparr>x := fdiv (x v) (Fin s 0), y := fdiv (y v) (Fin s 0), z := fdiv (z v) (Fin s 0)\<rparr>)
   \<and> op_div_assign_f True \<lparr>x = f1, y = f0, z = f0\<rparr> f0 = Inr \<lparr>x = Infty False, y = NaN, z = NaN\<rparr>"
  by (simp add: op_div_f_def op_div_assign_f_def fne_def f0_def f1_def)

section \<open>Equality\<close>

lemma ev5_1: "lit 999999944 (10 ^ 19) = Fin False (7205759 * 2 ^ 93)"
  by (simp add: f32_eval)

lemma ev5_2: "lit 1 1000000 = Fin False (8796093 * 2 ^ 106)"
  by (simp add: f32_eval)

lemma ev5_3: "fadd (Fin False (8796093 * 2 ^ 106)) (Fin True 0) = Fin False (8796093 * 2 ^ 106)"
  by (simp add: f32_eval)

lemma ev5_4: "fadd (Fin False 0) (Fin True 0) = Fin False 0"
  by (simp add: f32_eval)

lemma ev5_5: "fmul (Fin False (8796093 * 2 ^ 106)) (Fin False (8796093 * 2 ^ 106)) = Fin False (2305843 * 2 ^ 88)"
  by (simp add: f32_eval)

lemma ev5_6: "fmul (Fin False 0) (Fin False 0) = Fin False 0"
  by (simp add: f32_eval)

lemma ev5_7: "fadd (Fin False (2305843 * 2 ^ 88)) (Fin False 0) = Fin False (2305843 * 2 ^ 88)"
  by (simp add: f32_eval)

lemma ev5_8: "fadd (Fin False (2 ^ 149)) (Fin True 0) = Fin False (2 ^ 149)"
  by (simp add: f32_eval)

lemma ev5_9: "fmul (Fin False (2 ^ 149)) (Fin False (2 ^ 149)) = Fin False (2 ^ 149)"
  by (simp add: f32_eval)

lemma ev5_10: "fadd (Fin False (2 ^ 149)) (Fin False 0) = Fin False (2 ^ 149)"
  by (simp add: f32_eval)

text \<open>
  C5. For every pair of vectors, \<open>a == b\<close> holds exactly when the squared magnitude of the
  field-wise difference is less than \<open>9.99999944E-11f\<close>, whether or not assertions are
  compiled in (a NaN in the difference makes the comparison false). In particular
  \<open>Vector3(1e-6, 0, 0) == Vector3(0, 0, 0)\<close> holds and \<open>Vector3(1, 0, 0) == Vector3(0, 0, 0)\<close>
  does not.
\<close>

theorem C5_eq_is_squared_distance:
  "(op_eq dbg a b = Inr True) = flt (SqrMagnitude (diff a b)) (lit 999999944 (10 ^ 19))
   \<and> op_eq dbg \<lparr>x = lit 1 1000000, y = f0, z = f0\<rparr> \<lparr>x = f0, y = f0, z = f0\<rparr> = Inr True
   \<and> op_eq dbg \<lparr>x = f1, y = f0, z = f0\<rparr> \<lparr>x = f0, y = f0, z = f0\<rparr> = Inr False"
proof -
  have "(op_eq dbg a b = Inr True) = flt (SqrMagnitude (diff a b)) (lit 999999944 (10 ^ 19))"
    using SqrMagnitude_nan [of "diff a b"] by (auto simp: op_eq_def op_sub_diff)
  moreover have "op_eq dbg \<lparr>x = lit 1 1000000, y = f0, z = f0\<rparr> \<lparr>x = f0, y = f0, z = f0\<rparr> = Inr True"
    using ev5_1 ev5_2 ev5_3 ev5_4 ev5_5 ev5_6 ev5_7
    by (simp add: op_eq_def op_sub_diff diff_def hasNaNs_def SqrMagnitude_def fsub_def f0_def flt_def
        del: f32_ops)
  moreover have "op_eq dbg \<lparr>x = f1, y = f0, z = f0\<rparr> \<lparr>x = f0, y = f0, z = f0\<rparr> = Inr False"
    using ev5_1 ev5_4 ev5_6 ev5_8 ev5_9 ev5_10
    by (simp add: op_eq_def op_sub_diff diff_def hasNaNs_def SqrMagnitude_def fsub_def f0_def f1_def
        flt_def del: f32_ops)
  ultimately show ?thesis by blast
qed

text \<open>
  C10 (amended). For every pair of vectors whose field-wise difference has no NaN field, as
  for all vectors with finite fields (\<open>finite_diff\<close>), \<open>a == b\<close> and \<open>a != b\<close> both return
  and exactly one of them holds: \<open>!=\<close> compares the same squared magnitude with the same
  constant by \<open>>=\<close> instead of \<open><\<close>.
\<close>

theorem C10_complement:
  assumes "\<not> hasNaNs (diff a b)"
  shows "\<exists>e. op_eq dbg a b = Inr e \<and> op_ne dbg a b = Inr (\<not> e)"
proof -
  from assms have "\<not> isnan (SqrMagnitude (diff a b))"
    by (intro nonneg_not_nan SqrMagnitude_nonneg)
  then have "fge (SqrMagnitude (diff a b)) (lit 999999944 (10 ^ 19))
      = (\<not> flt (SqrMagnitude (diff a b)) (lit 999999944 (10 ^ 19)))"
    by (intro fge_not_flt) (simp_all add: lit_def)
  with assms show ?thesis
    by (simp add: op_eq_def op_ne_def op_sub_diff)
qed

text \<open>The vectors \<open>(1, 0, 0)\<close> and \<open>(0, 0, 0)\<close> satisfy the hypothesis.\<close>

theorem C10_complement_witness:
  "\<not> hasNaNs (diff \<lparr>x = f1, y = f0, z = f0\<rparr> \<lparr>x = f0, y = f0, z = f0\<rparr>)
   \<and> (\<exists>e. op_eq True \<lparr>x = f1, y = f0, z = f0\<rparr> \<lparr>x = f0, y = f0, z = f0\<rparr> = Inr e
        \<and> op_ne True \<lparr>x = f1, y = f0, z = f0\<rparr> \<lparr>x = f0, y = f0, z = f0\<rparr> = Inr (\<not> e))"
proof -
  have h: "\<not> hasNaNs (diff \<lparr>x = f1, y = f0, z = f0\<rparr> \<lparr>x = f0, y = f0, z = f0\<rparr>)"
    by (rule finite_diff) (simp_all add: finite_vec_def f0_def f1_def)
  show ?thesis
    using h C10_complement [OF h, of True] by simp
qed

text \<open>
  C10 as stated fails for NaN-free vectors with an infinite field: \<open>inf - inf\<close> is NaN, so
  with assertions both operators stop in \<open>operator-\<close>, and without them both comparisons
  with the NaN squared magnitude are false.
\<close>

theorem C10_counterexample:
  "\<not> hasNaNs \<lparr>x = Infty False, y = f0, z = f0\<rparr>
   \<and> op_eq True \<lparr>x = Infty False, y = f0, z = f0\<rparr> \<lparr>x = Infty False, y = f0, z = f0\<rparr> = Inl AssertionFailed
   \<and> op_ne True \<lparr>x = Infty False, y = f0, z = f0\<rparr> \<lparr>x = Infty False, y = f0, z = f0\<rparr> = Inl AssertionFailed
   \<and> op_eq False \<lparr>x = Infty False, y = f0, z = f0\<rparr> \<lparr>x = Infty False, y = f0, z = f0\<rparr> = Inr False
   \<and> op_ne False \<lparr>x = Infty False, y = f0, z = f0\<rparr> \<lparr>x = Infty False, y = f0, z = f0\<rparr> = Inr False"
  by (simp add: op_eq_def op_ne_def op_sub_diff diff_def hasNaNs_def SqrMagnitude_def fsub_def f0_def
      flt_def fge_def fle_def)

section \<open>Dot and cross product\<close>

lemma Dot_commute: "Dot a b = Dot b a"
  by (simp add: Dot_def fmul_commute [of "x a"] fmul_commute [of "y a"] fmul_commute [of "z a"])

lemma ffma_commute: "ffma a b c = ffma b a c"
proof (cases a)
  case NaN
  then show ?thesis by (cases b; cases c) simp_all
next
  case (Infty s)
  then show ?thesis by (cases b; cases c) auto
next
  case (Fin s m)
  note a = this
  show ?thesis
  proof (cases b)
    case NaN
    with a show ?thesis by (cases c) simp_all
  next
    case (Infty t)
    with a show ?thesis by (cases c) auto
  next
    case (Fin t n)
    note b = this
    show ?thesis
    proof (cases c)
      case (Fin r k)
      show ?thesis unfolding a b Fin
        by (simp only: ffma.simps mult.commute [of n m] sign_xor_commute [of t s])
    qed (simp_all add: a b)
  qed
qed

lemma Dot_fused_commute: "Dot_fused a b = Dot_fused b a"
  by (simp add: Dot_fused_def ffma_commute [of "z a"] ffma_commute [of "y a"]
      fmul_commute [of "x a"])

lemma Cross_swap:
  "fsame (fneg (fsub (fmul b1 a2) (fmul b2 a1))) (fsub (fmul a1 b2) (fmul a2 b1))"
  using fneg_fsub [of "fmul a2 b1" "fmul a1 b2"]
  by (simp add: fmul_commute [of b1 a2] fmul_commute [of b2 a1])

lemma Vector3_xyz_Inr:
  "\<not> isnan a \<Longrightarrow> \<not> isnan b \<Longrightarrow> \<not> isnan c \<Longrightarrow> Vector3_xyz dbg a b c = Inr \<lparr>x = a, y = b, z = c\<rparr>"
  by (simp add: Vector3_xyz_def hasNaNs_def)

lemma Vector3_xyz_D:
  "Vector3_xyz dbg a b c = Inr v \<Longrightarrow> v = \<lparr>x = a, y = b, z = c\<rparr>"
  by (auto simp: Vector3_xyz_def Assert_def and_then_def split: if_splits)

lemma Cross_antisym:
  assumes "Cross False dbg a b = Inr c" and "finite_vec c"
  shows "\<exists>c' n. Cross False dbg b a = Inr c' \<and> op_neg dbg c' = Inr n \<and> op_eq dbg c n = Inr True"
proof -
  define c' where "c' = \<lparr>x = fsub (fmul (y b) (z a)) (fmul (z b) (y a)),
    y = fsub (fmul (z b) (x a)) (fmul (x b) (z a)),
    z = fsub (fmul (x b) (y a)) (fmul (y b) (x a))\<rparr>"
  define n where "n = \<lparr>x = fneg (x c'), y = fneg (y c'), z = fneg (z c')\<rparr>"
  from assms(1) have c: "c = \<lparr>x = fsub (fmul (y a) (z b)) (fmul (z a) (y b)),
    y = fsub (fmul (z a) (x b)) (fmul (x a) (z b)),
    z = fsub (fmul (x a) (y b)) (fmul (y a) (x b))\<rparr>"
    unfolding Cross_def mul_sub_def if_False by (rule Vector3_xyz_D)
  have sx: "fsame (x n) (x c)" and sy: "fsame (y n) (y c)" and sz: "fsame (z n) (z c)"
    by (simp_all add: n_def c'_def c Cross_swap)
  with assms(2) have fn: "is_finite (x n)" "is_finite (y n)" "is_finite (z n)"
    by (simp_all add: finite_vec_def fsame_finite)
  then have fc': "is_finite (x c')" "is_finite (y c')" "is_finite (z c')"
    by (simp_all add: n_def)
  then have 1: "Cross False dbg b a = Inr c'"
    unfolding Cross_def mul_sub_def if_False c'_def
    by (intro Vector3_xyz_Inr is_finite_not_nan) simp_all
  from fn have 2: "op_neg dbg c' = Inr n"
    unfolding op_neg_def n_def by (intro Vector3_xyz_Inr is_finite_not_nan) (simp_all add: n_def)
  from assms(2) sx sy sz have 3: "op_eq dbg c n = Inr True"
    by (rule op_eq_fsame)
  from 1 2 3 show ?thesis by blast
qed

lemma fsub_self_finite: "is_finite a \<Longrightarrow> fsub a a = Fin False 0"
  by (cases a) (simp_all add: fsub_self)

lemma Cross_self:
  assumes "is_finite (fmul (y a) (z a))" and "is_finite (fmul (z a) (x a))"
    and "is_finite (fmul (x a) (y a))"
  shows "Cross False dbg a a = Inr zero"
proof -
  have "fsub (fmul (y a) (z a)) (fmul (z a) (y a)) = Fin False 0"
    using assms(1) by (simp add: fmul_commute [of "z a" "y a"] fsub_self_finite)
  moreover have "fsub (fmul (z a) (x a)) (fmul (x a) (z a)) = Fin False 0"
    using assms(2) by (simp add: fmul_commute [of "x a" "z a"] fsub_self_finite)
  moreover have "fsub (fmul (x a) (y a)) (fmul (y a) (x a)) = Fin False 0"
    using assms(3) by (simp add: fmul_commute [of "y a" "x a"] fsub_self_finite)
  ultimately show ?thesis
    by (simp add: Cross_def mul_sub_def Vector3_xyz_def hasNaNs_def zero_def f0_def)
qed

lemma ev8_1: "lit 999999944 (10 ^ 19) = Fin False (7205759 * 2 ^ 93)"
  by (simp add: f32_eval)

lemma ev8_2: "fmul (Fin False (2 ^ 249)) (Fin False (2 ^ 249)) = Infty False"
  by (simp add: f32_eval)

lemma ev8_3: "fmul (Fin False (2 ^ 149)) (Fin False (2 ^ 149)) = Fin False (2 ^ 149)"
  by (simp add: f32_eval)

lemma ev8_4: "fadd (Fin False (2 ^ 149)) (Fin True 0) = Fin False (2 ^ 149)"
  by (simp add: f32_eval)

lemma ev8_5: "ffma (Fin False (4099 * 2 ^ 149)) (Fin False 0) (Fin True 0) = Fin False 0"
  by (simp add: f32_eval)

lemma ev8_6: "ffma (Fin False 0) (Fin False (4097 * 2 ^ 149)) (Fin True 0) = Fin False 0"
  by (simp add: f32_eval)

lemma ev8_7: "fmul (Fin False (4099 * 2 ^ 149)) (Fin False (4097 * 2 ^ 149)) = Fin False (4198401 * 2 ^ 151)"
  by (simp add: f32_eval)

lemma ev8_8: "ffma (Fin False (4097 * 2 ^ 149)) (Fin False (4099 * 2 ^ 149)) (Fin True (4198401 * 2 ^ 151)) = Fin True (2 ^ 149)"
  by (simp add: f32_eval)

lemma ev8_9: "fadd (Fin True (2 ^ 149)) (Fin True 0) = Fin True (2 ^ 149)"
  by (simp add: f32_eval)

lemma ev8_10: "fmul (Fin True (2 ^ 149)) (Fin True (2 ^ 149)) = Fin False (2 ^ 149)"
  by (simp add: f32_eval)

lemma ev8_11: "fadd (Fin False 0) (Fin False (2 ^ 149)) = Fin False (2 ^ 149)"
  by (simp add: f32_eval)

lemma ev8_12: "fmul (Fin False (4097 * 2 ^ 149)) (Fin False (4099 * 2 ^ 149)) = Fin False (4198401 * 2 ^ 151)"
  by (simp add: f32_eval)

lemma ev8_13: "fadd (Fin False (4198401 * 2 ^ 151)) (Fin True (4198401 * 2 ^ 151)) = Fin False 0"
  by (simp add: f32_eval)

lemma ev8_14: "ffma (Fin False (2 ^ 149)) (Fin False 0) (Fin True 0) = Fin False 0"
  by (simp add: f32_eval)

lemma ev8_15: "ffma (Fin False 0) (Fin False (2 ^ 149)) (Fin True 0) = Fin False 0"
  by (simp add: f32_eval)

lemma ev8_16: "ffma (Fin False (4097 * 2 ^ 149)) (Fin False (4099 * 2 ^ 149)) (Fin True (2 ^ 149)) = Fin False (8396801 * 2 ^ 150)"
  by (simp add: f32_eval)

lemma ev8_17: "ffma (Fin False (2 ^ 149)) (Fin False (2 ^ 149)) (Fin True (4198401 * 2 ^ 151)) = Fin True (4198401 * 2 ^ 151)"
  by (simp add: f32_eval)

lemma ev8_18: "fadd (Fin False (8396801 * 2 ^ 150)) (Fin True (4198401 * 2 ^ 151)) = Fin True (2 ^ 150)"
  by (simp add: f32_eval)

lemma ev8_19: "fmul (Fin True (2 ^ 150)) (Fin True (2 ^ 150)) = Fin False (2 ^ 151)"
  by (simp add: f32_eval)

lemma ev8_20: "fadd (Fin False 0) (Fin False (2 ^ 151)) = Fin False (2 ^ 151)"
  by (simp add: f32_eval)

lemma Cross_unit:
  "Cross False True \<lparr>x = f1, y = f0, z = f0\<rparr> \<lparr>x = f0, y = f1, z = f0\<rparr> = Inr \<lparr>x = f0, y = f0, z = f1\<rparr>"
  using ev8_3 ev8_4
  by (simp add: Cross_def mul_sub_def Vector3_xyz_def hasNaNs_def fsub_def f0_def f1_def del: f32_ops)

lemma Cross_overflow:
  "Cross False True \<lparr>x = Fin False (2 ^ 249), y = Fin False (2 ^ 249), z = f0\<rparr>
        \<lparr>x = Fin False (2 ^ 249), y = Fin False (2 ^ 249), z = f0\<rparr> = Inl AssertionFailed
   \<and> Cross False False \<lparr>x = Fin False (2 ^ 249), y = Fin False (2 ^ 249), z = f0\<rparr>
        \<lparr>x = Fin False (2 ^ 249), y = Fin False (2 ^ 249), z = f0\<rparr> = Inr \<lparr>x = f0, y = f0, z = NaN\<rparr>"
  using ev8_2
  by (simp add: Cross_def mul_sub_def Vector3_xyz_def hasNaNs_def fsub_def f0_def del: f32_ops)

lemma Cross_overflow_antisym:
  "Cross False True \<lparr>x = f0, y = Fin False (2 ^ 249), z = f0\<rparr> \<lparr>x = f0, y = f0, z = Fin False (2 ^ 249)\<rparr>
       = Inr \<lparr>x = Infty False, y = f0, z = f0\<rparr>
   \<and> Cross False True \<lparr>x = f0, y = f0, z = Fin False (2 ^ 249)\<rparr> \<lparr>x = f0, y = Fin False (2 ^ 249), z = f0\<rparr>
       = Inr \<lparr>x = Infty True, y = f0, z = f0\<rparr>
   \<and> op_neg True \<lparr>x = Infty True, y = f0, z = f0\<rparr> = Inr \<lparr>x = Infty False, y = Fin True 0, z = Fin True 0\<rparr>
   \<and> op_eq True \<lparr>x = Infty False, y = f0, z = f0\<rparr> \<lparr>x = Infty False, y = Fin True 0, z = Fin True 0\<rparr>
       = Inl AssertionFailed
   \<and> op_eq False \<lparr>x = Infty False, y = f0, z = f0\<rparr> \<lparr>x = Infty False, y = Fin True 0, z = Fin True 0\<rparr>
       = Inr False"
  using ev8_2
  by (simp add: Cross_def mul_sub_def Vector3_xyz_def hasNaNs_def fsub_def f0_def op_neg_def
      op_eq_def op_sub_diff diff_def SqrMagnitude_def flt_def del: f32_ops)

lemma Cross_fused_self:
  "Cross True True \<lparr>x = Fin False (4097 * 2 ^ 149), y = Fin False (4099 * 2 ^ 149), z = f0\<rparr>
        \<lparr>x = Fin False (4097 * 2 ^ 149), y = Fin False (4099 * 2 ^ 149), z = f0\<rparr>
     = Inr \<lparr>x = f0, y = f0, z = Fin True (2 ^ 149)\<rparr>"
  using ev8_5 ev8_6 ev8_7 ev8_8
  by (simp add: Cross_def mul_sub_def Vector3_xyz_def hasNaNs_def f0_def del: f32_ops)

lemma Cross_unfused_self:
  "Cross False True \<lparr>x = Fin False (4097 * 2 ^ 149), y = Fin False (4099 * 2 ^ 149), z = f0\<rparr>
        \<lparr>x = Fin False (4097 * 2 ^ 149), y = Fin False (4099 * 2 ^ 149), z = f0\<rparr>
     = Inr \<lparr>x = f0, y = f0, z = f0\<rparr>"
  using ev8_7 ev8_12 ev8_13
  by (simp add: Cross_def mul_sub_def Vector3_xyz_def hasNaNs_def fsub_def f0_def del: f32_ops)

lemma fused_self_ne_zero:
  "op_eq True \<lparr>x = f0, y = f0, z = Fin True (2 ^ 149)\<rparr> zero = Inr False"
  using ev8_1 ev8_9 ev8_10 ev8_11
  by (simp add: op_eq_def op_sub_diff diff_def SqrMagnitude_def fsub_def zero_def f0_def flt_def
      hasNaNs_def del: f32_ops)

lemma Cross_fused_ab:
  "Cross True True \<lparr>x = Fin False (4097 * 2 ^ 149), y = f1, z = f0\<rparr>
        \<lparr>x = f1, y = Fin False (4099 * 2 ^ 149), z = f0\<rparr>
     = Inr \<lparr>x = f0, y = f0, z = Fin False (8396801 * 2 ^ 150)\<rparr>"
  using ev8_3 ev8_14 ev8_15 ev8_16
  by (simp add: Cross_def mul_sub_def Vector3_xyz_def hasNaNs_def f0_def f1_def del: f32_ops)

lemma Cross_fused_ba:
  "Cross True True \<lparr>x = f1, y = Fin False (4099 * 2 ^ 149), z = f0\<rparr>
        \<lparr>x = Fin False (4097 * 2 ^ 149), y = f1, z = f0\<rparr>
     = Inr \<lparr>x = f0, y = f0, z = Fin True (4198401 * 2 ^ 151)\<rparr>"
  using ev8_5 ev8_6 ev8_7 ev8_17
  by (simp add: Cross_def mul_sub_def Vector3_xyz_def hasNaNs_def f0_def f1_def del: f32_ops)

lemma fused_ab_ne_neg_ba:
  "op_neg True \<lparr>x = f0, y = f0, z = Fin True (4198401 * 2 ^ 151)\<rparr>
     = Inr \<lparr>x = Fin True 0, y = Fin True 0, z = Fin False (4198401 * 2 ^ 151)\<rparr>
   \<and> op_eq True \<lparr>x = f0, y = f0, z = Fin False (8396801 * 2 ^ 150)\<rparr>
        \<lparr>x = Fin True 0, y = Fin True 0, z = Fin False (4198401 * 2 ^ 151)\<rparr> = Inr False"
  using ev8_1 ev8_18 ev8_19 ev8_20
  by (simp add: op_neg_def Vector3_xyz_def op_eq_def op_sub_diff diff_def SqrMagnitude_def fsub_def
      f0_def flt_def hasNaNs_def del: f32_ops)

text \<open>
  C8 (amended). \<open>Dot(a, b)\<close> and \<open>Dot(b, a)\<close> are the same float for all vectors, with
  every operation rounded separately and also with the sum of products contracted into
  fused multiply-adds. With every multiplication and subtraction rounded separately to
  binary32, that is, in a build that does not contract \<open>p * q - r * s\<close> into a fused
  multiply-add: whenever \<open>Cross(a, b)\<close> returns a vector with finite fields, \<open>Cross(b, a)\<close>
  and its negation return too and \<open>Cross(a, b) == -Cross(b, a)\<close> holds; whenever the three
  products of two different fields of \<open>a\<close> are finite, \<open>Cross(a, a)\<close> returns the zero
  vector.
\<close>

theorem C8_dot_cross:
  "Dot a b = Dot b a
   \<and> Dot_fused a b = Dot_fused b a
   \<and> (Cross False dbg a b = Inr c \<and> finite_vec c
        \<longrightarrow> (\<exists>c' n. Cross False dbg b a = Inr c' \<and> op_neg dbg c' = Inr n \<and> op_eq dbg c n = Inr True))
   \<and> (is_finite (fmul (y a) (z a)) \<and> is_finite (fmul (z a) (x a)) \<and> is_finite (fmul (x a) (y a))
        \<longrightarrow> Cross False dbg a a = Inr zero)"
  using Dot_commute [of a b] Dot_fused_commute [of a b] Cross_antisym [of dbg a b c]
    Cross_self [of a dbg]
  by blast

text \<open>The unit vectors \<open>(1, 0, 0)\<close> and \<open>(0, 1, 0)\<close>, with cross product \<open>(0, 0, 1)\<close>, satisfy the hypotheses.\<close>

theorem C8_dot_cross_witness:
  "Cross False True \<lparr>x = f1, y = f0, z = f0\<rparr> \<lparr>x = f0, y = f1, z = f0\<rparr> = Inr \<lparr>x = f0, y = f0, z = f1\<rparr>
   \<and> finite_vec \<lparr>x = f0, y = f0, z = f1\<rparr>
   \<and> is_finite (fmul f0 f0) \<and> is_finite (fmul f0 f1) \<and> is_finite (fmul f1 f0)
   \<and> Dot \<lparr>x = f1, y = f0, z = f0\<rparr> \<lparr>x = f0, y = f1, z = f0\<rparr>
       = Dot \<lparr>x = f0, y = f1, z = f0\<rparr> \<lparr>x = f1, y = f0, z = f0\<rparr>
   \<and> Dot_fused \<lparr>x = f1, y = f0, z = f0\<rparr> \<lparr>x = f0, y = f1, z = f0\<rparr>
       = Dot_fused \<lparr>x = f0, y = f1, z = f0\<rparr> \<lparr>x = f1, y = f0, z = f0\<rparr>
   \<and> (\<exists>c' n. Cross False True \<lparr>x = f0, y = f1, z = f0\<rparr> \<lparr>x = f1, y = f0, z = f0\<rparr> = Inr c'
        \<and> op_neg True c' = Inr n \<and> op_eq True \<lparr>x = f0, y = f0, z = f1\<rparr> n = Inr True)
   \<and> Cross False True \<lparr>x = f1, y = f0, z = f0\<rparr> \<lparr>x = f1, y = f0, z = f0\<rparr> = Inr zero"
proof -
  have h2: "finite_vec \<lparr>x = f0, y = f0, z = f1\<rparr>"
    by (simp add: finite_vec_def f0_def f1_def)
  have h3: "is_finite (fmul f0 f0) \<and> is_finite (fmul f0 f1) \<and> is_finite (fmul f1 f0)"
    by (simp add: f0_def f1_def)
  show ?thesis
    using Cross_unit h2 h3
      C8_dot_cross [of "\<lparr>x = f1, y = f0, z = f0\<rparr>" "\<lparr>x = f0, y = f1, z = f0\<rparr>" True
        "\<lparr>x = f0, y = f0, z = f1\<rparr>"]
    by simp
qed

text \<open>
  C8 as stated fails. In every build it fails where a product overflows: for
  \<open>a = (2^100, 2^100, 0)\<close> the last field of \<open>Cross(a, a)\<close> is \<open>inf - inf\<close>, a NaN, so the
  constructor's assertion fails, and without assertions the result is \<open>(0, 0, NaN)\<close>; for
  \<open>a = (0, 2^100, 0)\<close> and \<open>b = (0, 0, 2^100)\<close> both \<open>Cross(a, b)\<close> and \<open>-Cross(b, a)\<close> have
  the first field \<open>inf\<close>, and \<open>==\<close> subtracts them into a NaN. In a build that contracts
  \<open>p * q - r * s\<close> into a fused multiply-add it fails at ordinary values: for
  \<open>a = (4097, 4099, 0)\<close> the last field of \<open>Cross(a, a)\<close> is the rounding error of
  \<open>4097 * 4099\<close>, \<open>-1\<close>, where separate rounding gives 0; and for \<open>a = (4097, 1, 0)\<close>,
  \<open>b = (1, 4099, 0)\<close> the last fields of \<open>Cross(a, b)\<close> and \<open>-Cross(b, a)\<close> are 16793602 and
  16793604, which \<open>==\<close> tells apart.
\<close>

theorem C8_counterexample:
  "finite_vec \<lparr>x = Fin False (2 ^ 249), y = Fin False (2 ^ 249), z = f0\<rparr>
   \<and> Cross False True \<lparr>x = Fin False (2 ^ 249), y = Fin False (2 ^ 249), z = f0\<rparr>
        \<lparr>x = Fin False (2 ^ 249), y = Fin False (2 ^ 249), z = f0\<rparr> = Inl AssertionFailed
   \<and> Cross False False \<lparr>x = Fin False (2 ^ 249), y = Fin False (2 ^ 249), z = f0\<rparr>
        \<lparr>x = Fin False (2 ^ 249), y = Fin False (2 ^ 249), z = f0\<rparr> = Inr \<lparr>x = f0, y = f0, z = NaN\<rparr>
   \<and> Cross False True \<lparr>x = f0, y = Fin False (2 ^ 249), z = f0\<rparr> \<lparr>x = f0, y = f0, z = Fin False (2 ^ 249)\<rparr>
       = Inr \<lparr>x = Infty False, y = f0, z = f0\<rparr>
   \<and> Cross False True \<lparr>x = f0, y = f0, z = Fin False (2 ^ 249)\<rparr> \<lparr>x = f0, y = Fin False (2 ^ 249), z = f0\<rparr>
       = Inr \<lparr>x = Infty True, y = f0, z = f0\<rparr>
   \<and> op_neg True \<lparr>x = Infty True, y = f0, z = f0\<rparr> = Inr \<lparr>x = Infty False, y = Fin True 0, z = Fin True 0\<rparr>
   \<and> op_eq True \<lparr>x = Infty False, y = f0, z = f0\<rparr> \<lparr>x = Infty False, y = Fin True 0, z = Fin True 0\<rparr>
       = Inl AssertionFailed
   \<and> op_eq False \<lparr>x = Infty False, y = f0, z = f0\<rparr> \<lparr>x = Infty False, y = Fin True 0, z = Fin True 0\<rparr>
       = Inr False
   \<and> Cross True True \<lparr>x = Fin False (4097 * 2 ^ 149), y = Fin False (4099 * 2 ^ 149), z = f0\<rparr>
        \<lparr>x = Fin False (4097 * 2 ^ 149), y = Fin False (4099 * 2 ^ 149), z = f0\<rparr>
       = Inr \<lparr>x = f0, y = f0, z = Fin True (2 ^ 149)\<rparr>
   \<and> op_eq True \<lparr>x = f0, y = f0, z = Fin True (2 ^ 149)\<rparr> zero = Inr False
   \<and> Cross False True \<lparr>x = Fin False (4097 * 2 ^ 149), y = Fin False (4099 * 2 ^ 149), z = f0\<rparr>
        \<lparr>x = Fin False (4097 * 2 ^ 149), y = Fin False (4099 * 2 ^ 149), z = f0\<rparr>
       = Inr \<lparr>x = f0, y = f0, z = f0\<rparr>
   \<and> Cross True True \<lparr>x = Fin False (4097 * 2 ^ 149), y = f1, z = f0\<rparr>
        \<lparr>x = f1, y = Fin False (4099 * 2 ^ 149), z = f0\<rparr>
       = Inr \<lparr>x = f0, y = f0, z = Fin False (8396801 * 2 ^ 150)\<rparr>
   \<and> Cross True True \<lparr>x = f1, y = Fin False (4099 * 2 ^ 149), z = f0\<rparr>
        \<lparr>x = Fin False (4097 * 2 ^ 149), y = f1, z = f0\<rparr>
       = Inr \<lparr>x = f0, y = f0, z = Fin True (4198401 * 2 ^ 151)\<rparr>
   \<and> op_neg True \<lparr>x = f0, y = f0, z = Fin True (4198401 * 2 ^ 151)\<rparr>
       = Inr \<lparr>x = Fin True 0, y = Fin True 0, z = Fin False (4198401 * 2 ^ 151)\<rparr>
   \<and> op_eq True \<lparr>x = f0, y = f0, z = Fin False (8396801 * 2 ^ 150)\<rparr>
        \<lparr>x = Fin True 0, y = Fin True 0, z = Fin False (4198401 * 2 ^ 151)\<rparr> = Inr False"
proof -
  have "finite_vec \<lparr>x = Fin False (2 ^ 249), y = Fin False (2 ^ 249), z = f0\<rparr>"
    by (simp add: finite_vec_def f0_def)
  with Cross_overflow Cross_overflow_antisym Cross_fused_self fused_self_ne_zero
    Cross_unfused_self Cross_fused_ab Cross_fused_ba fused_ab_ne_neg_ba
  show ?thesis by blast
qed

section \<open>The two Normalize functions\<close>

lemma ev3_2: "fmul (Fin False (3 * 2 ^ 149)) (Fin False (3 * 2 ^ 149)) = Fin False (9 * 2 ^ 149)"
  by (simp add: f32_eval)

lemma ev3_3: "fmul (Fin False (2 ^ 151)) (Fin False (2 ^ 151)) = Fin False (2 ^ 153)"
  by (simp add: f32_eval)

lemma ev3_4: "fadd (Fin False (9 * 2 ^ 149)) (Fin False (2 ^ 153)) = Fin False (25 * 2 ^ 149)"
  by (simp add: f32_eval)

lemma ev3_5: "fadd (Fin False (25 * 2 ^ 149)) (Fin False 0) = Fin False (25 * 2 ^ 149)"
  by (simp add: f32_eval)

lemma ev3_6: "fsqrt (Fin False (25 * 2 ^ 149)) = Fin False (5 * 2 ^ 149)"
  by (simp add: f32_eval)

lemma ev3_7: "fdiv (Fin False (3 * 2 ^ 149)) (Fin False (5 * 2 ^ 149)) = Fin False (5033165 * 2 ^ 126)"
  by (simp add: f32_eval)

lemma ev3_8: "fdiv (Fin False (2 ^ 151)) (Fin False (5 * 2 ^ 149)) = Fin False (13421773 * 2 ^ 125)"
  by (simp add: f32_eval)

lemma ev3_14: "fmul (Fin False (2 ^ 249)) (Fin False (2 ^ 249)) = Infty False"
  by (simp add: f32_eval)

lemma magnitude_345: "magnitude \<lparr>x = Fin False (3 * 2 ^ 149), y = Fin False (2 ^ 151), z = f0\<rparr> = Fin False (5 * 2 ^ 149)"
  using ev3_2 ev3_3 ev3_4 ev3_5 ev3_6
  by (simp add: magnitude_def f0_def del: f32_ops)

lemma magnitude_huge: "magnitude \<lparr>x = Fin False (2 ^ 249), y = f0, z = f0\<rparr> = Infty False"
  using ev3_14
  by (simp add: magnitude_def f0_def del: f32_ops)

lemma magnitude_inf: "magnitude \<lparr>x = Infty False, y = f0, z = f0\<rparr> = Infty False"
  by (simp add: magnitude_def f0_def)

lemma fgt_eps_5: "fgt (Fin False (5 * 2 ^ 149)) (lit 1 100000)"
  using lit_eps by (simp add: fgt_def flt_def)

lemma fgt_eps_inf: "fgt (Infty False) (lit 1 100000)"
  using lit_eps by (simp add: fgt_def flt_def)

lemma div_fields_345:
  "div_fields \<lparr>x = Fin False (3 * 2 ^ 149), y = Fin False (2 ^ 151), z = f0\<rparr>
     (magnitude \<lparr>x = Fin False (3 * 2 ^ 149), y = Fin False (2 ^ 151), z = f0\<rparr>)
     = \<lparr>x = Fin False (5033165 * 2 ^ 126), y = Fin False (13421773 * 2 ^ 125), z = f0\<rparr>"
  using ev3_7 ev3_8 magnitude_345 by (simp add: div_fields_def f0_def del: f32_ops)

lemma Normalize_divides:
  assumes "finite_vec v" and "fgt (magnitude v) (lit 1 100000)"
  shows "Normalize dbg v = Inr (div_fields v (magnitude v))"
  using div_fields_finite [OF assms] finite_vec_no_nan [of "div_fields v (magnitude v)"] assms(2)
  by (simp add: Normalize_explicit)

text \<open>
  C3 (amended). With every operation rounded separately to binary32: for every vector \<open>v\<close>
  with finite fields whose computed magnitude is finite (the sum of the squares does not
  overflow) and greater than \<open>1E-05f\<close>, the static \<open>Normalize(v)\<close> returns the fields of \<open>v\<close>
  each divided by the magnitude; these are finite, the exact Euclidean length of the result
  differs from 1 by at most \<open>2^(-20)\<close>, and so does the magnitude that \<open>magnitude()\<close>
  computes for it. For every vector whose computed magnitude is not greater than \<open>1E-05f\<close>,
  also when it is NaN, \<open>Normalize(v)\<close> returns the zero vector.
\<close>

theorem C3_normalize:
  "(finite_vec v \<and> is_finite (magnitude v) \<and> fgt (magnitude v) (lit 1 100000)
      \<longrightarrow> Normalize dbg v = Inr (div_fields v (magnitude v))
        \<and> finite_vec (div_fields v (magnitude v))
        \<and> \<bar>length3 (div_fields v (magnitude v)) - 1\<bar> \<le> 1 / 2 ^ 20
        \<and> is_finite (magnitude (div_fields v (magnitude v)))
        \<and> \<bar>absval (magnitude (div_fields v (magnitude v))) - 1\<bar> \<le> 1 / 2 ^ 20)
   \<and> (\<not> fgt (magnitude v) (lit 1 100000) \<longrightarrow> Normalize dbg v = Inr zero)"
  using Normalize_divides [of v dbg] div_fields_finite [of v] Normalize_unit_length [of v]
    Normalize_unit_magnitude [of v] Normalize_small [of v dbg]
  by blast

text \<open>
  The vector \<open>(3, 4, 0)\<close> has magnitude 5 and is normalised to the binary32 neighbours of
  \<open>(0.6, 0.8, 0)\<close>; the zero vector has magnitude 0 and is returned as it is.
\<close>

theorem C3_normalize_witness:
  "finite_vec \<lparr>x = Fin False (3 * 2 ^ 149), y = Fin False (2 ^ 151), z = f0\<rparr>
   \<and> is_finite (magnitude \<lparr>x = Fin False (3 * 2 ^ 149), y = Fin False (2 ^ 151), z = f0\<rparr>)
   \<and> fgt (magnitude \<lparr>x = Fin False (3 * 2 ^ 149), y = Fin False (2 ^ 151), z = f0\<rparr>) (lit 1 100000)
   \<and> Normalize True \<lparr>x = Fin False (3 * 2 ^ 149), y = Fin False (2 ^ 151), z = f0\<rparr>
       = Inr \<lparr>x = Fin False (5033165 * 2 ^ 126), y = Fin False (13421773 * 2 ^ 125), z = f0\<rparr>
   \<and> finite_vec \<lparr>x = Fin False (5033165 * 2 ^ 126), y = Fin False (13421773 * 2 ^ 125), z = f0\<rparr>
   \<and> \<bar>length3 \<lparr>x = Fin False (5033165 * 2 ^ 126), y = Fin False (13421773 * 2 ^ 125), z = f0\<rparr> - 1\<bar> \<le> 1 / 2 ^ 20
   \<and> is_finite (magnitude \<lparr>x = Fin False (5033165 * 2 ^ 126), y = Fin False (13421773 * 2 ^ 125), z = f0\<rparr>)
   \<and> \<bar>absval (magnitude \<lparr>x = Fin False (5033165 * 2 ^ 126), y = Fin False (13421773 * 2 ^ 125), z = f0\<rparr>) - 1\<bar> \<le> 1 / 2 ^ 20
   \<and> \<not> fgt (magnitude zero) (lit 1 100000)
   \<and> Normalize True zero = Inr zero"
proof -
  let ?v = "\<lparr>x = Fin False (3 * 2 ^ 149), y = Fin False (2 ^ 151), z = f0\<rparr>"
  let ?r = "\<lparr>x = Fin False (5033165 * 2 ^ 126), y = Fin False (13421773 * 2 ^ 125), z = f0\<rparr>"
  have h1: "finite_vec ?v" by (simp add: finite_vec_def f0_def)
  have h2: "is_finite (magnitude ?v)" using magnitude_345 by simp
  have h3: "fgt (magnitude ?v) (lit 1 100000)" using fgt_eps_5 magnitude_345 by simp
  from C3_normalize [of ?v True] h1 h2 h3
  have "Normalize True ?v = Inr (div_fields ?v (magnitude ?v))
      \<and> finite_vec (div_fields ?v (magnitude ?v))
      \<and> \<bar>length3 (div_fields ?v (magnitude ?v)) - 1\<bar> \<le> 1 / 2 ^ 20
      \<and> is_finite (magnitude (div_fields ?v (magnitude ?v)))
      \<and> \<bar>absval (magnitude (div_fields ?v (magnitude ?v))) - 1\<bar> \<le> 1 / 2 ^ 20"
    by blast
  then have a: "Normalize True ?v = Inr ?r \<and> finite_vec ?r
      \<and> \<bar>length3 ?r - 1\<bar> \<le> 1 / 2 ^ 20
      \<and> is_finite (magnitude ?r) \<and> \<bar>absval (magnitude ?r) - 1\<bar> \<le> 1 / 2 ^ 20"
    by (simp only: div_fields_345)
  from C3_normalize [of zero True] zero_is_small have b: "Normalize True zero = Inr zero"
    by blast
  from h1 h2 h3 a zero_is_small b show ?thesis by blast
qed

text \<open>
  C3 as stated fails: the squared magnitude of \<open>(2^100, 0, 0)\<close> overflows, the magnitude is
  \<open>inf > 1E-05f\<close>, every field is divided by \<open>inf\<close>, and the result is the zero vector, of
  magnitude 0, not approximately 1. For \<open>(inf, 0, 0)\<close> the quotient \<open>inf / inf\<close> is NaN and the
  constructor's assertion fails: nothing is returned.
\<close>

theorem C3_counterexample:
  "finite_vec \<lparr>x = Fin False (2 ^ 249), y = f0, z = f0\<rparr>
   \<and> fgt (magnitude \<lparr>x = Fin False (2 ^ 249), y = f0, z = f0\<rparr>) (lit 1 100000)
   \<and> Normalize True \<lparr>x = Fin False (2 ^ 249), y = f0, z = f0\<rparr> = Inr \<lparr>x = f0, y = f0, z = f0\<rparr>
   \<and> magnitude \<lparr>x = f0, y = f0, z = f0\<rparr> = f0
   \<and> \<not> hasNaNs \<lparr>x = Infty False, y = f0, z = f0\<rparr>
   \<and> fgt (magnitude \<lparr>x = Infty False, y = f0, z = f0\<rparr>) (lit 1 100000)
   \<and> Normalize True \<lparr>x = Infty False, y = f0, z = f0\<rparr> = Inl AssertionFailed"
  using fgt_eps_inf magnitude_huge magnitude_inf
  by (simp add: Normalize_explicit div_fields_def hasNaNs_def finite_vec_def)
     (simp add: f0_def magnitude_def)

text \<open>
  C4 (the code fails the claim). The claim: the member \<open>Normalize()\<close> implements the policy
  of the static \<open>Normalize\<close>, so \<open>v.Normalize()\<close> leaves \<open>v\<close> equal to \<open>Normalize(v)\<close>. For
  the NaN-free vector \<open>(inf, 0, 0)\<close> and assertions compiled in, the static \<open>Normalize\<close>
  divides through \<open>operator/\<close> and fails the constructor's assertion on \<open>inf / inf\<close>; the
  member divides the fields in place, asserts nothing, and returns leaving \<open>(NaN, 0, 0)\<close>, a
  vector whose magnitude is NaN, where its comment says that it makes the magnitude 1.
\<close>

theorem C4_member_leaves_nan:
  "\<not> hasNaNs \<lparr>x = Infty False, y = f0, z = f0\<rparr>
   \<and> Normalize True \<lparr>x = Infty False, y = f0, z = f0\<rparr> = Inl AssertionFailed
   \<and> Normalize_this \<lparr>x = Infty False, y = f0, z = f0\<rparr> = \<lparr>x = NaN, y = f0, z = f0\<rparr>
   \<and> hasNaNs (Normalize_this \<lparr>x = Infty False, y = f0, z = f0\<rparr>)
   \<and> magnitude (Normalize_this \<lparr>x = Infty False, y = f0, z = f0\<rparr>) = NaN"
  using fgt_eps_inf magnitude_inf
  by (simp add: Normalize_explicit Normalize_this_explicit div_fields_def hasNaNs_def)
     (simp add: f0_def magnitude_def)

section \<open>Interpolation\<close>

lemma Clamp01_0: "Clamp01 (Fin False 0) = Fin False 0"
  by (simp add: Clamp01_def flt_def fgt_def f0_def f1_def)

lemma Clamp01_1: "Clamp01 (Fin False (2 ^ 149)) = Fin False (2 ^ 149)"
  by (simp add: Clamp01_def flt_def fgt_def f0_def f1_def)

lemma ev7_1: "lit 999999944 (10 ^ 19) = Fin False (7205759 * 2 ^ 93)"
  by (simp add: f32_eval)

lemma ev7_2: "fadd (Fin False (2 ^ 149)) (Fin True (2 ^ 179)) = Fin True (2 ^ 179)"
  by (simp add: f32_eval)

lemma ev7_3: "fmul (Fin True (2 ^ 179)) (Fin False (2 ^ 149)) = Fin True (2 ^ 179)"
  by (simp add: f32_eval)

lemma ev7_4: "fadd (Fin False (2 ^ 179)) (Fin True (2 ^ 179)) = Fin False 0"
  by (simp add: f32_eval)

lemma ev7_5: "fadd (Fin False 0) (Fin True (2 ^ 149)) = Fin True (2 ^ 149)"
  by (simp add: f32_eval)

lemma ev7_6: "fmul (Fin True (2 ^ 149)) (Fin True (2 ^ 149)) = Fin False (2 ^ 149)"
  by (simp add: f32_eval)

lemma ev7_7: "fadd (Fin False (2 ^ 149)) (Fin False 0) = Fin False (2 ^ 149)"
  by (simp add: f32_eval)

lemma ev7_8: "fadd (Fin False (2 ^ 149)) (Fin True (2 ^ 149)) = Fin False 0"
  by (simp add: f32_eval)

lemma ev7_9: "fmul (Fin False (2 ^ 149)) (Fin False (2 ^ 149)) = Fin False (2 ^ 149)"
  by (simp add: f32_eval)

lemma ev7_10: "fadd (Fin False 0) (Fin False (2 ^ 149)) = Fin False (2 ^ 149)"
  by (simp add: f32_eval)

lemma ev7_11: "fadd (Fin False (16777215 * 2 ^ 253)) (Fin False (16777215 * 2 ^ 253)) = Infty False"
  by (simp add: f32_eval)

lemma ev7_12: "fadd (Fin False (2 ^ 149)) (Fin True 0) = Fin False (2 ^ 149)"
  by (simp add: f32_eval)

lemma ev7_13: "fmul (Fin True (16777215 * 2 ^ 253)) (Fin False (2 ^ 149)) = Fin True (16777215 * 2 ^ 253)"
  by (simp add: f32_eval)

lemma ev7_14: "fadd (Fin True (16777215 * 2 ^ 253)) (Fin False 0) = Fin True (16777215 * 2 ^ 253)"
  by (simp add: f32_eval)

lemma ev7_16: "fadd (Fin False (11184811 * 2 ^ 124)) (Fin True (2469 * 2 ^ 148)) = Fin True (10110293 * 2 ^ 136)"
  by (simp add: f32_eval)

lemma ev7_17: "fmul (Fin True (10110293 * 2 ^ 136)) (Fin False (2 ^ 149)) = Fin True (10110293 * 2 ^ 136)"
  by (simp add: f32_eval)

lemma ev7_18: "fadd (Fin False (2469 * 2 ^ 148)) (Fin True (10110293 * 2 ^ 136)) = Fin False (2731 * 2 ^ 136)"
  by (simp add: f32_eval)

lemma ev7_19: "fadd (Fin False (2731 * 2 ^ 136)) (Fin True (11184811 * 2 ^ 124)) = Fin False (1365 * 2 ^ 124)"
  by (simp add: f32_eval)

lemma ev7_20: "fmul (Fin False (1365 * 2 ^ 124)) (Fin False (1365 * 2 ^ 124)) = Fin False (1863225 * 2 ^ 99)"
  by (simp add: f32_eval)

lemma ev7_21: "fadd (Fin False (1863225 * 2 ^ 99)) (Fin False 0) = Fin False (1863225 * 2 ^ 99)"
  by (simp add: f32_eval)

lemma ev7_22: "fmul (Fin False (11184811 * 2 ^ 124)) (Fin False (2 ^ 149)) = Fin False (11184811 * 2 ^ 124)"
  by (simp add: f32_eval)

lemma ev7_23: "fadd (Fin False 0) (Fin False (11184811 * 2 ^ 124)) = Fin False (11184811 * 2 ^ 124)"
  by (simp add: f32_eval)

lemmas lerp_eval = Lerp_def Lerp_comment_def Vector3_xyz_def hasNaNs_def fsub_def f0_def f1_def

lemmas eq_eval = op_eq_def op_sub_diff diff_def SqrMagnitude_def hasNaNs_def fsub_def flt_def
  f0_def f1_def

lemma Lerp_ordinary: "Lerp True \<lparr>x = Fin False (2469 * 2 ^ 148), y = f0, z = f0\<rparr> \<lparr>x = Fin False (11184811 * 2 ^ 124), y = f0, z = f0\<rparr> f1 = Inr \<lparr>x = Fin False (2731 * 2 ^ 136), y = f0, z = f0\<rparr>"
  using ev7_16 ev7_17 ev7_18 Clamp01_1 by (simp add: lerp_eval del: f32_ops)

lemma Lerp_ordinary_ne: "op_eq True \<lparr>x = Fin False (2731 * 2 ^ 136), y = f0, z = f0\<rparr> \<lparr>x = Fin False (11184811 * 2 ^ 124), y = f0, z = f0\<rparr> = Inr False"
  using ev7_1 ev7_19 ev7_20 ev7_21 by (simp add: eq_eval del: f32_ops)

lemma Lerp_comment_ordinary: "Lerp_comment True \<lparr>x = Fin False (2469 * 2 ^ 148), y = f0, z = f0\<rparr> \<lparr>x = Fin False (11184811 * 2 ^ 124), y = f0, z = f0\<rparr> f1 = Inr \<lparr>x = Fin False (11184811 * 2 ^ 124), y = f0, z = f0\<rparr>"
  using ev7_8 ev7_22 ev7_23 Clamp01_1 by (simp add: lerp_eval del: f32_ops)

lemma Lerp_absorbed: "Lerp True \<lparr>x = Fin False (2 ^ 179), y = f0, z = f0\<rparr> \<lparr>x = f1, y = f0, z = f0\<rparr> f1 = Inr \<lparr>x = f0, y = f0, z = f0\<rparr>"
  using ev7_2 ev7_3 ev7_4 Clamp01_1 by (simp add: lerp_eval del: f32_ops)

lemma Lerp_absorbed_ne: "op_eq True \<lparr>x = f0, y = f0, z = f0\<rparr> \<lparr>x = f1, y = f0, z = f0\<rparr> = Inr False"
  using ev7_1 ev7_5 ev7_6 ev7_7 by (simp add: eq_eval del: f32_ops)

lemma Lerp_comment_absorbed: "Lerp_comment True \<lparr>x = Fin False (2 ^ 179), y = f0, z = f0\<rparr> \<lparr>x = f1, y = f0, z = f0\<rparr> f1 = Inr \<lparr>x = f1, y = f0, z = f0\<rparr>"
  using ev7_8 ev7_9 ev7_10 Clamp01_1 by (simp add: lerp_eval del: f32_ops)

lemma Lerp_overflow: "Lerp True \<lparr>x = Fin True (16777215 * 2 ^ 253), y = f0, z = f0\<rparr> \<lparr>x = Fin False (16777215 * 2 ^ 253), y = f0, z = f0\<rparr> f0 = Inl AssertionFailed"
  using ev7_11 Clamp01_0 by (simp add: lerp_eval del: f32_ops)

lemma Lerp_comment_overflow: "Lerp_comment True \<lparr>x = Fin True (16777215 * 2 ^ 253), y = f0, z = f0\<rparr> \<lparr>x = Fin False (16777215 * 2 ^ 253), y = f0, z = f0\<rparr> f0 = Inr \<lparr>x = Fin True (16777215 * 2 ^ 253), y = f0, z = f0\<rparr>"
  using ev7_12 ev7_13 ev7_14 Clamp01_0 by (simp add: lerp_eval del: f32_ops)

text \<open>
  C7 (the code fails the claim). The claim: \<open>Lerp\<close> clamps \<open>t\<close> and interpolates as
  \<open>a + (b - a) * t\<close>, so that \<open>Lerp(a, b, 0) == a\<close> and \<open>Lerp(a, b, 1) == b\<close> for all vectors.
  The body of \<open>Lerp\<close> does compute \<open>a + (b - a) * t\<close>, and that formula misses the end
  points, while the formula \<open>a*(1-t) + b*t\<close> of the source's own comment hits them on the
  same inputs. For \<open>a = (1234.5, 0, 0)\<close> and \<open>b = (0.33333334, 0, 0)\<close>, \<open>Lerp(a, b, 1)\<close> is
  \<open>(0.33337402, 0, 0)\<close>, which is not \<open>== b\<close>; for \<open>a = (2^30, 0, 0)\<close> and \<open>b = (1, 0, 0)\<close> it
  is \<open>(0, 0, 0)\<close>; for \<open>a = (-FLT_MAX, 0, 0)\<close> and \<open>b = (FLT_MAX, 0, 0)\<close>, \<open>Lerp(a, b, 0)\<close>
  computes \<open>inf * 0\<close> and fails the constructor's assertion. The commented formula returns
  exactly \<open>b\<close>, \<open>b\<close> and \<open>a\<close>.
\<close>

theorem C7_lerp_misses_end_points:
  "Lerp True \<lparr>x = Fin False (2469 * 2 ^ 148), y = f0, z = f0\<rparr> \<lparr>x = Fin False (11184811 * 2 ^ 124), y = f0, z = f0\<rparr> f1 = Inr \<lparr>x = Fin False (2731 * 2 ^ 136), y = f0, z = f0\<rparr>
   \<and> op_eq True \<lparr>x = Fin False (2731 * 2 ^ 136), y = f0, z = f0\<rparr> \<lparr>x = Fin False (11184811 * 2 ^ 124), y = f0, z = f0\<rparr> = Inr False
   \<and> Lerp_comment True \<lparr>x = Fin False (2469 * 2 ^ 148), y = f0, z = f0\<rparr> \<lparr>x = Fin False (11184811 * 2 ^ 124), y = f0, z = f0\<rparr> f1 = Inr \<lparr>x = Fin False (11184811 * 2 ^ 124), y = f0, z = f0\<rparr>
   \<and> Lerp True \<lparr>x = Fin False (2 ^ 179), y = f0, z = f0\<rparr> \<lparr>x = f1, y = f0, z = f0\<rparr> f1 = Inr \<lparr>x = f0, y = f0, z = f0\<rparr>
   \<and> op_eq True \<lparr>x = f0, y = f0, z = f0\<rparr> \<lparr>x = f1, y = f0, z = f0\<rparr> = Inr False
   \<and> Lerp_comment True \<lparr>x = Fin False (2 ^ 179), y = f0, z = f0\<rparr> \<lparr>x = f1, y = f0, z = f0\<rparr> f1 = Inr \<lparr>x = f1, y = f0, z = f0\<rparr>
   \<and> Lerp True \<lparr>x = Fin True (16777215 * 2 ^ 253), y = f0, z = f0\<rparr> \<lparr>x = Fin False (16777215 * 2 ^ 253), y = f0, z = f0\<rparr> f0 = Inl AssertionFailed
   \<and> Lerp_comment True \<lparr>x = Fin True (16777215 * 2 ^ 253), y = f0, z = f0\<rparr> \<lparr>x = Fin False (16777215 * 2 ^ 253), y = f0, z = f0\<rparr> f0 = Inr \<lparr>x = Fin True (16777215 * 2 ^ 253), y = f0, z = f0\<rparr>"
  using Lerp_ordinary Lerp_ordinary_ne Lerp_comment_ordinary Lerp_absorbed Lerp_absorbed_ne
    Lerp_comment_absorbed Lerp_overflow Lerp_comment_overflow
  by blast

section \<open>Angle\<close>

lemma is_zero_fadd: "is_zero a \<Longrightarrow> is_zero b \<Longrightarrow> is_zero (fadd a b)"
  by (cases a; cases b) simp_all

lemma is_zero_fmul_left: "is_finite b \<Longrightarrow> is_zero (fmul f0 b)"
  by (cases b) (simp_all add: f0_def)

lemma is_zero_fmul_right: "is_finite a \<Longrightarrow> is_zero (fmul a f0)"
  by (cases a) (simp_all add: f0_def)

lemma Dot_zero_left: "finite_vec n \<Longrightarrow> is_zero (Dot zero n)"
  by (simp add: Dot_def zero_def finite_vec_def is_zero_fadd is_zero_fmul_left)

lemma Dot_zero_right: "finite_vec n \<Longrightarrow> is_zero (Dot n zero)"
  by (simp add: Dot_def zero_def finite_vec_def is_zero_fadd is_zero_fmul_right)

lemma ev9_1: "lit 5729578 100000 = Fin False (15019745 * 2 ^ 131)"
  by (simp add: f32_eval)

lemma ev9_2: "fmul (Fin False (13176795 * 2 ^ 126)) (Fin False (15019745 * 2 ^ 131)) = Fin False (45 * 2 ^ 150)"
  by (simp add: f32_eval)

lemma Angle_degenerate:
  assumes "acosf (Fin False 0) = Fin False (13176795 * 2 ^ 126)"
    and "acosf (Fin True 0) = Fin False (13176795 * 2 ^ 126)"
    and "Rad2Deg = lit 5729578 100000"
    and "\<not> fgt (magnitude u) (lit 1 100000)"
    and "finite_vec w"
  shows "Angle acosf Rad2Deg dbg u w = Inr (Fin False (45 * 2 ^ 150))"
    and "Angle acosf Rad2Deg dbg w u = Inr (Fin False (45 * 2 ^ 150))"
proof -
  have u: "Normalize dbg u = Inr zero" using assms(4) by (rule Normalize_small)
  have w: "Normalize dbg w = Inr (Normalize_this w)" and f: "finite_vec (Normalize_this w)"
    using Normalize_finite [OF assms(5)] by simp_all
  have a: "acosf e = Fin False (13176795 * 2 ^ 126)" if "is_zero e" for e
    using that assms(1,2) by (auto simp: is_zero_iff)
  have m: "fmul (Fin False (13176795 * 2 ^ 126)) Rad2Deg = Fin False (45 * 2 ^ 150)"
    using ev9_1 ev9_2 by (simp add: assms(3) del: f32_ops)
  show "Angle acosf Rad2Deg dbg u w = Inr (Fin False (45 * 2 ^ 150))"
    using a [OF Dot_zero_left [OF f]] m by (simp add: Angle_def u w)
  show "Angle acosf Rad2Deg dbg w u = Inr (Fin False (45 * 2 ^ 150))"
    using a [OF Dot_zero_right [OF f]] m by (simp add: Angle_def u w)
qed

lemma Angle_formula:
  "Normalize dbg p = Inr np \<Longrightarrow> Normalize dbg q = Inr nq \<Longrightarrow>
   Angle acosf Rad2Deg dbg p q = Inr (fmul (acosf (Dot np nq)) Rad2Deg)"
  by (simp add: Angle_def)


text \<open>
  C9 (amended). When both \<open>Normalize\<close> calls return, \<open>Angle\<close> is \<open>acosf\<close> of the dot product of
  the normalised vectors, multiplied by \<open>Rad2Deg\<close>. Let \<open>acosf\<close> map both zeros to the binary32
  number nearest to \<open>pi/2\<close> (\<open>0x3FC90FDB\<close>) and \<open>Rad2Deg\<close> be the binary32 number nearest to
  \<open>57.29578\<close>. Then for a vector \<open>u\<close> whose magnitude is not greater than \<open>1E-05f\<close>, as the zero
  vector, and every vector \<open>w\<close> with finite fields, \<open>Angle(u, w)\<close> and \<open>Angle(w, u)\<close> return
  exactly \<open>90.0f\<close>, with or without assertions.
\<close>

theorem C9_angle:
  assumes "acosf (Fin False 0) = Fin False (13176795 * 2 ^ 126)"
    and "acosf (Fin True 0) = Fin False (13176795 * 2 ^ 126)"
    and "Rad2Deg = lit 5729578 100000"
    and "\<not> fgt (magnitude u) (lit 1 100000)"
    and "finite_vec w"
  shows "(Normalize dbg p = Inr np \<and> Normalize dbg q = Inr nq
            \<longrightarrow> Angle acosf Rad2Deg dbg p q = Inr (fmul (acosf (Dot np nq)) Rad2Deg))
         \<and> Angle acosf Rad2Deg dbg u w = Inr (Fin False (45 * 2 ^ 150))
         \<and> Angle acosf Rad2Deg dbg w u = Inr (Fin False (45 * 2 ^ 150))"
  using Angle_formula [of dbg p np q nq acosf Rad2Deg] Angle_degenerate [OF assms, of dbg]
  by blast


text \<open>
  An \<open>acosf\<close> that is right at the two zeros, the zero vector and \<open>(1, 0, 0)\<close> satisfy the
  hypotheses.
\<close>

theorem C9_angle_witness:
  "(\<lambda>a. if is_zero a then Fin False (13176795 * 2 ^ 126) else NaN) (Fin False 0)
     = Fin False (13176795 * 2 ^ 126)
   \<and> (\<lambda>a. if is_zero a then Fin False (13176795 * 2 ^ 126) else NaN) (Fin True 0)
     = Fin False (13176795 * 2 ^ 126)
   \<and> \<not> fgt (magnitude zero) (lit 1 100000)
   \<and> finite_vec \<lparr>x = f1, y = f0, z = f0\<rparr>
   \<and> Normalize True zero = Inr zero
   \<and> Angle (\<lambda>a. if is_zero a then Fin False (13176795 * 2 ^ 126) else NaN) (lit 5729578 100000)
        True zero zero
       = Inr (fmul (if is_zero (Dot zero zero) then Fin False (13176795 * 2 ^ 126) else NaN)
           (lit 5729578 100000))
   \<and> Angle (\<lambda>a. if is_zero a then Fin False (13176795 * 2 ^ 126) else NaN) (lit 5729578 100000)
        True zero \<lparr>x = f1, y = f0, z = f0\<rparr> = Inr (Fin False (45 * 2 ^ 150))
   \<and> Angle (\<lambda>a. if is_zero a then Fin False (13176795 * 2 ^ 126) else NaN) (lit 5729578 100000)
        True \<lparr>x = f1, y = f0, z = f0\<rparr> zero = Inr (Fin False (45 * 2 ^ 150))"
proof -
  let ?acos = "\<lambda>a. if is_zero a then Fin False (13176795 * 2 ^ 126) else NaN"
  have h1: "?acos (Fin False 0) = Fin False (13176795 * 2 ^ 126)" by simp
  have h2: "?acos (Fin True 0) = Fin False (13176795 * 2 ^ 126)" by simp
  have h3: "lit 5729578 100000 = lit 5729578 100000" by (rule refl)
  have h4: "\<not> fgt (magnitude zero) (lit 1 100000)" by (rule zero_is_small)
  have h5: "finite_vec \<lparr>x = f1, y = f0, z = f0\<rparr>" by (simp add: finite_vec_def f0_def f1_def)
  have h6: "Normalize True zero = Inr zero" using h4 by (rule Normalize_small)
  from C9_angle [of ?acos "lit 5729578 100000" zero "\<lparr>x = f1, y = f0, z = f0\<rparr>" True zero zero zero zero,
      OF h1 h2 h3 h4 h5] h6
  have "Angle ?acos (lit 5729578 100000) True zero zero
          = Inr (fmul (?acos (Dot zero zero)) (lit 5729578 100000))
        \<and> Angle ?acos (lit 5729578 100000) True zero \<lparr>x = f1, y = f0, z = f0\<rparr>
          = Inr (Fin False (45 * 2 ^ 150))
        \<and> Angle ?acos (lit 5729578 100000) True \<lparr>x = f1, y = f0, z = f0\<rparr> zero
          = Inr (Fin False (45 * 2 ^ 150))"
    by blast
  with h1 h2 h4 h5 h6 show ?thesis by blast
qed


text \<open>
  C9 as stated fails when the other input has an infinite field: for \<open>Angle(zero, (inf, 0, 0))\<close>
  the second \<open>Normalize\<close> divides \<open>inf\<close> by \<open>inf\<close> and fails the constructor's assertion;
  without assertions the dot product is NaN, and so is the angle (the \<open>acosf\<close> of a NaN is a
  NaN).
\<close>

theorem C9_counterexample:
  "\<not> hasNaNs \<lparr>x = Infty False, y = f0, z = f0\<rparr>
   \<and> Angle (\<lambda>a. if is_zero a then Fin False (13176795 * 2 ^ 126) else NaN) (lit 5729578 100000)
        True zero \<lparr>x = Infty False, y = f0, z = f0\<rparr> = Inl AssertionFailed
   \<and> Angle (\<lambda>a. if is_zero a then Fin False (13176795 * 2 ^ 126) else NaN) (lit 5729578 100000)
        False zero \<lparr>x = Infty False, y = f0, z = f0\<rparr> = Inr NaN"
proof -
  have i: "magnitude \<lparr>x = Infty False, y = f0, z = f0\<rparr> = Infty False"
    by (simp add: magnitude_def f0_def)
  have g: "fgt (Infty False) (lit 1 100000)"
    using lit_eps by (simp add: fgt_def flt_def)
  have n: "Normalize True \<lparr>x = Infty False, y = f0, z = f0\<rparr> = Inl AssertionFailed"
    using g by (simp add: Normalize_explicit i div_fields_def hasNaNs_def)
  have r: "Normalize False \<lparr>x = Infty False, y = f0, z = f0\<rparr> = Inr \<lparr>x = NaN, y = f0, z = f0\<rparr>"
    using g by (simp add: Normalize_explicit i div_fields_def) (simp add: f0_def)
  have z: "Normalize dbg zero = Inr zero" for dbg
    using zero_is_small by (rule Normalize_small)
  have d: "Dot zero \<lparr>x = NaN, y = f0, z = f0\<rparr> = NaN"
    by (simp add: Dot_def zero_def)
  show ?thesis
    by (simp add: Angle_def z n r d hasNaNs_def) (simp add: f0_def)
qed

section \<open>Clamping the magnitude\<close>

lemma ev6_1: "lit 1 100000 = Fin False (2748779 * 2 ^ 111)"
  by (simp add: f32_eval)

lemma ev6_2: "fmul (Fin False (2 ^ 149)) (Fin False (2 ^ 149)) = Fin False (2 ^ 149)"
  by (simp add: f32_eval)

lemma ev6_3: "fadd (Fin False (2 ^ 149)) (Fin False (2 ^ 149)) = Fin False (2 ^ 150)"
  by (simp add: f32_eval)

lemma ev6_4: "fadd (Fin False (2 ^ 150)) (Fin False 0) = Fin False (2 ^ 150)"
  by (simp add: f32_eval)

lemma ev6_5: "fsqrt (Fin False (2 ^ 150)) = Fin False (11863283 * 2 ^ 126)"
  by (simp add: f32_eval)

lemma ev6_6: "fmul (Fin False (11863283 * 2 ^ 126)) (Fin False (11863283 * 2 ^ 126)) = Fin False (16777215 * 2 ^ 126)"
  by (simp add: f32_eval)

lemma ev6_7: "fdiv (Fin False (2 ^ 149)) (Fin False (11863283 * 2 ^ 126)) = Fin False (11863283 * 2 ^ 125)"
  by (simp add: f32_eval)

lemma ev6_8: "fmul (Fin False (11863283 * 2 ^ 125)) (Fin False (11863283 * 2 ^ 126)) = Fin False (16777215 * 2 ^ 125)"
  by (simp add: f32_eval)

lemma ev6_9: "fmul (Fin False (3 * 2 ^ 149)) (Fin False (3 * 2 ^ 149)) = Fin False (9 * 2 ^ 149)"
  by (simp add: f32_eval)

lemma ev6_10: "fadd (Fin False 0) (Fin False (9 * 2 ^ 149)) = Fin False (9 * 2 ^ 149)"
  by (simp add: f32_eval)

lemma ev6_11: "fadd (Fin False (9 * 2 ^ 149)) (Fin False (9 * 2 ^ 149)) = Fin False (9 * 2 ^ 150)"
  by (simp add: f32_eval)

lemma ev6_12: "fsqrt (Fin False (9 * 2 ^ 150)) = Fin False (4448731 * 2 ^ 129)"
  by (simp add: f32_eval)

lemma ev6_13: "fdiv (Fin False (3 * 2 ^ 149)) (Fin False (4448731 * 2 ^ 129)) = Fin False (2965821 * 2 ^ 127)"
  by (simp add: f32_eval)

lemma ev6_14: "fmul (Fin False (2965821 * 2 ^ 127)) (Fin False (3 * 2 ^ 149)) = Fin False (8897463 * 2 ^ 127)"
  by (simp add: f32_eval)

lemma ev6_15: "fmul (Fin False (8897463 * 2 ^ 127)) (Fin False (8897463 * 2 ^ 127)) = Fin False (9437185 * 2 ^ 128)"
  by (simp add: f32_eval)

lemma ev6_16: "fadd (Fin False 0) (Fin False (9437185 * 2 ^ 128)) = Fin False (9437185 * 2 ^ 128)"
  by (simp add: f32_eval)

lemma ev6_17: "fadd (Fin False (9437185 * 2 ^ 128)) (Fin False (9437185 * 2 ^ 128)) = Fin False (9437185 * 2 ^ 129)"
  by (simp add: f32_eval)

lemma ev6_18: "fsqrt (Fin False (9437185 * 2 ^ 129)) = Fin False (12582913 * 2 ^ 127)"
  by (simp add: f32_eval)

lemma ev6_19: "fmul (Fin False (2 ^ 249)) (Fin False (2 ^ 249)) = Infty False"
  by (simp add: f32_eval)

lemma ev6_20: "fmul (Fin False (2 ^ 219)) (Fin False (2 ^ 219)) = Infty False"
  by (simp add: f32_eval)

lemma ev6_22: "fadd (Fin False (2 ^ 149)) (Fin False 0) = Fin False (2 ^ 149)"
  by (simp add: f32_eval)

lemma ev6_23: "fmul (Fin False (4194327 * 2 ^ 52)) (Fin False (4194327 * 2 ^ 52)) = Fin False 1"
  by (simp add: f32_eval)

lemma ev6_24: "fsqrt (Fin False (2 ^ 149)) = Fin False (2 ^ 149)"
  by (simp add: f32_eval)

lemma ev6_25: "fdiv (Fin False (2 ^ 149)) (Fin False (2 ^ 149)) = Fin False (2 ^ 149)"
  by (simp add: f32_eval)

lemma ev6_26: "fmul (Fin False (2 ^ 149)) (Fin False (4194327 * 2 ^ 52)) = Fin False (4194327 * 2 ^ 52)"
  by (simp add: f32_eval)

lemma ev6_27: "fadd (Fin False 1) (Fin False 0) = Fin False 1"
  by (simp add: f32_eval)

lemma ev6_28: "fsqrt (Fin False 1) = Fin False (11863283 * 2 ^ 51)"
  by (simp add: f32_eval)

lemma ev6_29: "fmul (Fin False (5 * 2 ^ 150)) (Fin False (5 * 2 ^ 150)) = Fin False (25 * 2 ^ 151)"
  by (simp add: f32_eval)

lemma ev6_31: "fmul (Fin False (2 ^ 151)) (Fin False (2 ^ 151)) = Fin False (2 ^ 153)"
  by (simp add: f32_eval)

lemma ev6_32: "fadd (Fin False (9 * 2 ^ 149)) (Fin False (2 ^ 153)) = Fin False (25 * 2 ^ 149)"
  by (simp add: f32_eval)

lemma ev6_33: "fadd (Fin False (25 * 2 ^ 149)) (Fin False 0) = Fin False (25 * 2 ^ 149)"
  by (simp add: f32_eval)

lemma length3_345: "length3 \<lparr>x = Fin False (3 * 2 ^ 149), y = Fin False (2 ^ 151), z = f0\<rparr> = 5"
proof -
  have "sqr_length \<lparr>x = Fin False (3 * 2 ^ 149), y = Fin False (2 ^ 151), z = f0\<rparr> = 5 * 5"
    by (simp add: sqr_length_def f0_def)
  then show ?thesis unfolding length3_def by (simp only: real_sqrt_mult_self) simp
qed

lemma sqrMagnitude_345:
  "sqrMagnitude \<lparr>x = Fin False (3 * 2 ^ 149), y = Fin False (2 ^ 151), z = f0\<rparr> = Fin False (25 * 2 ^ 149)"
  using ev6_9 ev6_31 ev6_32 ev6_33 by (simp add: sqrMagnitude_def f0_def del: f32_ops)

lemma clamp_rounding_1:
  "magnitude \<lparr>x = f1, y = f1, z = f0\<rparr> = Fin False (11863283 * 2 ^ 126)
   \<and> ClampMagnitude True \<lparr>x = f1, y = f1, z = f0\<rparr> (Fin False (11863283 * 2 ^ 126))
       = Inr \<lparr>x = Fin False (16777215 * 2 ^ 125), y = Fin False (16777215 * 2 ^ 125), z = f0\<rparr>"
proof -
  let ?v = "\<lparr>x = f1, y = f1, z = f0\<rparr>"
  let ?L = "Fin False (11863283 * 2 ^ 126)"
  have m1: "magnitude ?v = ?L"
    using ev6_2 ev6_3 ev6_4 ev6_5 by (simp add: magnitude_def f0_def f1_def del: f32_ops)
  have s1: "sqrMagnitude ?v = Fin False (2 ^ 150)"
    using ev6_2 ev6_3 ev6_4 by (simp add: sqrMagnitude_def f0_def f1_def del: f32_ops)
  have g1: "fgt (Fin False (2 ^ 150)) (fmul ?L ?L)"
    using ev6_6 by (simp add: fgt_def flt_def del: f32_ops)
  have e1: "fgt ?L (lit 1 100000)"
    using ev6_1 by (simp add: fgt_def flt_def)
  have n1: "Normalize True ?v
      = Inr \<lparr>x = Fin False (11863283 * 2 ^ 125), y = Fin False (11863283 * 2 ^ 125), z = f0\<rparr>"
    using e1 ev6_7 m1
    by (simp add: Normalize_explicit div_fields_def hasNaNs_def f0_def f1_def del: f32_ops)
  have c1: "ClampMagnitude True ?v ?L
      = Inr \<lparr>x = Fin False (16777215 * 2 ^ 125), y = Fin False (16777215 * 2 ^ 125), z = f0\<rparr>"
    using g1 s1 n1 ev6_8
    by (simp add: ClampMagnitude_def normalized_def op_mul_f_def Vector3_xyz_def hasNaNs_def f0_def
        del: f32_ops)
  from m1 c1 show ?thesis by blast
qed

lemma clamp_rounding_2:
  "ClampMagnitude True \<lparr>x = f0, y = Fin False (3 * 2 ^ 149), z = Fin False (3 * 2 ^ 149)\<rparr>
        (Fin False (3 * 2 ^ 149))
       = Inr \<lparr>x = f0, y = Fin False (8897463 * 2 ^ 127), z = Fin False (8897463 * 2 ^ 127)\<rparr>
   \<and> magnitude \<lparr>x = f0, y = Fin False (8897463 * 2 ^ 127), z = Fin False (8897463 * 2 ^ 127)\<rparr>
       = Fin False (12582913 * 2 ^ 127)"
proof -
  let ?w = "\<lparr>x = f0, y = Fin False (3 * 2 ^ 149), z = Fin False (3 * 2 ^ 149)\<rparr>"
  let ?r = "\<lparr>x = f0, y = Fin False (8897463 * 2 ^ 127), z = Fin False (8897463 * 2 ^ 127)\<rparr>"
  have m2: "magnitude ?w = Fin False (4448731 * 2 ^ 129)"
    using ev6_9 ev6_10 ev6_11 ev6_12 by (simp add: magnitude_def f0_def del: f32_ops)
  have s2: "sqrMagnitude ?w = Fin False (9 * 2 ^ 150)"
    using ev6_9 ev6_10 ev6_11 by (simp add: sqrMagnitude_def f0_def del: f32_ops)
  have g2: "fgt (Fin False (9 * 2 ^ 150)) (fmul (Fin False (3 * 2 ^ 149)) (Fin False (3 * 2 ^ 149)))"
    using ev6_9 by (simp add: fgt_def flt_def del: f32_ops)
  have e2: "fgt (Fin False (4448731 * 2 ^ 129)) (lit 1 100000)"
    using ev6_1 by (simp add: fgt_def flt_def)
  have n2: "Normalize True ?w
      = Inr \<lparr>x = f0, y = Fin False (2965821 * 2 ^ 127), z = Fin False (2965821 * 2 ^ 127)\<rparr>"
    using e2 ev6_13 m2
    by (simp add: Normalize_explicit div_fields_def hasNaNs_def f0_def del: f32_ops)
  have c2: "ClampMagnitude True ?w (Fin False (3 * 2 ^ 149)) = Inr ?r"
    using g2 s2 n2 ev6_14
    by (simp add: ClampMagnitude_def normalized_def op_mul_f_def Vector3_xyz_def hasNaNs_def f0_def
        del: f32_ops)
  have m3: "magnitude ?r = Fin False (12582913 * 2 ^ 127)"
    using ev6_15 ev6_16 ev6_17 ev6_18 by (simp add: magnitude_def f0_def del: f32_ops)
  from c2 m3 show ?thesis by blast
qed

lemma clamp_overflow:
  "ClampMagnitude True \<lparr>x = Fin False (2 ^ 249), y = f0, z = f0\<rparr> (Fin False (2 ^ 219))
     = Inr \<lparr>x = Fin False (2 ^ 249), y = f0, z = f0\<rparr>"
  using ev6_19 ev6_20
  by (simp add: ClampMagnitude_def sqrMagnitude_def fgt_def flt_def f0_def del: f32_ops)

lemma clamp_underflow:
  "ClampMagnitude True \<lparr>x = f1, y = f0, z = f0\<rparr> (Fin False (4194327 * 2 ^ 52))
     = Inr \<lparr>x = Fin False (4194327 * 2 ^ 52), y = f0, z = f0\<rparr>
   \<and> magnitude \<lparr>x = Fin False (4194327 * 2 ^ 52), y = f0, z = f0\<rparr>
       = Fin False (11863283 * 2 ^ 51)"
proof -
  let ?v = "\<lparr>x = f1, y = f0, z = f0\<rparr>"
  let ?L = "Fin False (4194327 * 2 ^ 52)"
  have m: "magnitude ?v = Fin False (2 ^ 149)"
    using ev6_2 ev6_22 ev6_24 by (simp add: magnitude_def f0_def f1_def del: f32_ops)
  have s: "sqrMagnitude ?v = Fin False (2 ^ 149)"
    using ev6_2 ev6_22 by (simp add: sqrMagnitude_def f0_def f1_def del: f32_ops)
  have g: "fgt (Fin False (2 ^ 149)) (fmul ?L ?L)"
    using ev6_23 by (simp add: fgt_def flt_def del: f32_ops)
  have e: "fgt (Fin False (2 ^ 149)) (lit 1 100000)"
    using ev6_1 by (simp add: fgt_def flt_def)
  have n: "Normalize True ?v = Inr \<lparr>x = Fin False (2 ^ 149), y = f0, z = f0\<rparr>"
    using e ev6_25 m
    by (simp add: Normalize_explicit div_fields_def hasNaNs_def f0_def f1_def del: f32_ops)
  have c: "ClampMagnitude True ?v ?L = Inr \<lparr>x = ?L, y = f0, z = f0\<rparr>"
    using g s n ev6_26
    by (simp add: ClampMagnitude_def normalized_def op_mul_f_def Vector3_xyz_def hasNaNs_def f0_def
        del: f32_ops)
  have m': "magnitude \<lparr>x = ?L, y = f0, z = f0\<rparr> = Fin False (11863283 * 2 ^ 51)"
    using ev6_23 ev6_27 ev6_28 by (simp add: magnitude_def f0_def del: f32_ops)
  from c m' show ?thesis by blast
qed

text \<open>
  C6 (amended). With every operation rounded separately to binary32, for every vector \<open>v\<close>
  with finite fields and every finite \<open>L\<close>: \<open>ClampMagnitude(v, L)\<close> returns
  \<open>normalized(v) * L\<close> when the computed squared magnitude of \<open>v\<close> is greater than the
  computed \<open>L * L\<close>, and \<open>v\<close> unchanged otherwise. The result is at most \<open>L\<close> up to these
  tolerances: when \<open>L * L\<close> does not overflow, the result has finite fields and its exact
  Euclidean length is at most \<open>(1 + 2^(-20)) * |L| + 2^(-73)\<close>; when \<open>|L| \<le> 2^60\<close>, the
  magnitude that \<open>magnitude()\<close> computes for the result is finite and at most
  \<open>(1 + 2^(-19)) * |L| + 2^(-71)\<close>. The vector \<open>v\<close> is returned unchanged when its squared
  magnitude does not overflow and its exact length is at most
  \<open>(1 - 2^(-22)) * |L| - 2^(-72)\<close>, and when its computed magnitude is finite and at most
  \<open>(1 - 2^(-21)) * |L| - 2^(-71)\<close>. The zero vector is returned unchanged for every \<open>L\<close>.
\<close>

theorem C6_clamp_magnitude:
  "(finite_vec v \<and> is_finite L
      \<longrightarrow> (\<exists>n. normalized dbg v = Inr n
            \<and> ClampMagnitude dbg v L =
                (if fgt (sqrMagnitude v) (fmul L L) then Inr (mul_fields n L) else Inr v)))
   \<and> (finite_vec v \<and> is_finite L \<and> is_finite (fmul L L)
      \<longrightarrow> (\<exists>r. ClampMagnitude dbg v L = Inr r \<and> finite_vec r
            \<and> length3 r \<le> (1 + 1 / 2 ^ 20) * absval L + 1 / 2 ^ 73))
   \<and> (finite_vec v \<and> is_finite L \<and> absval L \<le> 2 ^ 60
      \<longrightarrow> (\<exists>r. ClampMagnitude dbg v L = Inr r \<and> is_finite (magnitude r)
            \<and> absval (magnitude r) \<le> (1 + 1 / 2 ^ 19) * absval L + 1 / 2 ^ 71))
   \<and> (finite_vec v \<and> is_finite L \<and> is_finite (sqrMagnitude v)
        \<and> length3 v \<le> (1 - 1 / 2 ^ 22) * absval L - 1 / 2 ^ 72
      \<longrightarrow> ClampMagnitude dbg v L = Inr v)
   \<and> (finite_vec v \<and> is_finite L \<and> is_finite (magnitude v)
        \<and> absval (magnitude v) \<le> (1 - 1 / 2 ^ 21) * absval L - 1 / 2 ^ 71
      \<longrightarrow> ClampMagnitude dbg v L = Inr v)
   \<and> ClampMagnitude dbg zero L = Inr zero"
  using ClampMagnitude_normalized [of v L dbg] ClampMagnitude_length [of v L dbg]
    ClampMagnitude_magnitude [of v L dbg] ClampMagnitude_keeps [of v L dbg]
    ClampMagnitude_keeps_computed [of v L dbg] ClampMagnitude_zero [of dbg L]
  by blast

text \<open>
  The vector \<open>(3, 4, 0)\<close>, of length 5, and \<open>L = 10\<close> satisfy every hypothesis: the vector is
  returned unchanged.
\<close>

theorem C6_clamp_magnitude_witness:
  "finite_vec \<lparr>x = Fin False (3 * 2 ^ 149), y = Fin False (2 ^ 151), z = f0\<rparr>
   \<and> is_finite (Fin False (5 * 2 ^ 150))
   \<and> is_finite (fmul (Fin False (5 * 2 ^ 150)) (Fin False (5 * 2 ^ 150)))
   \<and> absval (Fin False (5 * 2 ^ 150)) \<le> 2 ^ 60
   \<and> is_finite (sqrMagnitude \<lparr>x = Fin False (3 * 2 ^ 149), y = Fin False (2 ^ 151), z = f0\<rparr>)
   \<and> length3 \<lparr>x = Fin False (3 * 2 ^ 149), y = Fin False (2 ^ 151), z = f0\<rparr>
         \<le> (1 - 1 / 2 ^ 22) * absval (Fin False (5 * 2 ^ 150)) - 1 / 2 ^ 72
   \<and> is_finite (magnitude \<lparr>x = Fin False (3 * 2 ^ 149), y = Fin False (2 ^ 151), z = f0\<rparr>)
   \<and> absval (magnitude \<lparr>x = Fin False (3 * 2 ^ 149), y = Fin False (2 ^ 151), z = f0\<rparr>)
         \<le> (1 - 1 / 2 ^ 21) * absval (Fin False (5 * 2 ^ 150)) - 1 / 2 ^ 71
   \<and> (\<exists>n. normalized True \<lparr>x = Fin False (3 * 2 ^ 149), y = Fin False (2 ^ 151), z = f0\<rparr> = Inr n
          \<and> ClampMagnitude True \<lparr>x = Fin False (3 * 2 ^ 149), y = Fin False (2 ^ 151), z = f0\<rparr> (Fin False (5 * 2 ^ 150)) =
              (if fgt (sqrMagnitude \<lparr>x = Fin False (3 * 2 ^ 149), y = Fin False (2 ^ 151), z = f0\<rparr>) (fmul (Fin False (5 * 2 ^ 150)) (Fin False (5 * 2 ^ 150)))
               then Inr (mul_fields n (Fin False (5 * 2 ^ 150)))
               else Inr \<lparr>x = Fin False (3 * 2 ^ 149), y = Fin False (2 ^ 151), z = f0\<rparr>))
   \<and> (\<exists>r. ClampMagnitude True \<lparr>x = Fin False (3 * 2 ^ 149), y = Fin False (2 ^ 151), z = f0\<rparr> (Fin False (5 * 2 ^ 150)) = Inr r
          \<and> finite_vec r
          \<and> length3 r \<le> (1 + 1 / 2 ^ 20) * absval (Fin False (5 * 2 ^ 150)) + 1 / 2 ^ 73)
   \<and> (\<exists>r. ClampMagnitude True \<lparr>x = Fin False (3 * 2 ^ 149), y = Fin False (2 ^ 151), z = f0\<rparr> (Fin False (5 * 2 ^ 150)) = Inr r
          \<and> is_finite (magnitude r)
          \<and> absval (magnitude r) \<le> (1 + 1 / 2 ^ 19) * absval (Fin False (5 * 2 ^ 150)) + 1 / 2 ^ 71)
   \<and> ClampMagnitude True \<lparr>x = Fin False (3 * 2 ^ 149), y = Fin False (2 ^ 151), z = f0\<rparr> (Fin False (5 * 2 ^ 150))
       = Inr \<lparr>x = Fin False (3 * 2 ^ 149), y = Fin False (2 ^ 151), z = f0\<rparr>"
proof -
  let ?v = "\<lparr>x = Fin False (3 * 2 ^ 149), y = Fin False (2 ^ 151), z = f0\<rparr>"
  let ?L = "Fin False (5 * 2 ^ 150)"
  have h1: "finite_vec ?v" by (simp add: finite_vec_def f0_def)
  have h2: "is_finite ?L" by simp
  have h3: "is_finite (fmul ?L ?L)" using ev6_29 by (simp del: f32_ops)
  have a: "absval ?L = 10" by simp
  have h4: "absval ?L \<le> 2 ^ 60" unfolding a by simp
  have h5: "is_finite (sqrMagnitude ?v)" using sqrMagnitude_345 by simp
  have h6: "length3 ?v \<le> (1 - 1 / 2 ^ 22) * absval ?L - 1 / 2 ^ 72"
    unfolding length3_345 a by simp
  have h7: "is_finite (magnitude ?v)" using magnitude_345 by simp
  have m: "absval (magnitude ?v) = 5" using magnitude_345 by simp
  have h8: "absval (magnitude ?v) \<le> (1 - 1 / 2 ^ 21) * absval ?L - 1 / 2 ^ 71"
    unfolding m a by simp
  from C6_clamp_magnitude [of ?v ?L True] h1 h2 h3 h4 h5 h6 h7 h8 show ?thesis by blast
qed

text \<open>
  C6 as stated fails. By rounding: \<open>v = (1, 1, 0)\<close> has the computed magnitude
  \<open>L = 1.4142135f\<close>, so \<open>magnitude(v) \<le> L\<close>, but \<open>L * L\<close> rounds to \<open>1.9999999f\<close>, below the
  squared magnitude 2, and \<open>ClampMagnitude(v, L)\<close> returns \<open>(0.99999994, 0.99999994, 0)\<close>
  instead of \<open>v\<close>; \<open>ClampMagnitude((0, 3, 3), 3)\<close> returns \<open>(0, 2.1213205, 2.1213205)\<close>, whose
  computed magnitude \<open>3.0000002f\<close> is greater than 3. By overflow: for \<open>v = (2^100, 0, 0)\<close>
  and \<open>L = 2^70\<close> both squares are \<open>inf\<close>, and \<open>v\<close>, of magnitude \<open>inf\<close>, is returned unchanged. By underflow:
  \<open>ClampMagnitude((1, 0, 0), 2.6469925e-23f)\<close> returns \<open>(L, 0, 0)\<close>, whose computed magnitude
  \<open>3.743392e-23f\<close> is 1.41 times \<open>L\<close>.
\<close>

theorem C6_counterexample:
  "magnitude \<lparr>x = f1, y = f1, z = f0\<rparr> = Fin False (11863283 * 2 ^ 126)
   \<and> fle (magnitude \<lparr>x = f1, y = f1, z = f0\<rparr>) (Fin False (11863283 * 2 ^ 126))
   \<and> ClampMagnitude True \<lparr>x = f1, y = f1, z = f0\<rparr> (Fin False (11863283 * 2 ^ 126))
       = Inr \<lparr>x = Fin False (16777215 * 2 ^ 125), y = Fin False (16777215 * 2 ^ 125), z = f0\<rparr>
   \<and> \<lparr>x = Fin False (16777215 * 2 ^ 125), y = Fin False (16777215 * 2 ^ 125), z = f0\<rparr>
       \<noteq> \<lparr>x = f1, y = f1, z = f0\<rparr>
   \<and> fle f0 (Fin False (3 * 2 ^ 149))
   \<and> ClampMagnitude True \<lparr>x = f0, y = Fin False (3 * 2 ^ 149), z = Fin False (3 * 2 ^ 149)\<rparr>
        (Fin False (3 * 2 ^ 149))
       = Inr \<lparr>x = f0, y = Fin False (8897463 * 2 ^ 127), z = Fin False (8897463 * 2 ^ 127)\<rparr>
   \<and> magnitude \<lparr>x = f0, y = Fin False (8897463 * 2 ^ 127), z = Fin False (8897463 * 2 ^ 127)\<rparr>
       = Fin False (12582913 * 2 ^ 127)
   \<and> \<not> fle (Fin False (12582913 * 2 ^ 127)) (Fin False (3 * 2 ^ 149))
   \<and> ClampMagnitude True \<lparr>x = Fin False (2 ^ 249), y = f0, z = f0\<rparr> (Fin False (2 ^ 219))
       = Inr \<lparr>x = Fin False (2 ^ 249), y = f0, z = f0\<rparr>
   \<and> magnitude \<lparr>x = Fin False (2 ^ 249), y = f0, z = f0\<rparr> = Infty False
   \<and> \<not> fle (Infty False) (Fin False (2 ^ 219))
   \<and> ClampMagnitude True \<lparr>x = f1, y = f0, z = f0\<rparr> (Fin False (4194327 * 2 ^ 52))
       = Inr \<lparr>x = Fin False (4194327 * 2 ^ 52), y = f0, z = f0\<rparr>
   \<and> magnitude \<lparr>x = Fin False (4194327 * 2 ^ 52), y = f0, z = f0\<rparr>
       = Fin False (11863283 * 2 ^ 51)
   \<and> \<not> fle (Fin False (11863283 * 2 ^ 51)) (Fin False (4194327 * 2 ^ 52))"
proof -
  have l1: "fle (magnitude \<lparr>x = f1, y = f1, z = f0\<rparr>) (Fin False (11863283 * 2 ^ 126))"
    using clamp_rounding_1 by (simp add: fle_def)
  have d1: "\<lparr>x = Fin False (16777215 * 2 ^ 125), y = Fin False (16777215 * 2 ^ 125), z = f0\<rparr>
      \<noteq> \<lparr>x = f1, y = f1, z = f0\<rparr>"
    by (simp add: f1_def)
  have l2: "\<not> fle (Fin False (12582913 * 2 ^ 127)) (Fin False (3 * 2 ^ 149))"
    by (simp add: fle_def)
  have p2: "fle f0 (Fin False (3 * 2 ^ 149))"
    by (simp add: fle_def f0_def)
  have l3: "\<not> fle (Infty False) (Fin False (2 ^ 219))"
    by (simp add: fle_def)
  have l4: "\<not> fle (Fin False (11863283 * 2 ^ 51)) (Fin False (4194327 * 2 ^ 52))"
    by (simp add: fle_def)
  from clamp_rounding_1 l1 d1 p2 clamp_rounding_2 l2 clamp_overflow magnitude_huge l3
    clamp_underflow l4
  show ?thesis by blast
qed

end
